theory Spec2Isabelle
  imports Main
begin

section \<open>Errors raised by the hook\<close>

text \<open>
  Every \<^verbatim>\<open>raise\<close> of \<^verbatim>\<open>hook.py\<close> is a constructor, one per raise site, so that two
  raises of the same Python class with different messages stay apart:
  \<^item> \<open>OverflowError\<close>: \<^verbatim>\<open>raise OverflowError\<close> of \<^verbatim>\<open>fixed_prec_mul\<close> (the specification's
    PrecisionOverflowError);
  \<^item> \<open>MixedPrecisionError\<close>: \<^verbatim>\<open>AttributeError("Tried to call fixed precision operation on
    non-fixed precision tensor and a regular tensor.")\<close> (the specification's
    PrecisionMismatchError);
  \<^item> \<open>NonFixedPrecisionError\<close>: \<^verbatim>\<open>AttributeError("Tried to call fixed precision operation on
    non-fixed precision tensors")\<close>;
  \<^item> \<open>MissingAttribute n\<close>: the interpreter's own AttributeError when attribute \<open>n\<close> is read
    from an object that has none;
  \<^item> \<open>ArgumentError\<close>: the interpreter's TypeError for a call with the wrong arguments;
  \<^item> \<open>MultiPartyError\<close>: \<^verbatim>\<open>NotImplementedError("MPC not yet implemented ...")\<close> of
    \<^verbatim>\<open>_execute_remote_call\<close> (the specification's UnsupportedMultiPartyError);
  \<^item> \<open>MultiOwnerGetError\<close>: \<^verbatim>\<open>NotImplementedError('Only able to get_ tensors belonging to a
    single worker right now.')\<close> of \<^verbatim>\<open>get_\<close>;
  \<^item> \<open>UntrustedTypeError\<close>: the rejection of the type guard;
  \<^item> \<open>KeyError\<close>: a failed dictionary lookup;
  \<^item> \<open>NonTorchTypeError\<close>: \<^verbatim>\<open>TypeError("Tried to receive a non-Torch object of type ...")\<close>
    of \<^verbatim>\<open>_assemble_result_pointer\<close>;
  \<^item> \<open>NameError\<close>: a local variable read before it was bound;
  \<^item> \<open>IndexError\<close>: an index out of range;
  \<^item> \<open>KernelError\<close>: an error of the numeric kernel or of the transport, propagated unchanged.
\<close>

datatype error =
    OverflowError
  | MixedPrecisionError
  | NonFixedPrecisionError
  | MissingAttribute string
  | ArgumentError
  | MultiPartyError
  | MultiOwnerGetError
  | UntrustedTypeError
  | KeyError
  | NonTorchTypeError
  | NameError
  | IndexError
  | KernelError

section \<open>Tensor objects and the numeric kernel\<close>

type_synonym worker = nat

text \<open>
  A Python number handed to the kernel. \<^verbatim>\<open>10 ** k\<close> is an integer for \<open>k \<ge> 0\<close> and the float
  nearest to \<open>10\<^sup>k\<close> for \<open>k < 0\<close>; the float is kept symbolic.
\<close>

datatype pynum = PyInt int | PyFloatPow10 int

definition pow10 :: "int \<Rightarrow> pynum" where
  "pow10 k = (if 0 \<le> k then PyInt (10 ^ nat k) else PyFloatPow10 k)"

text \<open>The second argument of a kernel operation: another tensor's contents or a number.\<close>

datatype 'd kernel_arg = TensorArg 'd | NumArg pynum

text \<open>
  The classes the hook overrides: \<^verbatim>\<open>self.tensor_types\<close> and \<^verbatim>\<open>self.var_types\<close> of
  \<^verbatim>\<open>TorchHook.__init__\<close>.
\<close>

datatype torch_type =
    FloatTensor | DoubleTensor | HalfTensor | ByteTensor
  | CharTensor | ShortTensor | IntTensor | LongTensor
  | Variable | Parameter

definition tensor_types :: "torch_type list" where
  "tensor_types =
     [FloatTensor, DoubleTensor, HalfTensor, ByteTensor,
      CharTensor, ShortTensor, IntTensor, LongTensor]"

definition var_types :: "torch_type list" where
  "var_types = [Variable, Parameter]"

text \<open>
  The numeric kernel (\<^verbatim>\<open>torch\<close>'s own \<^verbatim>\<open>old_mul\<close>, \<^verbatim>\<open>old_div\<close>, \<^verbatim>\<open>old_add\<close>, \<^verbatim>\<open>old_sub\<close>
  on \<^verbatim>\<open>LongTensor\<close>) is an external library: it is a parameter of the model, over any
  type \<open>'d\<close> of tensor contents. \<open>zero_dim\<close> is the contents of \<^verbatim>\<open>tensor_type(0)\<close>, the
  zero-dimensional placeholder.
\<close>

record 'd kernel =
  old_mul :: "'d \<Rightarrow> 'd kernel_arg \<Rightarrow> 'd"
  old_div :: "'d \<Rightarrow> 'd kernel_arg \<Rightarrow> 'd"
  old_add :: "'d \<Rightarrow> 'd kernel_arg \<Rightarrow> 'd"
  old_sub :: "'d \<Rightarrow> 'd kernel_arg \<Rightarrow> 'd"
  zero_dim :: 'd
  cast :: "torch_type \<Rightarrow> 'd \<Rightarrow> 'd"

text \<open>
  The attributes of a tensor or variable object that the hook reads and writes, and its
  contents. An attribute the object does not have is \<open>None\<close>, so that
  \<^verbatim>\<open>hasattr(x, 'fixed_precision')\<close> is \<open>fixed_precision x \<noteq> None\<close>. \<open>obj_id\<close> is the
  attribute \<^verbatim>\<open>id\<close>; \<open>class_of\<close> is \<^verbatim>\<open>type(x)\<close>; \<open>data_registered\<close> and
  \<open>grad_registered\<close> say whether the attributes of these names exist, which the hook only
  ever tests with \<^verbatim>\<open>hasattr\<close>; \<open>requires_grad\<close> and \<open>volatile\<close> are the flags of a
  variable.
\<close>

record 'd torch_obj =
  class_of :: torch_type
  obj_id :: "nat option"
  owners :: "worker list option"
  is_pointer :: "bool option"
  fixed_precision :: "bool option"
  precision :: "int option"
  data_registered :: bool
  grad_registered :: bool
  requires_grad :: bool
  volatile :: bool
  contents :: 'd

text \<open>
  A tensor, or a variable with its \<^verbatim>\<open>data\<close> tensor and its optional \<^verbatim>\<open>grad\<close> variable.
  A tensor has neither child.
\<close>

datatype 'd tensorvar =
  TV (attrs: "'d torch_obj") (data_of: "'d tensorvar option") (grad_of: "'d tensorvar option")

text \<open>
  A Python value as it occurs among the arguments of an intercepted call: a tensor or
  variable, a literal, or an ordinary container of values.
\<close>

datatype 'd pyval =
    TensorVar "'d tensorvar"
  | PyNum pynum
  | PyBool bool
  | PyStr string
  | PyNone
  | PyList "'d pyval list"
  | PyDict "(string \<times> 'd pyval) list"

text \<open>\<^verbatim>\<open>hasattr(v, 'fixed_precision')\<close>: only a tensor object can have the attribute.\<close>

definition hasattr_fixed_precision :: "'d pyval \<Rightarrow> bool" where
  "hasattr_fixed_precision v =
     (case v of TensorVar x \<Rightarrow> fixed_precision (attrs x) \<noteq> None | _ \<Rightarrow> False)"

text \<open>
  The object a kernel operation on \<^verbatim>\<open>LongTensor\<close> returns: a fresh \<^verbatim>\<open>LongTensor\<close> with
  no attribute of the hook yet.
\<close>

definition kernel_result :: "'d \<Rightarrow> 'd torch_obj" where
  "kernel_result d =
     \<lparr>class_of = LongTensor, obj_id = None, owners = None, is_pointer = None,
      fixed_precision = None, precision = None, data_registered = False,
      grad_registered = False, requires_grad = False, volatile = False, contents = d\<rparr>"

text \<open>\<^verbatim>\<open>out.precision = p; out.fixed_precision = True\<close>\<close>

definition tag_fixed :: "'d torch_obj \<Rightarrow> int \<Rightarrow> 'd torch_obj" where
  "tag_fixed out p = out\<lparr>precision := Some p, fixed_precision := Some True\<rparr>"

text \<open>A tensor object as a value: it has no children.\<close>

definition tensor :: "'d torch_obj \<Rightarrow> 'd pyval" where
  "tensor x = TensorVar (TV x None None)"

text \<open>Reading \<^verbatim>\<open>x.precision\<close>.\<close>

definition get_precision :: "'d torch_obj \<Rightarrow> error + int" where
  "get_precision x =
     (case precision x of None \<Rightarrow> Inl (MissingAttribute ''precision'') | Some p \<Rightarrow> Inr p)"

text \<open>
  Reading \<^verbatim>\<open>self.precision\<close> and then \<^verbatim>\<open>other.precision\<close>, as the first expression
  of each operation does, left operand first. A value that is no tensor object has no
  attribute \<^verbatim>\<open>precision\<close>. The result carries the object behind \<^verbatim>\<open>other\<close>.
\<close>

definition read_precisions ::
  "'d torch_obj \<Rightarrow> 'd pyval \<Rightarrow> error + (int \<times> int \<times> 'd torch_obj)" where
  "read_precisions self other =
     (case get_precision self of
        Inl e \<Rightarrow> Inl e
      | Inr p1 \<Rightarrow>
          (case other of
             TensorVar y \<Rightarrow>
               (case get_precision (attrs y) of
                  Inl e \<Rightarrow> Inl e
                | Inr p2 \<Rightarrow> Inr (p1, p2, attrs y))
           | _ \<Rightarrow> Inl (MissingAttribute ''precision'')))"

text \<open>
  The truth value of a Python value in \<^verbatim>\<open>if (norm_left_prec):\<close>. The truth value of a
  tensor is the kernel's business.
\<close>

definition truthy :: "'d pyval \<Rightarrow> error + bool" where
  "truthy v =
     (case v of
        TensorVar x \<Rightarrow> Inl KernelError
      | PyNum n \<Rightarrow> Inr (n \<noteq> PyInt 0)
      | PyBool b \<Rightarrow> Inr b
      | PyStr s \<Rightarrow> Inr (s \<noteq> [])
      | PyNone \<Rightarrow> Inr False
      | PyList xs \<Rightarrow> Inr (xs \<noteq> [])
      | PyDict kvs \<Rightarrow> Inr (kvs \<noteq> []))"

section \<open>Fixed-precision arithmetic\<close>

text \<open>The \<^verbatim>\<open>elif\<close>/\<^verbatim>\<open>else\<close> tail shared by the four operations.\<close>

definition mixed_or_non_fixed :: "'d torch_obj \<Rightarrow> 'd pyval \<Rightarrow> error" where
  "mixed_or_non_fixed self other =
     (if (hasattr_fixed_precision (tensor self) \<and> \<not> hasattr_fixed_precision other) \<or>
         (\<not> hasattr_fixed_precision (tensor self) \<and> hasattr_fixed_precision other)
      then MixedPrecisionError else NonFixedPrecisionError)"

definition fixed_prec_mul ::
  "'d kernel \<Rightarrow> 'd torch_obj \<Rightarrow> 'd pyval \<Rightarrow> 'd pyval \<Rightarrow> error + 'd torch_obj" where
  "fixed_prec_mul K self other norm_left_prec =
     (if hasattr_fixed_precision (tensor self) \<and> hasattr_fixed_precision other then
        (case read_precisions self other of Inl e \<Rightarrow> Inl e | Inr (p1, p2, y) \<Rightarrow>
           if p1 + p2 > 17 then Inl OverflowError
           else
             (case truthy norm_left_prec of
                Inl e \<Rightarrow> Inl e
              | Inr True \<Rightarrow>
                  Inr (tag_fixed (kernel_result
                         (old_div K (old_mul K (contents self) (TensorArg (contents y)))
                            (NumArg (pow10 p2)))) p1)
              | Inr False \<Rightarrow>
                  Inr (tag_fixed (kernel_result
                         (old_div K (old_mul K (contents self) (TensorArg (contents y)))
                            (NumArg (pow10 p1)))) p2)))
      else Inl (mixed_or_non_fixed self other))"

text \<open>
  \<^verbatim>\<open>fixed_prec_add\<close>, \<^verbatim>\<open>fixed_prec_sub\<close> and \<^verbatim>\<open>fixed_prec_div\<close> test
  \<^verbatim>\<open>hasattr(self, 'fixed_precision') and hasattr(self, 'fixed_precision')\<close>: \<^verbatim>\<open>self\<close> twice.
\<close>

definition fixed_prec_add ::
  "'d kernel \<Rightarrow> 'd torch_obj \<Rightarrow> 'd pyval \<Rightarrow> error + 'd torch_obj" where
  "fixed_prec_add K self other =
     (if hasattr_fixed_precision (tensor self) \<and> hasattr_fixed_precision (tensor self) then
        (case read_precisions self other of Inl e \<Rightarrow> Inl e | Inr (p1, p2, y) \<Rightarrow>
           if p1 > p2 then
             Inr (tag_fixed (kernel_result
                    (old_add K (contents self)
                       (TensorArg (old_mul K (contents y) (NumArg (pow10 (p1 - p2))))))) p1)
           else if p1 < p2 then
             Inr (tag_fixed (kernel_result
                    (old_add K (old_mul K (contents self) (NumArg (pow10 (p2 - p1))))
                       (TensorArg (contents y)))) p2)
           else
             Inr (tag_fixed (kernel_result
                    (old_add K (contents self) (TensorArg (contents y)))) p1))
      else Inl (mixed_or_non_fixed self other))"

definition fixed_prec_sub ::
  "'d kernel \<Rightarrow> 'd torch_obj \<Rightarrow> 'd pyval \<Rightarrow> error + 'd torch_obj" where
  "fixed_prec_sub K self other =
     (if hasattr_fixed_precision (tensor self) \<and> hasattr_fixed_precision (tensor self) then
        (case read_precisions self other of Inl e \<Rightarrow> Inl e | Inr (p1, p2, y) \<Rightarrow>
           if p1 > p2 then
             Inr (tag_fixed (kernel_result
                    (old_sub K (contents self)
                       (TensorArg (old_mul K (contents y) (NumArg (pow10 (p1 - p2))))))) p1)
           else if p1 < p2 then
             Inr (tag_fixed (kernel_result
                    (old_sub K (old_mul K (contents self) (NumArg (pow10 (p2 - p1))))
                       (TensorArg (contents y)))) p2)
           else
             Inr (tag_fixed (kernel_result
                    (old_sub K (contents self) (TensorArg (contents y)))) p1))
      else Inl (mixed_or_non_fixed self other))"

definition fixed_prec_div ::
  "'d kernel \<Rightarrow> 'd torch_obj \<Rightarrow> 'd pyval \<Rightarrow> error + 'd torch_obj" where
  "fixed_prec_div K self other =
     (if hasattr_fixed_precision (tensor self) \<and> hasattr_fixed_precision (tensor self) then
        (case read_precisions self other of Inl e \<Rightarrow> Inl e | Inr (p1, p2, y) \<Rightarrow>
           if p1 < p2 then
             Inr (tag_fixed (kernel_result
                    (old_div K (old_mul K (contents self) (NumArg (pow10 (p2 - p1))))
                       (TensorArg (contents y)))) 0)
           else if p1 = p2 then
             Inr (tag_fixed (kernel_result
                    (old_div K (contents self) (TensorArg (contents y)))) 0)
           else
             Inr (tag_fixed (kernel_result
                    (old_div K (contents self)
                       (TensorArg (old_mul K (contents y) (NumArg (pow10 (p1 - p2))))))) 0))
      else Inl (mixed_or_non_fixed self other))"

text \<open>\<^verbatim>\<open>tensor_type.fixed_prec_trudiv = fixed_prec_div\<close>\<close>

definition fixed_prec_trudiv ::
  "'d kernel \<Rightarrow> 'd torch_obj \<Rightarrow> 'd pyval \<Rightarrow> error + 'd torch_obj" where
  "fixed_prec_trudiv = fixed_prec_div"

text \<open>
  Binding the positional arguments \<open>args\<close> and the keyword arguments \<open>kwargs\<close> of a call
  to the parameter names \<open>params\<close> of the callee, as the interpreter does for
  \<^verbatim>\<open>f(*args, **kwargs)\<close>: too many positional arguments, an unknown keyword or a parameter
  given twice is a TypeError.
\<close>

definition bind_params ::
  "string list \<Rightarrow> 'd pyval list \<Rightarrow> (string \<times> 'd pyval) list \<Rightarrow>
   error + (string \<Rightarrow> 'd pyval option)" where
  "bind_params params args kwargs =
     (if length args > length params then Inl ArgumentError
      else if \<exists>k \<in> set (map fst kwargs). k \<notin> set (drop (length args) params)
        then Inl ArgumentError
      else Inr (map_of (zip params args @ kwargs)))"

text \<open>Calling a method of signature \<^verbatim>\<open>(self, other)\<close>.\<close>

definition call_binary ::
  "('d torch_obj \<Rightarrow> 'd pyval \<Rightarrow> error + 'd torch_obj) \<Rightarrow>
   'd torch_obj \<Rightarrow> 'd pyval list \<Rightarrow> (string \<times> 'd pyval) list \<Rightarrow> error + 'd torch_obj" where
  "call_binary f self args kwargs =
     (case bind_params [''other''] args kwargs of
        Inl e \<Rightarrow> Inl e
      | Inr b \<Rightarrow> (case b ''other'' of None \<Rightarrow> Inl ArgumentError | Some other \<Rightarrow> f self other))"

text \<open>Calling \<^verbatim>\<open>fixed_prec_mul(self, other, norm_left_prec=True)\<close>.\<close>

definition call_fixed_prec_mul ::
  "'d kernel \<Rightarrow> 'd torch_obj \<Rightarrow> 'd pyval list \<Rightarrow> (string \<times> 'd pyval) list \<Rightarrow>
   error + 'd torch_obj" where
  "call_fixed_prec_mul K self args kwargs =
     (case bind_params [''other'', ''norm_left_prec''] args kwargs of
        Inl e \<Rightarrow> Inl e
      | Inr b \<Rightarrow>
          (case b ''other'' of
             None \<Rightarrow> Inl ArgumentError
           | Some other \<Rightarrow>
               fixed_prec_mul K self other
                 (case b ''norm_left_prec'' of None \<Rightarrow> PyBool True | Some v \<Rightarrow> v)))"

text \<open>
  \<^verbatim>\<open>_execute_fixed_precision_call\<close>: the dispatch on \<^verbatim>\<open>_method.func.__name__\<close>.
  \<open>orig\<close> is \<^verbatim>\<open>_method.func\<close>, the kernel's own method of that name, for every other name.
\<close>

definition execute_fixed_precision_call ::
  "'d kernel \<Rightarrow>
   (string \<Rightarrow> 'd torch_obj \<Rightarrow> 'd pyval list \<Rightarrow> (string \<times> 'd pyval) list \<Rightarrow> error + 'd torch_obj) \<Rightarrow>
   string \<Rightarrow> 'd torch_obj \<Rightarrow> 'd pyval list \<Rightarrow> (string \<times> 'd pyval) list \<Rightarrow>
   error + 'd torch_obj" where
  "execute_fixed_precision_call K orig name self args kwargs =
     (if name = ''mul'' then call_fixed_prec_mul K self args kwargs
      else if name = ''div'' then call_binary (fixed_prec_div K) self args kwargs
      else if name = ''add'' then call_binary (fixed_prec_add K) self args kwargs
      else if name = ''sub'' then call_binary (fixed_prec_sub K) self args kwargs
      else if name = ''trudiv'' then call_binary (fixed_prec_trudiv K) self args kwargs
      else orig name self args kwargs)"

subsection \<open>A kernel for evaluation\<close>

text \<open>
  The free kernel: contents are the expressions the kernel was asked to compute, over literal
  integer data. Every kernel interprets these expressions, so what holds of a call in the free
  kernel shows which kernel operations the call made, in which order and on which operands.
\<close>

datatype kexpr =
    Data "int list"
  | OldMul kexpr "kexpr kernel_arg"
  | OldDiv kexpr "kexpr kernel_arg"
  | OldAdd kexpr "kexpr kernel_arg"
  | OldSub kexpr "kexpr kernel_arg"
  | Cast torch_type kexpr

definition free_kernel :: "kexpr kernel" where
  "free_kernel =
     \<lparr>old_mul = OldMul, old_div = OldDiv, old_add = OldAdd, old_sub = OldSub,
      zero_dim = Data [], cast = Cast\<rparr>"

text \<open>
  The tensor \<^verbatim>\<open>set_precision\<close> returns: tagged fixed-precision, with the given precision.
\<close>

definition fixed_tensor :: "int \<Rightarrow> 'd \<Rightarrow> 'd torch_obj" where
  "fixed_tensor p d = tag_fixed (kernel_result d) p"

section \<open>Commands, the registry and the outside world\<close>

text \<open>
  A value of a compiled command: a tensor or variable is replaced by a reference, its id and
  its class; everything else passes through.
\<close>

datatype jval =
    JTensorRef "nat option" torch_type
  | JNum pynum
  | JBool bool
  | JStr string
  | JNone
  | JList "jval list"
  | JDict "(string \<times> jval) list"

text \<open>The dictionary \<^verbatim>\<open>command\<close> of \<^verbatim>\<open>_compile_command\<close>.\<close>

record command =
  has_self :: bool
  cmd_self :: "jval option"
  cmd_command :: string
  cmd_args :: "jval list"
  cmd_kwargs :: "(string \<times> jval) list"

text \<open>
  The keyword arguments of a call of \<^verbatim>\<open>register_object\<close>; a keyword the caller does not
  give is \<open>None\<close>.
\<close>

record registration =
  reg_id :: "nat option"
  reg_owners :: "worker list option"
  reg_is_pointer :: "bool option"

text \<open>
  A structured response of a remote worker,
  \<^verbatim>\<open>(registration, torch_type, var_data, var_grad)\<close>, with its nested responses.
\<close>

datatype resp =
  Resp (resp_registration: "registration option") (resp_torch_type: string)
       (resp_var_data: "resp option") (resp_var_grad: "resp option")

datatype response = Numeric pynum | Structured resp

text \<open>
  What the hook does to the world outside the call, in the order it does it:
  \<^item> \<open>SendTorchCommand w c\<close>: \<^verbatim>\<open>local_worker.send_torch_command(recipient=w, message=c)\<close>;
  \<^item> \<open>LocalCall n\<close>: \<^verbatim>\<open>_method.func\<close> of name \<open>n\<close> is run on the local data;
  \<^item> \<open>TypesGuard n\<close>: \<^verbatim>\<open>guard.types_guard(n)\<close> is called;
  \<^item> \<open>Construct t\<close>: the constructor of the class \<open>t\<close> that the guard returned is called;
  \<^item> \<open>ConstructTensor0\<close>: the constant \<^verbatim>\<open>torch.Tensor(0)\<close> is built;
  \<^item> \<open>ConstructPlaceholder t\<close>: the placeholder \<^verbatim>\<open>tensorvar_type(0)\<close> of the class \<open>t\<close> of
    the object at hand is built;
  \<^item> \<open>RegisterObject i\<close>: \<^verbatim>\<open>register_object\<close> stores an object under id \<open>i\<close>;
  \<^item> \<open>SendObj w i\<close>: \<^verbatim>\<open>local_worker.send_obj\<close> of the object of id \<open>i\<close> to worker \<open>w\<close>;
  \<^item> \<open>RequestObj w i\<close>: \<^verbatim>\<open>local_worker.request_obj(obj_id=i, recipient=w)\<close>;
  \<^item> \<open>SetGrad i\<close>: \<^verbatim>\<open>grad\<close> is assigned on the variable of id \<open>i\<close>.
\<close>

datatype event =
    SendTorchCommand worker command
  | LocalCall string
  | TypesGuard string
  | Construct torch_type
  | ConstructTensor0
  | ConstructPlaceholder torch_type
  | RegisterObject nat
  | SendObj worker nat
  | RequestObj worker nat
  | SetGrad "nat option"

text \<open>
  The state of the local process: the id of the local worker, the source of fresh ids, the
  registry of the local worker, what the other workers hold, and the effects so far.
\<close>

record 'd hook_state =
  local_worker_id :: worker
  next_id :: nat
  registry :: "nat \<Rightarrow> 'd tensorvar option"
  remote_objects :: "worker \<Rightarrow> nat \<Rightarrow> 'd tensorvar option"
  trace :: "event list"

definition log_event :: "event \<Rightarrow> 'd hook_state \<Rightarrow> 'd hook_state" where
  "log_event e st = st\<lparr>trace := trace st @ [e]\<rparr>"

text \<open>
  Modelled from the spec: \<^verbatim>\<open>register_object\<close> of the worker module, which is missing from the
  sources. The specification: \<^verbatim>\<open>register(obj, owners=[local], id=None, is_pointer=False)\<close>
  assigns an id if absent, stores the ownership metadata in the registry and returns the
  same object, now trackable.
\<close>

definition register_object ::
  "'d hook_state \<Rightarrow> 'd tensorvar \<Rightarrow> registration \<Rightarrow> 'd tensorvar \<times> 'd hook_state" where
  "register_object st x r =
     (let i = (case reg_id r of Some i \<Rightarrow> i | None \<Rightarrow> next_id st);
          x' = TV ((attrs x)\<lparr>
                 obj_id := Some i,
                 owners := Some (case reg_owners r of Some ws \<Rightarrow> ws | None \<Rightarrow> [local_worker_id st]),
                 is_pointer := Some (case reg_is_pointer r of Some b \<Rightarrow> b | None \<Rightarrow> False)\<rparr>)
               (data_of x) (grad_of x)
      in (x', st\<lparr>next_id := (if reg_id r = None then Suc (next_id st) else next_id st),
                 registry := (registry st)(i := Some x'),
                 trace := trace st @ [RegisterObject i]\<rparr>))"

definition no_keywords :: registration where
  "no_keywords = \<lparr>reg_id = None, reg_owners = None, reg_is_pointer = None\<rparr>"

text \<open>
  Modelled from the spec: the type guard \<^verbatim>\<open>TorchGuard.types_guard\<close> of the module
  \<^verbatim>\<open>guard\<close>, which is missing from the sources. The specification: \<^verbatim>\<open>validate(name)\<close>
  returns the type of that name and fails with UntrustedTypeError if the name is not in a
  fixed allow-list of the known tensor and variable classes. The names are the ones the
  serializers write: \<^verbatim>\<open>self.type()\<close> for a tensor, the class path for a variable.
\<close>

definition map_torch_type :: "(string \<times> torch_type) list" where
  "map_torch_type =
     [(''torch.FloatTensor'', FloatTensor), (''torch.DoubleTensor'', DoubleTensor),
      (''torch.HalfTensor'', HalfTensor), (''torch.ByteTensor'', ByteTensor),
      (''torch.CharTensor'', CharTensor), (''torch.ShortTensor'', ShortTensor),
      (''torch.IntTensor'', IntTensor), (''torch.LongTensor'', LongTensor),
      (''torch.autograd.variable.Variable'', Variable),
      (''torch.nn.parameter.Parameter'', Parameter)]"

definition types_guard :: "string \<Rightarrow> error + torch_type" where
  "types_guard name =
     (case map_of map_torch_type name of None \<Rightarrow> Inl UntrustedTypeError | Some t \<Rightarrow> Inr t)"

text \<open>
  The collaborators outside the hook: the numeric kernel, the original torch function or
  method of a given name (\<^verbatim>\<open>_method.func\<close>), and the answer of a worker to a command
  (\<^verbatim>\<open>send_torch_command\<close>, already as a list of responses), and the check of the
  contents of a tensor message (\<^verbatim>\<open>guard.tensor_contents_guard\<close>, of which the sources and
  the specification say nothing).
\<close>

record 'd outside =
  kernel :: "'d kernel"
  torch_call :: "string \<Rightarrow> 'd pyval list \<Rightarrow> (string \<times> 'd pyval) list \<Rightarrow> error + 'd pyval"
  worker_reply :: "worker \<Rightarrow> command \<Rightarrow> error + response list"
  tensor_contents_guard :: "'d \<Rightarrow> error + 'd"

section \<open>The command compiler\<close>

text \<open>
  Modelled from the spec: \<^verbatim>\<open>utils.PythonEncoder.encode\<close>, which is missing from the sources.
  The specification: walk the arguments recursively; every tensor or variable found is
  replaced by a serializable reference and collected into the operands; every other value
  passes through.
\<close>

fun encode :: "'d pyval \<Rightarrow> jval" where
  "encode (TensorVar x) = JTensorRef (obj_id (attrs x)) (class_of (attrs x))"
| "encode (PyNum n) = JNum n"
| "encode (PyBool b) = JBool b"
| "encode (PyStr s) = JStr s"
| "encode PyNone = JNone"
| "encode (PyList vs) = JList (map encode vs)"
| "encode (PyDict kvs) = JDict (map (\<lambda>kv. (fst kv, encode (snd kv))) kvs)"

fun tensorvars_of :: "'d pyval \<Rightarrow> 'd tensorvar list" where
  "tensorvars_of (TensorVar x) = [x]"
| "tensorvars_of (PyNum n) = []"
| "tensorvars_of (PyBool b) = []"
| "tensorvars_of (PyStr s) = []"
| "tensorvars_of PyNone = []"
| "tensorvars_of (PyList vs) = concat (map tensorvars_of vs)"
| "tensorvars_of (PyDict kvs) = concat (map (\<lambda>kv. tensorvars_of (snd kv)) kvs)"

text \<open>A \<^verbatim>\<open>functools.partial\<close> around a torch command, its arguments and its keywords.\<close>

record 'd partial =
  func_name :: string
  partial_args :: "'d pyval list"
  partial_keywords :: "(string \<times> 'd pyval) list"

text \<open>\<^verbatim>\<open>_compile_command\<close>: the command and the operands found in it.\<close>

definition compile_command ::
  "'d partial \<Rightarrow> bool \<Rightarrow> error + (command \<times> 'd tensorvar list)" where
  "compile_command partial_func with_self =
     (if with_self then
        (case partial_args partial_func of
           [] \<Rightarrow> Inl IndexError
         | self # args \<Rightarrow>
             Inr (\<lparr>has_self = True, cmd_self = Some (encode self),
                   cmd_command = func_name partial_func,
                   cmd_args = map encode args,
                   cmd_kwargs = map (\<lambda>kv. (fst kv, encode (snd kv))) (partial_keywords partial_func)\<rparr>,
                  tensorvars_of self @ concat (map tensorvars_of args) @
                  concat (map (\<lambda>kv. tensorvars_of (snd kv)) (partial_keywords partial_func))))
      else
        Inr (\<lparr>has_self = False, cmd_self = None,
              cmd_command = func_name partial_func,
              cmd_args = map encode (partial_args partial_func),
              cmd_kwargs = map (\<lambda>kv. (fst kv, encode (snd kv))) (partial_keywords partial_func)\<rparr>,
             concat (map tensorvars_of (partial_args partial_func)) @
             concat (map (\<lambda>kv. tensorvars_of (snd kv)) (partial_keywords partial_func))))"

section \<open>The call router\<close>

text \<open>
  \<^verbatim>\<open>new___new__\<close>, the constructor every hooked class has after \<^verbatim>\<open>_hook___new__\<close>: the
  original constructor builds the object, the worker registers it with
  \<^verbatim>\<open>is_pointer=False\<close>, and the class attribute \<^verbatim>\<open>fixed_precision\<close> is set to \<^verbatim>\<open>False\<close>.
  The new object has contents \<open>d\<close> and the children given.
\<close>

definition new_object ::
  "'d hook_state \<Rightarrow> torch_type \<Rightarrow> 'd \<Rightarrow> 'd tensorvar option \<Rightarrow> 'd tensorvar option \<Rightarrow>
   'd tensorvar \<times> 'd hook_state" where
  "new_object st t d dat grd =
     (let (x, st') =
            register_object st
              (TV ((kernel_result d)\<lparr>class_of := t\<rparr>) dat grd)
              (no_keywords\<lparr>reg_is_pointer := Some False\<rparr>)
      in (TV ((attrs x)\<lparr>fixed_precision := Some False\<rparr>) (data_of x) (grad_of x), st'))"

text \<open>
  The data of a pointer whose response has no \<^verbatim>\<open>var_data\<close>: \<^verbatim>\<open>torch.Tensor(0)\<close> for a
  variable class, the number \<^verbatim>\<open>0\<close> (no tensor) otherwise.
\<close>

definition default_data ::
  "'d kernel \<Rightarrow> 'd hook_state \<Rightarrow> torch_type \<Rightarrow> 'd tensorvar option \<times> 'd hook_state" where
  "default_data K st t =
     (if t \<in> set var_types then
        (let (d, st') = new_object (log_event ConstructTensor0 st) FloatTensor (zero_dim K) None None
         in (Some d, st'))
      else (None, st))"

text \<open>
  \<^verbatim>\<open>result = torch_type(data)\<close> and
  \<^verbatim>\<open>return self.local_worker.register_object(result, **registration)\<close>. Only a variable keeps
  the data as its child. A response without a registration makes the call of
  \<^verbatim>\<open>register_object\<close> a TypeError.
\<close>

definition construct_and_register ::
  "'d kernel \<Rightarrow> 'd hook_state \<Rightarrow> torch_type \<Rightarrow> 'd tensorvar option \<Rightarrow> registration option \<Rightarrow>
   (error + 'd tensorvar) \<times> 'd hook_state" where
  "construct_and_register K st t d reg =
     (let (result, st1) =
            new_object (log_event (Construct t) st) t (zero_dim K)
              (if t \<in> set var_types then d else None) None
      in case reg of
           None \<Rightarrow> (Inl ArgumentError, st1)
         | Some r \<Rightarrow> (let (p, st2) = register_object st1 result r in (Inr p, st2)))"

text \<open>
  \<^verbatim>\<open>_assemble_result_pointer(registration, torch_type, var_data, var_grad)\<close>. The guard is
  asked first; its KeyError becomes the TypeError of this function, any other error of the
  guard propagates. Then the nested \<^verbatim>\<open>var_data\<close> is assembled, or the default data is
  chosen; then the constructor of the validated class is called and the result is
  registered with the keywords of \<^verbatim>\<open>registration\<close>. \<^verbatim>\<open>var_grad\<close> is not used.
\<close>

fun assemble_result_pointer ::
  "'d kernel \<Rightarrow> 'd hook_state \<Rightarrow> resp \<Rightarrow> (error + 'd tensorvar) \<times> 'd hook_state" where
  "assemble_result_pointer K st (Resp reg ty var_data var_grad) =
     (case types_guard ty of
        Inl e \<Rightarrow>
          (Inl (if e = KeyError then NonTorchTypeError else e), log_event (TypesGuard ty) st)
      | Inr t \<Rightarrow>
          (case var_data of
             Some r \<Rightarrow>
               (case assemble_result_pointer K (log_event (TypesGuard ty) st) r of
                  (Inl e, st1) \<Rightarrow> (Inl e, st1)
                | (Inr d, st1) \<Rightarrow> construct_and_register K st1 t (Some d) reg)
           | None \<Rightarrow>
               (case default_data K (log_event (TypesGuard ty) st) t of
                  (d, st1) \<Rightarrow> construct_and_register K st1 t d reg)))"

text \<open>What an intercepted call returns.\<close>

datatype 'd call_result =
    Pointer "'d tensorvar"
  | NumericResult pynum
  | DataResult "resp option"
  | TupleResult "'d call_result list"
  | Value "'d pyval"

text \<open>The loop over the responses of \<^verbatim>\<open>_execute_remote_call\<close>.\<close>

fun assemble_responses ::
  "'d kernel \<Rightarrow> 'd hook_state \<Rightarrow> response list \<Rightarrow>
   (error + 'd call_result list) \<times> 'd hook_state" where
  "assemble_responses K st [] = (Inr [], st)"
| "assemble_responses K st (Numeric n # rs) =
     (case assemble_responses K st rs of
        (Inl e, st') \<Rightarrow> (Inl e, st')
      | (Inr ps, st') \<Rightarrow> (Inr (NumericResult n # ps), st'))"
| "assemble_responses K st (Structured (Resp None ty var_data var_grad) # rs) =
     (case assemble_responses K st rs of
        (Inl e, st') \<Rightarrow> (Inl e, st')
      | (Inr ps, st') \<Rightarrow> (Inr (DataResult var_data # ps), st'))"
| "assemble_responses K st (Structured (Resp (Some reg) ty var_data var_grad) # rs) =
     (case assemble_result_pointer K st (Resp (Some reg) ty var_data var_grad) of
        (Inl e, st1) \<Rightarrow> (Inl e, st1)
      | (Inr p, st1) \<Rightarrow>
          (case assemble_responses K st1 rs of
             (Inl e, st') \<Rightarrow> (Inl e, st')
           | (Inr ps, st') \<Rightarrow> (Inr (Pointer p # ps), st')))"

text \<open>
  \<^verbatim>\<open>[tensorvar.is_pointer for tensorvar in tensorvars]\<close>: the attribute is read from every
  operand.
\<close>

fun is_pointers :: "'d tensorvar list \<Rightarrow> error + bool list" where
  "is_pointers [] = Inr []"
| "is_pointers (x # xs) =
     (case is_pointer (attrs x) of
        None \<Rightarrow> Inl (MissingAttribute ''is_pointer'')
      | Some b \<Rightarrow> (case is_pointers xs of Inl e \<Rightarrow> Inl e | Inr bs \<Rightarrow> Inr (b # bs)))"

text \<open>
  \<^verbatim>\<open>[owner for tensorvar in tensorvars for owner in tensorvar.owners]\<close>. On a variable,
  \<^verbatim>\<open>owners\<close> is the property of \<^verbatim>\<open>_hook_var_owners\<close>, which registers a variable that has no
  owners yet; on a tensor it is a plain attribute.
\<close>

fun all_owners ::
  "'d hook_state \<Rightarrow> 'd tensorvar list \<Rightarrow> (error + worker list) \<times> 'd hook_state" where
  "all_owners st [] = (Inr [], st)"
| "all_owners st (x # xs) =
     (case owners (attrs x) of
        Some ws \<Rightarrow>
          (case all_owners st xs of
             (Inl e, st') \<Rightarrow> (Inl e, st')
           | (Inr rest, st') \<Rightarrow> (Inr (ws @ rest), st'))
      | None \<Rightarrow>
          if class_of (attrs x) \<in> set var_types then
            (let (x', st1) = register_object st x no_keywords in
             case all_owners st1 xs of
               (Inl e, st') \<Rightarrow> (Inl e, st')
             | (Inr rest, st') \<Rightarrow> (Inr ([local_worker_id st] @ rest), st'))
          else (Inl (MissingAttribute ''owners''), st))"

text \<open>
  The body of \<^verbatim>\<open>for worker in owners:\<close> of \<^verbatim>\<open>_execute_remote_call\<close>, which returns in its
  first round.
\<close>

definition send_and_assemble ::
  "'d outside \<Rightarrow> 'd hook_state \<Rightarrow> worker \<Rightarrow> command \<Rightarrow>
   (error + 'd call_result) \<times> 'd hook_state" where
  "send_and_assemble E st w c =
     (let st1 = log_event (SendTorchCommand w c) st in
      case worker_reply E w c of
        Inl e \<Rightarrow> (Inl e, st1)
      | Inr responses \<Rightarrow>
          (case assemble_responses (kernel E) st1 responses of
             (Inl e, st2) \<Rightarrow> (Inl e, st2)
           | (Inr pointers, st2) \<Rightarrow>
               (case pointers of
                  [] \<Rightarrow> (Inl IndexError, st2)
                | [p] \<Rightarrow> (Inr p, st2)
                | _ \<Rightarrow> (Inr (TupleResult pointers), st2))))"

text \<open>
  \<^verbatim>\<open>_execute_remote_call\<close>: the triple \<^verbatim>\<open>(pointers, has_remote, multiple_owners)\<close>, or the
  error raised. \<^verbatim>\<open>list(set(...))\<close> keeps one copy of every owner.
\<close>

definition execute_remote_call ::
  "'d outside \<Rightarrow> 'd hook_state \<Rightarrow> 'd partial \<Rightarrow> bool \<Rightarrow>
   (error + ('d call_result option \<times> bool \<times> bool)) \<times> 'd hook_state" where
  "execute_remote_call E st method with_self =
     (case compile_command method with_self of
        Inl e \<Rightarrow> (Inl e, st)
      | Inr (c, tensorvars) \<Rightarrow>
          (case is_pointers tensorvars of
             Inl e \<Rightarrow> (Inl e, st)
           | Inr bs \<Rightarrow>
               (case all_owners st tensorvars of
                  (Inl e, st1) \<Rightarrow> (Inl e, st1)
                | (Inr ws, st1) \<Rightarrow>
                    (let has_remote = (True \<in> set bs);
                         owners = remdups ws;
                         multiple_owners = (length owners > 1)
                     in if has_remote \<and> \<not> multiple_owners then
                          (case owners of
                             [] \<Rightarrow> (Inr (None, has_remote, multiple_owners), st1)
                           | w # _ \<Rightarrow>
                               (case send_and_assemble E st1 w c of
                                  (Inl e, st2) \<Rightarrow> (Inl e, st2)
                                | (Inr p, st2) \<Rightarrow>
                                    (Inr (Some p, has_remote, multiple_owners), st2)))
                        else if has_remote \<and> multiple_owners then (Inl MultiPartyError, st1)
                        else (Inr (None, has_remote, multiple_owners), st1)))))"

text \<open>
  \<^verbatim>\<open>_execute_local_call\<close>: the original function runs on the local data; a result of a
  hooked class is registered. No object ever has an attribute \<^verbatim>\<open>owner\<close>, so
  \<^verbatim>\<open>not hasattr(result, 'owner')\<close> holds. \<^verbatim>\<open>self.tensorvar_types\<close> is the tensor classes
  and \<^verbatim>\<open>Variable\<close>.
\<close>

definition tensorvar_types :: "torch_type list" where
  "tensorvar_types = tensor_types @ [Variable]"

definition execute_local_call ::
  "'d outside \<Rightarrow> 'd hook_state \<Rightarrow> 'd partial \<Rightarrow> (error + 'd call_result) \<times> 'd hook_state" where
  "execute_local_call E st method =
     (let st1 = log_event (LocalCall (func_name method)) st in
      case torch_call E (func_name method) (partial_args method) (partial_keywords method) of
        Inl e \<Rightarrow> (Inl e, st1)
      | Inr (TensorVar x) \<Rightarrow>
          if class_of (attrs x) \<in> set tensorvar_types then
            (let (x', st2) = register_object st1 x (no_keywords\<lparr>reg_is_pointer := Some False\<rparr>)
             in (Inr (Value (TensorVar x')), st2))
          else (Inr (Value (TensorVar x)), st1)
      | Inr v \<Rightarrow> (Inr (Value v), st1))"

text \<open>
  \<^verbatim>\<open>_execute_fixed_precision_call\<close> as \<^verbatim>\<open>method_router\<close> calls it. The five names go to
  the fixed-precision methods of \<^verbatim>\<open>self\<close>, which exist on the tensor classes only, so that
  reading one of them from a variable is the interpreter's AttributeError. Every other name
  returns \<^verbatim>\<open>_method.func(self, *args, **kwargs)\<close>, the original method called locally,
  whatever it returns.
\<close>

definition fixed_precision_methods :: "string list" where
  "fixed_precision_methods = [''mul'', ''div'', ''add'', ''sub'', ''trudiv'']"

definition execute_fixed_precision_branch ::
  "'d outside \<Rightarrow> 'd hook_state \<Rightarrow> 'd tensorvar \<Rightarrow> string \<Rightarrow> 'd pyval list \<Rightarrow>
   (string \<times> 'd pyval) list \<Rightarrow> (error + 'd call_result) \<times> 'd hook_state" where
  "execute_fixed_precision_branch E st self name args kwargs =
     (if name \<in> set fixed_precision_methods then
        (if class_of (attrs self) \<in> set var_types
         then (Inl (MissingAttribute (''fixed_prec_'' @ name)), st)
         else
           (case execute_fixed_precision_call (kernel E)
                   (\<lambda>n s as ks.
                      case torch_call E n (TensorVar self # as) ks of
                        Inl e \<Rightarrow> Inl e
                      | Inr (TensorVar y) \<Rightarrow> Inr (attrs y)
                      | Inr _ \<Rightarrow> Inl KernelError)
                   name (attrs self) args kwargs of
              Inl e \<Rightarrow> (Inl e, st)
            | Inr out \<Rightarrow> (Inr (Value (tensor out)), st)))
      else
        (let st1 = log_event (LocalCall name) st in
         case torch_call E name (TensorVar self # args) kwargs of
           Inl e \<Rightarrow> (Inl e, st1)
         | Inr v \<Rightarrow> (Inr (Value v), st1)))"

text \<open>
  \<^verbatim>\<open>method_router\<close>, the wrapper around every tensor and variable method: the partial
  \<^verbatim>\<open>_method\<close> holds \<^verbatim>\<open>self\<close> and the arguments; the route is chosen on \<^verbatim>\<open>self\<close>.
\<close>

definition method_router ::
  "'d outside \<Rightarrow> 'd hook_state \<Rightarrow> string \<Rightarrow> 'd tensorvar \<Rightarrow> 'd pyval list \<Rightarrow>
   (string \<times> 'd pyval) list \<Rightarrow> (error + 'd call_result) \<times> 'd hook_state" where
  "method_router E st name self args kwargs =
     (let method = \<lparr>func_name = name, partial_args = TensorVar self # args,
                    partial_keywords = kwargs\<rparr>
      in if is_pointer (attrs self) = Some True then
           (case execute_remote_call E st method True of
              (Inl e, st') \<Rightarrow> (Inl e, st')
            | (Inr (None, _), st') \<Rightarrow> (Inr (Value PyNone), st')
            | (Inr (Some p, _), st') \<Rightarrow> (Inr p, st'))
         else if fixed_precision (attrs self) = Some True then
           execute_fixed_precision_branch E st self name args kwargs
         else execute_local_call E st method)"

text \<open>\<^verbatim>\<open>function_router\<close>, the wrapper around every function of the torch module.\<close>

definition function_router ::
  "'d outside \<Rightarrow> 'd hook_state \<Rightarrow> string \<Rightarrow> 'd pyval list \<Rightarrow> (string \<times> 'd pyval) list \<Rightarrow>
   (error + 'd call_result) \<times> 'd hook_state" where
  "function_router E st name args kwargs =
     (let part = \<lparr>func_name = name, partial_args = args, partial_keywords = kwargs\<rparr> in
      case execute_remote_call E st part False of
        (Inl e, st') \<Rightarrow> (Inl e, st')
      | (Inr (pointer, has_remote, multiple_owners), st') \<Rightarrow>
          if has_remote \<and> \<not> multiple_owners then
            (case pointer of
               None \<Rightarrow> (Inr (Value PyNone), st')
             | Some p \<Rightarrow> (Inr p, st'))
          else execute_local_call E st' part)"

section \<open>Serialization\<close>

text \<open>
  A wire message of a tensor or of a variable, as \<^verbatim>\<open>json.loads\<close> returns it. A key the
  message does not have is \<open>None\<close>. The value of \<^verbatim>\<open>data\<close> is the list of numbers of a tensor
  (\<open>Inl\<close>) or the encoded message of the data of a variable (\<open>Inr\<close>); the value of
  \<^verbatim>\<open>grad\<close> is \<^verbatim>\<open>null\<close> (\<open>Some None\<close>) or the encoded message of the gradient.
\<close>

datatype 'd message = Message
  (msg_torch_type: "string option")
  (msg_data: "('d + 'd message) option")
  (msg_grad: "'d message option option")
  (msg_id: "nat option")
  (msg_owners: "worker list option")
  (msg_is_pointer: "bool option")
  (msg_requires_grad: "bool option")
  (msg_volatile: "bool option")

text \<open>
  The name of a class on the wire: \<^verbatim>\<open>self.type()\<close> of a tensor, the class path that
  \<^verbatim>\<open>re.search("<class '(.*)'>", str(self.__class__))\<close> finds for a variable.
\<close>

fun type_name :: "torch_type \<Rightarrow> string" where
  "type_name FloatTensor = ''torch.FloatTensor''"
| "type_name DoubleTensor = ''torch.DoubleTensor''"
| "type_name HalfTensor = ''torch.HalfTensor''"
| "type_name ByteTensor = ''torch.ByteTensor''"
| "type_name CharTensor = ''torch.CharTensor''"
| "type_name ShortTensor = ''torch.ShortTensor''"
| "type_name IntTensor = ''torch.IntTensor''"
| "type_name LongTensor = ''torch.LongTensor''"
| "type_name Variable = ''torch.autograd.variable.Variable''"
| "type_name Parameter = ''torch.nn.parameter.Parameter''"

text \<open>
  The property \<^verbatim>\<open>owners\<close> of a variable (\<^verbatim>\<open>_hook_var_owners\<close>): a variable without owners
  is registered first. On a tensor \<^verbatim>\<open>owners\<close> is a plain attribute. The object comes back
  as the read leaves it.
\<close>

definition get_owners ::
  "'d hook_state \<Rightarrow> 'd tensorvar \<Rightarrow> (error + (worker list \<times> 'd tensorvar)) \<times> 'd hook_state" where
  "get_owners st x =
     (case owners (attrs x) of
        Some ws \<Rightarrow> (Inr (ws, x), st)
      | None \<Rightarrow>
          if class_of (attrs x) \<in> set var_types then
            (let (x', st') = register_object st x no_keywords
             in (Inr ([local_worker_id st], x'), st'))
          else (Inl (MissingAttribute ''owners''), st))"

text \<open>
  The property \<^verbatim>\<open>data\<close> of a variable (\<^verbatim>\<open>new_data\<close>): on the first read the data tensor is
  registered with the owners and the pointer flag of the variable, under the id it has, if
  it has one. \<^verbatim>\<open>hasattr(self, 'owners')\<close> runs the property above. The result is the data
  and the variable as the read leaves it.
\<close>

definition get_data ::
  "'d hook_state \<Rightarrow> 'd tensorvar \<Rightarrow>
   (error + ('d tensorvar \<times> 'd tensorvar)) \<times> 'd hook_state" where
  "get_data st x =
     (case data_of x of
        None \<Rightarrow> (Inl (MissingAttribute ''data''), st)
      | Some d \<Rightarrow>
          if data_registered (attrs x) then (Inr (d, x), st)
          else
            (case get_owners st x of
               (Inl e, st1) \<Rightarrow> (Inl e, st1)
             | (Inr (ws, x1), st1) \<Rightarrow>
                 (case is_pointer (attrs x1) of
                    None \<Rightarrow> (Inl (MissingAttribute ''is_pointer''), st1)
                  | Some p \<Rightarrow>
                      (let (d', st2) =
                             register_object st1 d
                               \<lparr>reg_id = obj_id (attrs d), reg_owners = Some ws,
                                reg_is_pointer = Some p\<rparr>
                       in (Inr (d', TV ((attrs x1)\<lparr>data_registered := True\<rparr>)
                                       (Some d') (grad_of x1)), st2)))))"

text \<open>
  The property \<^verbatim>\<open>grad\<close> of a variable (\<^verbatim>\<open>new_grad\<close>): on the first read of a gradient that
  is not \<^verbatim>\<open>None\<close>, the owners of the gradient are read, which registers a gradient without
  owners. The backup and parent links the property keeps are read nowhere in the hook and
  are left out.
\<close>

definition get_grad ::
  "'d hook_state \<Rightarrow> 'd tensorvar \<Rightarrow>
   (error + ('d tensorvar option \<times> 'd tensorvar)) \<times> 'd hook_state" where
  "get_grad st x =
     (case grad_of x of
        None \<Rightarrow> (Inr (None, x), st)
      | Some g \<Rightarrow>
          if grad_registered (attrs x) then (Inr (Some g, x), st)
          else
            (case get_owners st g of
               (Inl e, st1) \<Rightarrow> (Inl e, st1)
             | (Inr (ws, g'), st1) \<Rightarrow>
                 (Inr (Some g', TV ((attrs x)\<lparr>grad_registered := True\<rparr>)
                                  (data_of x) (Some g')), st1)))"


text \<open>The length of the chain of gradients under a variable.\<close>

fun grad_depth :: "'d tensorvar \<Rightarrow> nat" where
  "grad_depth (TV a d None) = 0"
| "grad_depth (TV a d (Some g)) = Suc (grad_depth g)"



text \<open>The properties change no child of an object, so the recursion of \<^verbatim>\<open>ser\<close> ends.\<close>

lemma register_object_children:
  "register_object st x r = (y, st') \<Longrightarrow> data_of y = data_of x \<and> grad_of y = grad_of x"
  by (auto simp: register_object_def Let_def)

lemma get_owners_children:
  "get_owners st x = (Inr (ws, y), st') \<Longrightarrow> data_of y = data_of x \<and> grad_of y = grad_of x"
  by (auto simp: get_owners_def split: option.splits if_splits prod.splits
      dest: register_object_children)


lemma size_grad_of: "grad_of x = Some g \<Longrightarrow> size g < size x"
  by (cases x) auto

lemma size_children:
  "data_of y = data_of x \<Longrightarrow> grad_of y = grad_of x \<Longrightarrow> size y = size x"
  by (cases x; cases y) auto


lemma size_get_owners:
  "get_owners st x = (Inr (ws, y), st') \<Longrightarrow> size y = size x"
  by (auto dest!: get_owners_children intro: size_children)


lemma size_get_grad:
  assumes "get_grad st x = (Inr (Some g, y), st')"
  shows "size g < size x"
proof (cases "grad_of x")
  case None
  then show ?thesis using assms by (simp add: get_grad_def)
next
  case (Some g0)
  have "size g = size g0"
    using assms Some
    by (auto simp: get_grad_def split: if_splits prod.splits sum.splits dest: size_get_owners)
  then show ?thesis using size_grad_of [OF Some] by simp
qed


lemma size_get_grad_sym:
  "(Inr (Some g, y), st') = get_grad st x \<Longrightarrow> size g < size x"
  using size_get_grad [of st x g y st'] by simp




text \<open>
  Modelled from the spec: \<^verbatim>\<open>handle_register\<close> of the worker module, which is missing from
  the sources. The specification: an object is registered at deserialization time, and its
  id is stable across transfer; so the object is registered under the id of its message,
  with the other keywords of \<^verbatim>\<open>register_object\<close> left to their defaults. A message without
  an id is a KeyError.
\<close>

definition handle_register ::
  "'d hook_state \<Rightarrow> 'd tensorvar \<Rightarrow> 'd message \<Rightarrow> (error + 'd tensorvar) \<times> 'd hook_state" where
  "handle_register st x msg =
     (case msg_id msg of
        None \<Rightarrow> (Inl KeyError, st)
      | Some i \<Rightarrow>
          (let (y, st') = register_object st x (no_keywords\<lparr>reg_id := Some i\<rparr>)
           in (Inr y, st')))"

text \<open>
  \<^verbatim>\<open>self(data, volatile=..., requires_grad=...)\<close>: the constructor of a variable class, hooked
  as every constructor is.
\<close>

definition new_variable ::
  "'d kernel \<Rightarrow> 'd hook_state \<Rightarrow> torch_type \<Rightarrow> 'd tensorvar \<Rightarrow> bool \<Rightarrow> bool \<Rightarrow>
   'd tensorvar \<times> 'd hook_state" where
  "new_variable K st t dat vol rg =
     (let (v, st') = new_object (log_event (Construct t) st) t (zero_dim K) (Some dat) None
      in (TV ((attrs v)\<lparr>volatile := vol, requires_grad := rg\<rparr>) (data_of v) (grad_of v), st'))"

text \<open>The setter of the property \<^verbatim>\<open>grad\<close>: \<^verbatim>\<open>self.old_grad = new\<close>.\<close>

definition set_grad ::
  "'d hook_state \<Rightarrow> 'd tensorvar \<Rightarrow> 'd tensorvar option \<Rightarrow> 'd tensorvar \<times> 'd hook_state" where
  "set_grad st v g = (TV (attrs v) (data_of v) g, log_event (SetGrad (obj_id (attrs v))) st)"

text \<open>
  The end of \<^verbatim>\<open>deser\<close> of a variable class and of \<^verbatim>\<open>_build_var\<close>: the constructor is
  called on the data, then the gradient is assigned. A local variable that was never bound,
  because the message has no \<^verbatim>\<open>data\<close> or no \<^verbatim>\<open>grad\<close>, is a NameError where it is read; a
  flag the message does not have is a KeyError. \<open>data\<close> and \<open>grad\<close> are \<open>None\<close> when
  unbound.
\<close>

definition construct_variable ::
  "'d kernel \<Rightarrow> 'd hook_state \<Rightarrow> torch_type \<Rightarrow> 'd tensorvar option \<Rightarrow>
   'd tensorvar option option \<Rightarrow> bool option \<Rightarrow> bool option \<Rightarrow>
   (error + 'd tensorvar) \<times> 'd hook_state" where
  "construct_variable K st t data grad vol rg =
     (case data of
        None \<Rightarrow> (Inl NameError, st)
      | Some d \<Rightarrow>
          (case vol of
             None \<Rightarrow> (Inl KeyError, st)
           | Some volatile_flag \<Rightarrow>
               (case rg of
                  None \<Rightarrow> (Inl KeyError, st)
                | Some requires_grad_flag \<Rightarrow>
                    (case new_variable K st t d volatile_flag requires_grad_flag of
                       (var, st1) \<Rightarrow>
                         (case grad of
                            None \<Rightarrow> (Inl NameError, st1)
                          | Some g \<Rightarrow>
                              (case set_grad st1 var g of
                                 (var', st2) \<Rightarrow> (Inr var', st2)))))))"

text \<open>
  \<^verbatim>\<open>deser\<close>, called as \<^verbatim>\<open>cls.deser(cls, obj_msg)\<close>, and \<^verbatim>\<open>_build_var(obj_msg, torch_type)\<close>.
  A tensor class builds the tensor from the checked contents of the message. A variable
  class first rebuilds and registers the data (\<open>rebuild_data\<close>, the block under
  \<^verbatim>\<open>if 'data' in obj_msg.keys()\<close>), then the gradient (\<open>rebuild_grad\<close>, the block under
  \<^verbatim>\<open>if 'grad' in obj_msg.keys()\<close>), then calls its own constructor and assigns the
  gradient. The two blocks are the same in \<^verbatim>\<open>deser\<close> and in \<^verbatim>\<open>_build_var\<close> but for the flag
  \<^verbatim>\<open>temporary\<close> of \<^verbatim>\<open>handle_register\<close>, which has no part in the model. \<^verbatim>\<open>Parameter\<close> takes
  no \<^verbatim>\<open>volatile\<close>: \<^verbatim>\<open>deser\<close> leaves the keyword out for that class and does not read
  the flag of the message, while \<^verbatim>\<open>_build_var\<close> passes the keyword to every class, which
  is the interpreter's TypeError for \<^verbatim>\<open>Parameter\<close> once the arguments of the call are
  evaluated.
\<close>

function (sequential) deser ::
    "'d outside \<Rightarrow> 'd hook_state \<Rightarrow> torch_type \<Rightarrow> 'd message \<Rightarrow>
     (error + 'd tensorvar) \<times> 'd hook_state"
  and build_var ::
    "'d outside \<Rightarrow> 'd hook_state \<Rightarrow> 'd message \<Rightarrow> torch_type \<Rightarrow>
     (error + 'd tensorvar) \<times> 'd hook_state"
  and rebuild_data ::
    "'d outside \<Rightarrow> 'd hook_state \<Rightarrow> ('d + 'd message) option \<Rightarrow>
     (error + 'd tensorvar option) \<times> 'd hook_state"
  and rebuild_grad ::
    "'d outside \<Rightarrow> 'd hook_state \<Rightarrow> 'd message option option \<Rightarrow>
     (error + 'd tensorvar option option) \<times> 'd hook_state" where
  "deser E st t (Message ty dat grd i ws ip rg vol) =
     (if t \<notin> set var_types then
        (case dat of
           Some (Inl d) \<Rightarrow>
             (case tensor_contents_guard E d of
                Inl e \<Rightarrow> (Inl e, st)
              | Inr d' \<Rightarrow>
                  (case new_object (log_event (Construct t) st) t d' None None of
                     (v, st1) \<Rightarrow> (Inr v, st1)))
         | Some (Inr m) \<Rightarrow> (Inl ArgumentError, st)
         | None \<Rightarrow>
             (case new_object (log_event (Construct t) st) t (zero_dim (kernel E)) None None of
                (v, st1) \<Rightarrow> (Inr v, st1)))
      else
        (case rebuild_data E st dat of
           (Inl e, st1) \<Rightarrow> (Inl e, st1)
         | (Inr data, st1) \<Rightarrow>
             (case rebuild_grad E st1 grd of
                (Inl e, st2) \<Rightarrow> (Inl e, st2)
              | (Inr grad, st2) \<Rightarrow>
                  construct_variable (kernel E) st2 t data grad
                    (if t = Parameter then Some False else vol) rg)))"
| "build_var E st (Message ty dat grd i ws ip rg vol) t =
     (case rebuild_data E st dat of
        (Inl e, st1) \<Rightarrow> (Inl e, st1)
      | (Inr data, st1) \<Rightarrow>
          (case rebuild_grad E st1 grd of
             (Inl e, st2) \<Rightarrow> (Inl e, st2)
           | (Inr grad, st2) \<Rightarrow>
               if t = Parameter \<and> data \<noteq> None \<and> vol \<noteq> None \<and> rg \<noteq> None
               then (Inl ArgumentError, st2)
               else construct_variable (kernel E) st2 t data grad vol rg))"
| "rebuild_data E st None = (Inr None, st)"
| "rebuild_data E st (Some (Inl d)) = (Inl ArgumentError, st)"
| "rebuild_data E st (Some (Inr data_msg)) =
     (case msg_torch_type data_msg of
        None \<Rightarrow> (Inl KeyError, st)
      | Some n \<Rightarrow>
          (case types_guard n of
             Inl e \<Rightarrow> (Inl e, log_event (TypesGuard n) st)
           | Inr tensor_type \<Rightarrow>
               (case deser E (log_event (TypesGuard n) st) tensor_type data_msg of
                  (Inl e, st1) \<Rightarrow> (Inl e, st1)
                | (Inr data_obj, st1) \<Rightarrow>
                    (case handle_register st1 data_obj data_msg of
                       (Inl e, st2) \<Rightarrow> (Inl e, st2)
                     | (Inr d, st2) \<Rightarrow> (Inr (Some d), st2)))))"
| "rebuild_grad E st None = (Inr None, st)"
| "rebuild_grad E st (Some None) = (Inr (Some None), st)"
| "rebuild_grad E st (Some (Some grad_msg)) =
     (case msg_torch_type grad_msg of
        None \<Rightarrow> (Inl KeyError, st)
      | Some n \<Rightarrow>
          (case types_guard n of
             Inl e \<Rightarrow> (Inl e, log_event (TypesGuard n) st)
           | Inr var_type \<Rightarrow>
               (case build_var E (log_event (TypesGuard n) st) grad_msg var_type of
                  (Inl e, st1) \<Rightarrow> (Inl e, st1)
                | (Inr grad_obj, st1) \<Rightarrow>
                    (case handle_register st1 grad_obj grad_msg of
                       (Inl e, st2) \<Rightarrow> (Inl e, st2)
                     | (Inr g, st2) \<Rightarrow> (Inr (Some (Some g)), st2)))))"

  by pat_completeness auto

termination
  by (relation "measure (case_sum
        (case_sum (\<lambda>(E, st, t, m). 2 * size m) (\<lambda>(E, st, m, t). 2 * size m))
        (case_sum
           (\<lambda>(E, st, dat). case dat of Some (Inr m) \<Rightarrow> 2 * size m + 1 | _ \<Rightarrow> 0)
           (\<lambda>(E, st, grd). case grd of Some (Some m) \<Rightarrow> 2 * size m + 1 | _ \<Rightarrow> 0)))")
     (auto split: option.splits sum.splits)

section \<open>Sending and getting\<close>

text \<open>
  Modelled from the spec: \<^verbatim>\<open>send_obj\<close> and \<^verbatim>\<open>request_obj\<close> of the worker module, which is
  missing from the sources, over the transport. The specification: \<^verbatim>\<open>send_object\<close>
  transmits the object to the destination worker, and the registry entry of the local
  object is retained; \<^verbatim>\<open>request_object(id, worker)\<close> requests the authoritative object from
  that owner and rehydrates it locally. So a worker holds an object under its id as it was
  sent, and gives it back as it holds it; a worker that holds no object of that id answers
  with a failure of the transport. \<^verbatim>\<open>_check_workers\<close>, which makes a list of one worker,
  is left out: the workers are a list.
\<close>

definition send_obj ::
  "'d hook_state \<Rightarrow> 'd tensorvar \<Rightarrow> worker \<Rightarrow> (error + unit) \<times> 'd hook_state" where
  "send_obj st x w =
     (case obj_id (attrs x) of
        None \<Rightarrow> (Inl (MissingAttribute ''id''), st)
      | Some i \<Rightarrow>
          (Inr (),
           st\<lparr>remote_objects := (remote_objects st)(w := (remote_objects st w)(i := Some x)),
              trace := trace st @ [SendObj w i]\<rparr>))"

definition request_obj ::
  "'d hook_state \<Rightarrow> nat \<Rightarrow> worker \<Rightarrow> (error + 'd tensorvar) \<times> 'd hook_state" where
  "request_obj st i w =
     (case remote_objects st w i of
        None \<Rightarrow> (Inl KernelError, log_event (RequestObj w i) st)
      | Some x \<Rightarrow> (Inr x, log_event (RequestObj w i) st))"

text \<open>\<^verbatim>\<open>for worker in workers: hook_self.local_worker.send_obj(self, worker, ...)\<close>\<close>

fun send_to_workers ::
  "'d hook_state \<Rightarrow> 'd tensorvar \<Rightarrow> worker list \<Rightarrow> (error + unit) \<times> 'd hook_state" where
  "send_to_workers st x [] = (Inr (), st)"
| "send_to_workers st x (w # ws) =
     (case send_obj st x w of
        (Inl e, st1) \<Rightarrow> (Inl e, st1)
      | (Inr u, st1) \<Rightarrow> send_to_workers st1 x ws)"

text \<open>
  \<^verbatim>\<open>x.old_set_(tensorvar_type(0))\<close>: the placeholder is built by the hooked constructor, and
  the contents of \<^verbatim>\<open>x\<close> become those of the placeholder.
\<close>

definition set_contents :: "'d tensorvar \<Rightarrow> 'd \<Rightarrow> 'd tensorvar" where
  "set_contents x d = TV ((attrs x)\<lparr>contents := d\<rparr>) (data_of x) (grad_of x)"

definition zero_out ::
  "'d kernel \<Rightarrow> 'd hook_state \<Rightarrow> 'd tensorvar \<Rightarrow> 'd tensorvar \<times> 'd hook_state" where
  "zero_out K st x =
     (case new_object (log_event (ConstructPlaceholder (class_of (attrs x))) st)
             (class_of (attrs x)) (zero_dim K) None None of
        (placeholder, st') \<Rightarrow> (set_contents x (contents (attrs placeholder)), st'))"

text \<open>
  \<^verbatim>\<open>_var_to_pointer\<close>: first the gradient, depth first, then the data of the variable is
  emptied, then the variable is flagged as a pointer. The reads of \<^verbatim>\<open>var.grad\<close> and
  \<^verbatim>\<open>var.data\<close> go through the properties.
\<close>

function var_to_pointer ::
  "'d kernel \<Rightarrow> 'd hook_state \<Rightarrow> 'd tensorvar \<Rightarrow> (error + 'd tensorvar) \<times> 'd hook_state" where
  "var_to_pointer K st var =
     (case get_grad st var of
        (Inl e, st1) \<Rightarrow> (Inl e, st1)
      | (Inr (g, var1), st1) \<Rightarrow>
          (case (case g of
                   None \<Rightarrow> (Inr None, st1)
                 | Some g' \<Rightarrow>
                     (case var_to_pointer K st1 g' of
                        (Inl e, st2) \<Rightarrow> (Inl e, st2)
                      | (Inr g'', st2) \<Rightarrow> (Inr (Some g''), st2))) of
             (Inl e, st2) \<Rightarrow> (Inl e, st2)
           | (Inr grad, st2) \<Rightarrow>
               (case get_data st2 (TV (attrs var1) (data_of var1) grad) of
                  (Inl e, st3) \<Rightarrow> (Inl e, st3)
                | (Inr (d, var2), st3) \<Rightarrow>
                    (case zero_out K st3 d of
                       (d', st4) \<Rightarrow>
                         (Inr (TV ((attrs var2)\<lparr>is_pointer := Some True\<rparr>)
                                 (Some d') (grad_of var2)), st4)))))"
  by pat_completeness auto

termination
  by (relation "measure (\<lambda>(K, st, x). size x)") (auto dest!: size_get_grad_sym)

declare var_to_pointer.simps [simp del]

text \<open>
  \<^verbatim>\<open>send_\<close>, which is also bound to the name \<^verbatim>\<open>send\<close>. \<^verbatim>\<open>tensorvar_type\<close> is the class the method was hooked
  on, which is \<^verbatim>\<open>Variable\<close> for \<^verbatim>\<open>Variable\<close> and its subclass \<^verbatim>\<open>Parameter\<close>.
\<close>

definition send ::
  "'d kernel \<Rightarrow> 'd hook_state \<Rightarrow> 'd tensorvar \<Rightarrow> worker list \<Rightarrow> bool \<Rightarrow>
   (error + 'd tensorvar) \<times> 'd hook_state" where
  "send K st self workers send_pointer =
     (case send_to_workers st self workers of
        (Inl e, st1) \<Rightarrow> (Inl e, st1)
      | (Inr u, st1) \<Rightarrow>
          if \<not> send_pointer then
            (case (if class_of (attrs self) \<in> set var_types then (self, st1)
                   else zero_out K st1 self) of
               (zeroed, st2) \<Rightarrow>
                 (case obj_id (attrs self) of
                    None \<Rightarrow> (Inl (MissingAttribute ''id''), st2)
                  | Some i \<Rightarrow>
                      (case register_object st2 zeroed
                              \<lparr>reg_id = Some i, reg_owners = Some workers,
                               reg_is_pointer = Some True\<rparr> of
                         (self', st3) \<Rightarrow>
                           if class_of (attrs self) \<in> set var_types
                           then var_to_pointer K st3 self'
                           else (Inr self', st3))))
          else (Inr self, st1))"

text \<open>
  \<^verbatim>\<open>x.type(t)\<close>: the object itself when it has the class \<open>t\<close>, a cast of its contents
  otherwise.
\<close>

definition as_type :: "'d kernel \<Rightarrow> 'd tensorvar \<Rightarrow> torch_type \<Rightarrow> 'd" where
  "as_type K x t =
     (if class_of (attrs x) = t then contents (attrs x) else cast K t (contents (attrs x)))"

text \<open>
  \<^verbatim>\<open>get_\<close>, which is also bound to the name \<^verbatim>\<open>get\<close>. \<^verbatim>\<open>self.owners\<close> is read through the property on a
  variable. The object that comes back is registered under its own id, its values are
  copied into \<^verbatim>\<open>self\<close>, and \<^verbatim>\<open>self\<close> is registered again, owned by the local worker.
\<close>

definition get ::
  "'d kernel \<Rightarrow> 'd hook_state \<Rightarrow> 'd tensorvar \<Rightarrow> (error + 'd tensorvar) \<times> 'd hook_state" where
  "get K st self0 =
     (case get_owners st self0 of
        (Inl e, st1) \<Rightarrow> (Inl e, st1)
      | (Inr (ws, self), st1) \<Rightarrow>
          if length ws \<noteq> 1 then (Inl MultiOwnerGetError, st1)
          else if local_worker_id st1 \<in> set ws then (Inr self, st1)
          else
            (case obj_id (attrs self) of
               None \<Rightarrow> (Inl (MissingAttribute ''id''), st1)
             | Some i \<Rightarrow>
                 (case request_obj st1 i (hd ws) of
                    (Inl e, st2) \<Rightarrow> (Inl e, st2)
                  | (Inr x0, st2) \<Rightarrow>
                      (case obj_id (attrs x0) of
                         None \<Rightarrow> (Inl (MissingAttribute ''id''), st2)
                       | Some j \<Rightarrow>
                           (case register_object st2 x0 (no_keywords\<lparr>reg_id := Some j\<rparr>) of
                              (x, st3) \<Rightarrow>
                                if class_of (attrs self) \<notin> set var_types then
                                  (case register_object st3
                                          (set_contents self (as_type K x (class_of (attrs self))))
                                          \<lparr>reg_id = Some i,
                                           reg_owners = Some [local_worker_id st3],
                                           reg_is_pointer = None\<rparr> of
                                     (self', st4) \<Rightarrow> (Inr self', st4))
                                else
                                  (case get_data st3 self of
                                     (Inl e, st4) \<Rightarrow> (Inl e, st4)
                                   | (Inr (d, self1), st4) \<Rightarrow>
                                       (case get_data st4 x of
                                          (Inl e, st5) \<Rightarrow> (Inl e, st5)
                                        | (Inr (xd, x1), st5) \<Rightarrow>
                                            (case get_grad st5 x1 of
                                               (Inl e, st6) \<Rightarrow> (Inl e, st6)
                                             | (Inr (xg, x2), st6) \<Rightarrow>
                                                 (case (case xg of
                                                          None \<Rightarrow>
                                                            (TV (attrs self1) (Some xd)
                                                               (grad_of self1), st6)
                                                        | Some g \<Rightarrow>
                                                            set_grad st6
                                                              (TV (attrs self1) (Some xd)
                                                                 (grad_of self1))
                                                              (Some g)) of
                                                    (self2, st7) \<Rightarrow>
                                                      (case register_object st7
                                                              (set_contents self2
                                                                 (as_type K x
                                                                    (class_of (attrs d))))
                                                              \<lparr>reg_id = Some i,
                                                               reg_owners =
                                                                 Some [local_worker_id st7],
                                                               reg_is_pointer = None\<rparr> of
                                                         (self', st8) \<Rightarrow>
                                                           (Inr self', st8)))))))))))"

section \<open>Vocabulary for the properties\<close>

text \<open>
  \<open>emits st st' P\<close>: the state \<open>st'\<close> comes after \<open>st\<close>, and every effect recorded in between
  satisfies \<open>P\<close>.
\<close>

definition emits :: "'d hook_state \<Rightarrow> 'd hook_state \<Rightarrow> (event \<Rightarrow> bool) \<Rightarrow> bool" where
  "emits st st' P \<longleftrightarrow> (\<exists>evs. trace st' = trace st @ evs \<and> list_all P evs)"

text \<open>
  \<open>guard_respected ok evs\<close>: in the effects \<open>evs\<close>, every constructor that is called belongs
  to a class that the type guard returned earlier in \<open>evs\<close>, or to one of the classes \<open>ok\<close>
  validated before; and when the guard rejects a name, nothing happens after it.
\<close>

fun guard_respected :: "torch_type list \<Rightarrow> event list \<Rightarrow> bool" where
  "guard_respected ok [] = True"
| "guard_respected ok (TypesGuard n # es) =
     (case types_guard n of Inl e \<Rightarrow> es = [] | Inr t \<Rightarrow> guard_respected (t # ok) es)"
| "guard_respected ok (Construct t # es) = (t \<in> set ok \<and> guard_respected ok es)"
| "guard_respected ok (e # es) = guard_respected ok es"

text \<open>\<open>rejected evs\<close>: the type guard rejected a name in the effects \<open>evs\<close>.\<close>

fun rejected :: "event list \<Rightarrow> bool" where
  "rejected [] = False"
| "rejected (TypesGuard n # es) =
     (case types_guard n of Inl e \<Rightarrow> True | Inr t \<Rightarrow> rejected es)"
| "rejected (e # es) = rejected es"

text \<open>
  \<open>guarded_run st ok res st'\<close>: a call that starts in \<open>st\<close> and ends in \<open>st'\<close> with the
  result \<open>res\<close> respects the guard, and fails with UntrustedTypeError if the guard rejected
  a name.
\<close>

definition guarded_run ::
  "'d hook_state \<Rightarrow> torch_type list \<Rightarrow> error + 'a \<Rightarrow> 'd hook_state \<Rightarrow> bool" where
  "guarded_run st ok res st' \<longleftrightarrow>
     (\<exists>evs. trace st' = trace st @ evs \<and> guard_respected ok evs \<and>
        (rejected evs \<longrightarrow> res = Inl UntrustedTypeError))"


text \<open>
  \<open>well_formed_variable x\<close>: the variable \<open>x\<close> has a data tensor, owners and a pointer
  flag, as every registered variable has, and so has every gradient under it.
\<close>

fun well_formed_variable :: "'d tensorvar \<Rightarrow> bool" where
  "well_formed_variable (TV a d g) =
     (d \<noteq> None \<and> owners a \<noteq> None \<and> is_pointer a \<noteq> None \<and>
      (case g of None \<Rightarrow> True | Some g' \<Rightarrow> well_formed_variable g'))"

section \<open>Concrete objects for evaluation\<close>

text \<open>A tensor as \<^verbatim>\<open>register_object\<close> leaves it: with an id, its owners and its pointer flag.\<close>

definition registered_tensor ::
  "torch_type \<Rightarrow> nat \<Rightarrow> worker list \<Rightarrow> bool \<Rightarrow> 'd \<Rightarrow> 'd tensorvar" where
  "registered_tensor t i ws p d =
     TV ((kernel_result d)\<lparr>class_of := t, obj_id := Some i, owners := Some ws,
           is_pointer := Some p, fixed_precision := Some False\<rparr>) None None"

text \<open>
  A local process whose worker has id \<open>0\<close>, with an empty registry, fresh ids from \<open>100\<close> on,
  and nothing done yet.
\<close>

definition initial_state :: "'d hook_state" where
  "initial_state =
     \<lparr>local_worker_id = 0, next_id = 100, registry = (\<lambda>i. None),
      remote_objects = (\<lambda>w i. None), trace = []\<rparr>"

text \<open>
  An outside world over the free kernel: every torch function returns \<^verbatim>\<open>None\<close>, and every
  worker answers a command with one pointer response, registered under id \<open>7\<close> at that worker;
  the contents of every tensor message are accepted.
\<close>

definition test_outside :: "kexpr outside" where
  "test_outside =
     \<lparr>kernel = free_kernel,
      torch_call = (\<lambda>n as ks. Inr PyNone),
      worker_reply = (\<lambda>w c. Inr [Structured (Resp
         (Some \<lparr>reg_id = Some 7, reg_owners = Some [w], reg_is_pointer = Some True\<rparr>)
         ''torch.FloatTensor'' None None)]),
      tensor_contents_guard = Inr\<rparr>"

text \<open>
  A registered variable of id \<open>7\<close> at the local worker, with a registered data tensor of id
  \<open>5\<close> and a registered gradient of id \<open>6\<close>, whose own data has id \<open>8\<close>.
\<close>

definition registered_variable ::
  "nat \<Rightarrow> worker list \<Rightarrow> bool \<Rightarrow> 'd \<Rightarrow> 'd tensorvar \<Rightarrow> 'd tensorvar option \<Rightarrow> 'd tensorvar" where
  "registered_variable i ws p z d g =
     TV ((kernel_result z)\<lparr>class_of := Variable, obj_id := Some i, owners := Some ws,
           is_pointer := Some p, fixed_precision := Some False,
           data_registered := True, grad_registered := True\<rparr>) (Some d) g"

definition example_variable :: "kexpr tensorvar" where
  "example_variable =
     registered_variable 7 [0] False (Data [])
       (registered_tensor FloatTensor 5 [0] False (Data [1, 2]))
       (Some (registered_variable 6 [0] False (Data [])
                (registered_tensor FloatTensor 8 [0] False (Data [0, 0])) None))"

text \<open>The messages \<^verbatim>\<open>ser\<close> writes for the example variable and its parts.\<close>

definition example_data_message :: "kexpr message" where
  "example_data_message =
     Message (Some ''torch.FloatTensor'') (Some (Inl (Data [1, 2]))) None
       (Some 5) (Some [0]) (Some False) None None"



text \<open>
  A message of a variable whose data is a float tensor and whose gradient names a type that
  is no torch class.
\<close>

definition untrusted_grad_message :: "kexpr message" where
  "untrusted_grad_message =
     Message (Some ''torch.autograd.variable.Variable'')
       (Some (Inr example_data_message))
       (Some (Some (Message (Some ''os.system'') None None
                      (Some 6) (Some [1]) (Some False) (Some False) (Some False))))
       (Some 7) (Some [1]) (Some False) (Some True) (Some False)"

text \<open>
  A response for a variable pointer whose nested data names a type that is no torch class.
\<close>

definition untrusted_response :: resp where
  "untrusted_response =
     Resp (Some \<lparr>reg_id = Some 7, reg_owners = Some [1], reg_is_pointer = Some True\<rparr>)
       ''torch.autograd.variable.Variable''
       (Some (Resp (Some \<lparr>reg_id = Some 8, reg_owners = Some [1], reg_is_pointer = Some True\<rparr>)
                ''os.system'' None None))
       None"

section \<open>Properties of the fixed-precision operations\<close>

lemma read_precisions_Some:
  "precision a = Some p1 \<Longrightarrow> precision b = Some p2 \<Longrightarrow>
   read_precisions a (tensor b) = Inr (p1, p2, b)"
  by (simp add: read_precisions_def get_precision_def tensor_def)

lemma tag_fixed_sel:
  "fixed_precision (tag_fixed out p) = Some True"
  "precision (tag_fixed out p) = Some p"
  "contents (tag_fixed out p) = contents out"
  by (simp_all add: tag_fixed_def)

lemma fixed_tensor_sel:
  "fixed_precision (fixed_tensor p d) = Some True"
  "precision (fixed_tensor p d) = Some p"
  "contents (fixed_tensor p d) = d"
  by (simp_all add: fixed_tensor_def tag_fixed_def kernel_result_def)

lemma hasattr_fixed_precision_TensorVar:
  "fixed_precision a = Some t \<Longrightarrow> hasattr_fixed_precision (tensor a)"
  by (simp add: hasattr_fixed_precision_def tensor_def)

lemma fixed_prec_div_fixed:
  assumes "fixed_precision a = Some True" and "precision a = Some p1"
    and "precision b = Some p2"
  shows "fixed_prec_div K a (tensor b) =
           Inr (tag_fixed (kernel_result (old_div K
                  (if p1 < p2 then old_mul K (contents a) (NumArg (PyInt (10 ^ nat \<bar>p1 - p2\<bar>)))
                   else contents a)
                  (TensorArg
                    (if p2 < p1 then old_mul K (contents b) (NumArg (PyInt (10 ^ nat \<bar>p1 - p2\<bar>)))
                     else contents b)))) 0)"
  using assms
  by (simp add: fixed_prec_div_def hasattr_fixed_precision_TensorVar read_precisions_Some
      pow10_def)

lemma call_binary_one:
  "call_binary f self [other] [] = f self other"
  by (simp add: call_binary_def bind_params_def)

text \<open>
  Claim C5. For two fixed-precision operands with precisions \<open>p1\<close> and \<open>p2\<close>,
  \<^verbatim>\<open>fixed_prec_mul\<close> fails exactly when \<open>p1 + p2 > 17\<close>, and then with the overflow error;
  when \<open>p1 + p2 \<le> 17\<close> it returns a result tagged fixed-precision whose precision is \<open>p1\<close>
  by default and \<open>p2\<close> when \<^verbatim>\<open>norm_left_prec\<close> is false.
\<close>

theorem fixed_prec_mul_overflow_iff:
  assumes "fixed_precision a = Some True" and "precision a = Some p1"
    and "fixed_precision b = Some True" and "precision b = Some p2"
  shows "(fixed_prec_mul K a (tensor b) (PyBool norm_left_prec) = Inl OverflowError
            \<longleftrightarrow> p1 + p2 > 17) \<and>
         ((\<exists>e. fixed_prec_mul K a (tensor b) (PyBool norm_left_prec) = Inl e)
            \<longleftrightarrow> p1 + p2 > 17) \<and>
         (p1 + p2 \<le> 17 \<longrightarrow>
            (\<exists>out. fixed_prec_mul K a (tensor b) (PyBool norm_left_prec) = Inr out \<and>
               fixed_precision out = Some True \<and>
               precision out = Some (if norm_left_prec then p1 else p2)) \<and>
            (\<exists>out. call_fixed_prec_mul K a [tensor b] [] = Inr out \<and>
               fixed_precision out = Some True \<and> precision out = Some p1))"
  using assms
  by (cases norm_left_prec)
     (simp_all add: fixed_prec_mul_def call_fixed_prec_mul_def bind_params_def
        hasattr_fixed_precision_TensorVar read_precisions_Some tag_fixed_sel truthy_def)

theorem fixed_prec_mul_overflow_iff_witness:
  "fixed_prec_mul free_kernel (fixed_tensor 9 (Data [1500000000]))
       (tensor (fixed_tensor 9 (Data [2]))) (PyBool True) = Inl OverflowError \<and>
   (\<exists>out. fixed_prec_mul free_kernel (fixed_tensor 9 (Data [1500000000]))
             (tensor (fixed_tensor 8 (Data [2]))) (PyBool False) = Inr out \<and>
      fixed_precision out = Some True \<and> precision out = Some 8)"
  using fixed_prec_mul_overflow_iff
          [of "fixed_tensor 9 (Data [1500000000])" 9 "fixed_tensor 9 (Data [2])" 9 free_kernel True]
        fixed_prec_mul_overflow_iff
          [of "fixed_tensor 9 (Data [1500000000])" 9 "fixed_tensor 8 (Data [2])" 8 free_kernel False]
  by (simp add: fixed_tensor_sel)

text \<open>
  Claim C6 fails on the code. For a left operand tagged fixed-precision and a right operand
  that carries no tag (the number in \<^verbatim>\<open>x.add(5)\<close>), \<^verbatim>\<open>fixed_prec_add\<close>,
  \<^verbatim>\<open>fixed_prec_sub\<close> and \<^verbatim>\<open>fixed_prec_div\<close> take the branch for two fixed-precision
  operands, because their guard tests \<^verbatim>\<open>self\<close> twice, and stop at the read of
  \<^verbatim>\<open>other.precision\<close> with the interpreter's error for a missing attribute; the raise of
  the mixed-operand error is never reached. \<^verbatim>\<open>fixed_prec_mul\<close>, whose guard tests
  \<^verbatim>\<open>other\<close>, raises the mixed-operand error on the same operands, and so does
  \<^verbatim>\<open>fixed_prec_add\<close> when the untagged operand is the left one.
\<close>

theorem fixed_prec_mixed_operand_divergence:
  "fixed_prec_add free_kernel (fixed_tensor 2 (Data [150])) (PyNum (PyInt 5))
     = Inl (MissingAttribute ''precision'') \<and>
   fixed_prec_sub free_kernel (fixed_tensor 2 (Data [150])) (PyNum (PyInt 5))
     = Inl (MissingAttribute ''precision'') \<and>
   fixed_prec_div free_kernel (fixed_tensor 2 (Data [150])) (PyNum (PyInt 5))
     = Inl (MissingAttribute ''precision'') \<and>
   fixed_prec_mul free_kernel (fixed_tensor 2 (Data [150])) (PyNum (PyInt 5)) (PyBool True)
     = Inl MixedPrecisionError \<and>
   fixed_prec_add free_kernel (kernel_result (Data [5])) (tensor (fixed_tensor 2 (Data [150])))
     = Inl MixedPrecisionError"
  by (simp add: fixed_prec_add_def fixed_prec_sub_def fixed_prec_div_def fixed_prec_mul_def
      hasattr_fixed_precision_def read_precisions_def get_precision_def mixed_or_non_fixed_def
      fixed_tensor_def tag_fixed_def kernel_result_def tensor_def)

text \<open>
  Claim C7. For two fixed-precision operands with precisions \<open>p1\<close> and \<open>p2\<close>,
  \<^verbatim>\<open>fixed_prec_add\<close> and \<^verbatim>\<open>fixed_prec_sub\<close> multiply the operand of lower precision by
  \<open>10 ^ \<bar>p1 - p2\<bar>\<close>, apply the integer operation and tag the result with precision
  \<open>max p1 p2\<close>; \<^verbatim>\<open>fixed_prec_div\<close> rescales in the same way, divides, and tags the result
  with precision \<open>0\<close>.
\<close>

theorem fixed_prec_add_sub_div_rescale:
  assumes "fixed_precision a = Some True" and "precision a = Some p1"
    and "fixed_precision b = Some True" and "precision b = Some p2"
  shows "fixed_prec_add K a (tensor b) =
           Inr (tag_fixed (kernel_result (old_add K
                  (if p1 < p2 then old_mul K (contents a) (NumArg (PyInt (10 ^ nat \<bar>p1 - p2\<bar>)))
                   else contents a)
                  (TensorArg
                    (if p2 < p1 then old_mul K (contents b) (NumArg (PyInt (10 ^ nat \<bar>p1 - p2\<bar>)))
                     else contents b)))) (max p1 p2)) \<and>
         fixed_prec_sub K a (tensor b) =
           Inr (tag_fixed (kernel_result (old_sub K
                  (if p1 < p2 then old_mul K (contents a) (NumArg (PyInt (10 ^ nat \<bar>p1 - p2\<bar>)))
                   else contents a)
                  (TensorArg
                    (if p2 < p1 then old_mul K (contents b) (NumArg (PyInt (10 ^ nat \<bar>p1 - p2\<bar>)))
                     else contents b)))) (max p1 p2)) \<and>
         fixed_prec_div K a (tensor b) =
           Inr (tag_fixed (kernel_result (old_div K
                  (if p1 < p2 then old_mul K (contents a) (NumArg (PyInt (10 ^ nat \<bar>p1 - p2\<bar>)))
                   else contents a)
                  (TensorArg
                    (if p2 < p1 then old_mul K (contents b) (NumArg (PyInt (10 ^ nat \<bar>p1 - p2\<bar>)))
                     else contents b)))) 0)"
  using assms
  by (simp add: fixed_prec_add_def fixed_prec_sub_def fixed_prec_div_def
      hasattr_fixed_precision_TensorVar read_precisions_Some pow10_def max_def)

theorem fixed_prec_add_sub_div_rescale_witness:
  "fixed_prec_add free_kernel (fixed_tensor 1 (Data [15])) (tensor (fixed_tensor 3 (Data [2250]))) =
     Inr (tag_fixed (kernel_result
            (OldAdd (OldMul (Data [15]) (NumArg (PyInt 100))) (TensorArg (Data [2250])))) 3) \<and>
   fixed_prec_sub free_kernel (fixed_tensor 1 (Data [15])) (tensor (fixed_tensor 3 (Data [2250]))) =
     Inr (tag_fixed (kernel_result
            (OldSub (OldMul (Data [15]) (NumArg (PyInt 100))) (TensorArg (Data [2250])))) 3) \<and>
   fixed_prec_div free_kernel (fixed_tensor 1 (Data [15])) (tensor (fixed_tensor 3 (Data [2250]))) =
     Inr (tag_fixed (kernel_result
            (OldDiv (OldMul (Data [15]) (NumArg (PyInt 100))) (TensorArg (Data [2250])))) 0)"
  using fixed_prec_add_sub_div_rescale
          [of "fixed_tensor 1 (Data [15])" 1 "fixed_tensor 3 (Data [2250])" 3 free_kernel]
  by (simp add: fixed_tensor_sel free_kernel_def)

text \<open>
  Claim C10. \<^verbatim>\<open>fixed_prec_trudiv\<close> is \<^verbatim>\<open>fixed_prec_div\<close>: the two names are the same
  function, the dispatch on \<^verbatim>\<open>'trudiv'\<close> returns what the dispatch on \<^verbatim>\<open>'div'\<close> returns on
  every call, and on two fixed-precision operands it returns the result of the integer
  division of the rescaled operands, tagged with precision \<open>0\<close>.
\<close>

theorem fixed_prec_trudiv_is_div:
  "fixed_prec_trudiv = (fixed_prec_div ::
      'd kernel \<Rightarrow> 'd torch_obj \<Rightarrow> 'd pyval \<Rightarrow> error + 'd torch_obj) \<and>
   execute_fixed_precision_call K orig ''trudiv'' self args kwargs =
     execute_fixed_precision_call K orig ''div'' self args kwargs \<and>
   (fixed_precision a = Some True \<and> precision a = Some p1 \<and>
    fixed_precision b = Some True \<and> precision b = Some p2 \<longrightarrow>
      execute_fixed_precision_call K orig ''trudiv'' a [tensor b] [] =
        fixed_prec_div K a (tensor b) \<and>
      (\<exists>out. execute_fixed_precision_call K orig ''trudiv'' a [tensor b] [] = Inr out \<and>
         fixed_precision out = Some True \<and> precision out = Some 0))"
proof -
  have names: "fixed_prec_trudiv = (fixed_prec_div ::
      'd kernel \<Rightarrow> 'd torch_obj \<Rightarrow> 'd pyval \<Rightarrow> error + 'd torch_obj)"
    by (simp add: fixed_prec_trudiv_def)
  have dispatch: "execute_fixed_precision_call K orig ''trudiv'' self args kwargs =
      execute_fixed_precision_call K orig ''div'' self args kwargs"
    unfolding execute_fixed_precision_call_def fixed_prec_trudiv_def by simp
  have call: "execute_fixed_precision_call K orig ''trudiv'' a [tensor b] [] =
      fixed_prec_div K a (tensor b)"
    unfolding execute_fixed_precision_call_def fixed_prec_trudiv_def
    by (simp add: call_binary_one)
  have tagged: "\<exists>out. fixed_prec_div K a (tensor b) = Inr out \<and>
      fixed_precision out = Some True \<and> precision out = Some 0"
    if "fixed_precision a = Some True" "precision a = Some p1" "precision b = Some p2"
    using fixed_prec_div_fixed [OF that] by (simp add: tag_fixed_sel)
  from names dispatch call tagged show ?thesis by simp
qed

theorem fixed_prec_trudiv_is_div_witness:
  "execute_fixed_precision_call free_kernel (\<lambda>n s xs ks. Inl KernelError) ''trudiv''
      (fixed_tensor 3 (Data [1500])) [tensor (fixed_tensor 2 (Data [225]))] [] =
     fixed_prec_div free_kernel (fixed_tensor 3 (Data [1500]))
       (tensor (fixed_tensor 2 (Data [225]))) \<and>
   (\<exists>out. execute_fixed_precision_call free_kernel (\<lambda>n s xs ks. Inl KernelError) ''trudiv''
      (fixed_tensor 3 (Data [1500])) [tensor (fixed_tensor 2 (Data [225]))] [] = Inr out \<and>
      fixed_precision out = Some True \<and> precision out = Some 0)"
proof -
  have fixed:
    "fixed_precision (fixed_tensor 3 (Data [1500])) = Some True \<and>
     precision (fixed_tensor 3 (Data [1500])) = Some 3 \<and>
     fixed_precision (fixed_tensor 2 (Data [225])) = Some True \<and>
     precision (fixed_tensor 2 (Data [225])) = Some 2"
    by (simp add: fixed_tensor_sel)
  from fixed fixed_prec_trudiv_is_div
          [of free_kernel "\<lambda>n s xs ks. Inl KernelError" "fixed_tensor 3 (Data [1500])" "[]" "[]"
              "fixed_tensor 3 (Data [1500])" 3 "fixed_tensor 2 (Data [225])" 2]
  show ?thesis by blast
qed

section \<open>Properties of the call router\<close>

lemma registered_tensor_sel:
  "class_of (attrs (registered_tensor t i ws p d)) = t"
  "obj_id (attrs (registered_tensor t i ws p d)) = Some i"
  "owners (attrs (registered_tensor t i ws p d)) = Some ws"
  "is_pointer (attrs (registered_tensor t i ws p d)) = Some p"
  "fixed_precision (attrs (registered_tensor t i ws p d)) = Some False"
  "contents (attrs (registered_tensor t i ws p d)) = d"
  "data_of (registered_tensor t i ws p d) = None"
  "grad_of (registered_tensor t i ws p d) = None"
  by (simp_all add: registered_tensor_def kernel_result_def)

lemma is_pointers_registered:
  "\<forall>x\<in>set tvs. is_pointer (attrs x) \<noteq> None \<Longrightarrow>
   is_pointers tvs = Inr (map (\<lambda>x. the (is_pointer (attrs x))) tvs)"
  by (induction tvs) auto

lemma all_owners_registered:
  "\<forall>x\<in>set tvs. owners (attrs x) \<noteq> None \<Longrightarrow>
   all_owners st tvs = (Inr (concat (map (\<lambda>x. the (owners (attrs x))) tvs)), st)"
  by (induction tvs) auto

lemma has_remote_iff:
  "\<forall>x\<in>set tvs. is_pointer (attrs x) \<noteq> None \<Longrightarrow>
   (True \<in> set (map (\<lambda>x. the (is_pointer (attrs x))) tvs)) \<longleftrightarrow>
   (\<exists>x\<in>set tvs. is_pointer (attrs x) = Some True)"
  by (induction tvs) auto

lemma execute_remote_call_registered:
  assumes "compile_command m hs = Inr (c, tvs)"
    and "\<forall>x\<in>set tvs. is_pointer (attrs x) \<noteq> None \<and> owners (attrs x) \<noteq> None"
  shows "execute_remote_call E st m hs =
    (let has_remote = (\<exists>x\<in>set tvs. is_pointer (attrs x) = Some True);
         ws = remdups (concat (map (\<lambda>x. the (owners (attrs x))) tvs))
     in if has_remote \<and> \<not> length ws > 1 then
          (case ws of [] \<Rightarrow> (Inr (None, has_remote, length ws > 1), st)
           | w # _ \<Rightarrow> (case send_and_assemble E st w c of
                         (Inl e, st2) \<Rightarrow> (Inl e, st2)
                       | (Inr p, st2) \<Rightarrow> (Inr (Some p, has_remote, length ws > 1), st2)))
        else if has_remote \<and> length ws > 1 then (Inl MultiPartyError, st)
        else (Inr (None, has_remote, length ws > 1), st))"
proof -
  have p: "is_pointers tvs = Inr (map (\<lambda>x. the (is_pointer (attrs x))) tvs)"
    using assms(2) by (simp add: is_pointers_registered)
  have ow: "all_owners st tvs = (Inr (concat (map (\<lambda>x. the (owners (attrs x))) tvs)), st)"
    using assms(2) by (simp add: all_owners_registered)
  have hr: "(True \<in> set (map (\<lambda>x. the (is_pointer (attrs x))) tvs)) \<longleftrightarrow>
      (\<exists>x\<in>set tvs. is_pointer (attrs x) = Some True)"
    using assms(2) by (intro has_remote_iff) simp
  show ?thesis
    unfolding execute_remote_call_def
    apply (simp only: assms(1) p ow hr sum.case prod.case)
    apply (simp only: Let_def)
    done
qed

lemma execute_remote_call_local:
  assumes "compile_command m hs = Inr (c, tvs)"
    and "\<forall>x\<in>set tvs. is_pointer (attrs x) \<noteq> None \<and> owners (attrs x) \<noteq> None"
    and "\<not> (\<exists>x\<in>set tvs. is_pointer (attrs x) = Some True)"
  shows "execute_remote_call E st m hs =
    (Inr (None, False, length (remdups (concat (map (\<lambda>x. the (owners (attrs x))) tvs))) > 1), st)"
  using assms(3) by (simp add: execute_remote_call_registered [OF assms(1,2)] Let_def)

lemma execute_remote_call_single:
  assumes "compile_command m hs = Inr (c, tvs)"
    and "\<forall>x\<in>set tvs. is_pointer (attrs x) \<noteq> None \<and> owners (attrs x) \<noteq> None"
    and "\<exists>x\<in>set tvs. is_pointer (attrs x) = Some True"
    and "remdups (concat (map (\<lambda>x. the (owners (attrs x))) tvs)) = [w]"
  shows "execute_remote_call E st m hs =
    (case send_and_assemble E st w c of
       (Inl e, st2) \<Rightarrow> (Inl e, st2)
     | (Inr p, st2) \<Rightarrow> (Inr (Some p, True, False), st2))"
  using assms(3,4)
  by (simp add: execute_remote_call_registered [OF assms(1,2)] Let_def
      split: prod.splits sum.splits)

lemma execute_remote_call_multiple:
  assumes "compile_command m hs = Inr (c, tvs)"
    and "\<forall>x\<in>set tvs. is_pointer (attrs x) \<noteq> None \<and> owners (attrs x) \<noteq> None"
    and "\<exists>x\<in>set tvs. is_pointer (attrs x) = Some True"
    and "length (remdups (concat (map (\<lambda>x. the (owners (attrs x))) tvs))) > 1"
  shows "execute_remote_call E st m hs = (Inl MultiPartyError, st)"
  using assms(3,4) by (simp add: execute_remote_call_registered [OF assms(1,2)] Let_def)

lemma two_owners_multiple:
  assumes "a \<in> set ws" and "b \<in> set ws" and "a \<noteq> b"
  shows "length (remdups ws) > 1"
proof -
  have "card {a, b} \<le> card (set ws)"
    using assms by (intro card_mono) auto
  then show ?thesis
    using assms(3) by (simp add: length_remdups_card_conv)
qed

subsection \<open>What each path does to the outside\<close>

lemma register_object_trace:
  "register_object st x r = (y, st') \<Longrightarrow>
   trace st' = trace st @ [RegisterObject (case reg_id r of Some i \<Rightarrow> i | None \<Rightarrow> next_id st)]"
  by (auto simp: register_object_def Let_def)

lemma new_object_trace:
  "new_object st t d dat grd = (y, st') \<Longrightarrow> trace st' = trace st @ [RegisterObject (next_id st)]"
  by (auto simp: new_object_def register_object_def Let_def no_keywords_def split: prod.splits)


lemma log_event_trace: "trace (log_event e st) = trace st @ [e]"
  by (simp add: log_event_def)

lemma execute_local_call_trace:
  "\<exists>evs. trace (snd (execute_local_call E st m)) = trace st @ LocalCall (func_name m) # evs \<and>
     (\<forall>e\<in>set evs. \<forall>w c. e \<noteq> SendTorchCommand w c)"
  unfolding execute_local_call_def Let_def
  by (auto simp: log_event_trace split: sum.splits pyval.splits prod.splits
      dest!: register_object_trace)


lemma emits_refl: "emits st st P"
  by (simp add: emits_def)

lemma emits_trans: "emits st st1 P \<Longrightarrow> emits st1 st2 P \<Longrightarrow> emits st st2 P"
  by (auto simp: emits_def)

lemma emits_log_event: "P e \<Longrightarrow> emits st (log_event e st) P"
  by (simp add: emits_def log_event_trace)

lemma emits_register_object:
  "register_object st x r = (y, st') \<Longrightarrow> (\<And>i. P (RegisterObject i)) \<Longrightarrow> emits st st' P"
  by (auto simp: emits_def dest!: register_object_trace)

lemma emits_new_object:
  "new_object st t d dat grd = (y, st') \<Longrightarrow> (\<And>i. P (RegisterObject i)) \<Longrightarrow> emits st st' P"
  by (auto simp: emits_def dest!: new_object_trace)

lemma emits_default_data:
  assumes "default_data K st t = (d, st')" and "P ConstructTensor0" and "\<And>i. P (RegisterObject i)"
  shows "emits st st' P"
proof (cases "t \<in> set var_types")
  case True
  then obtain x where "new_object (log_event ConstructTensor0 st) FloatTensor (zero_dim K) None None = (x, st')"
    using assms(1) by (auto simp: default_data_def split: prod.splits)
  then have "emits (log_event ConstructTensor0 st) st' P"
    using assms(3) by (rule emits_new_object [where P = P])
  with emits_log_event [of P ConstructTensor0 st, OF assms(2)] show ?thesis by (rule emits_trans)
next
  case False
  then show ?thesis using assms(1) by (simp add: default_data_def emits_refl)
qed

lemma emits_construct_and_register:
  assumes "construct_and_register K st t d reg = (res, st')"
    and "P (Construct t)" and "\<And>i. P (RegisterObject i)"
  shows "emits st st' P"
proof -
  obtain result st1 where n: "new_object (log_event (Construct t) st) t (zero_dim K)
      (if t \<in> set var_types then d else None) None = (result, st1)"
    by (cases "new_object (log_event (Construct t) st) t (zero_dim K)
      (if t \<in> set var_types then d else None) None")
  have a: "emits st st1 P"
    using emits_log_event [of P "Construct t" st, OF assms(2)] emits_new_object [where P = P, OF n assms(3)]
    by (rule emits_trans)
  show ?thesis
  proof (cases reg)
    case None
    then have "st' = st1" using assms(1) n by (simp add: construct_and_register_def)
    then show ?thesis using a by simp
  next
    case (Some r)
    then obtain p where "register_object st1 result r = (p, st')"
      using assms(1) n by (auto simp: construct_and_register_def split: prod.splits)
    then have "emits st1 st' P" using assms(3) by (rule emits_register_object [where P = P])
    with a show ?thesis by (rule emits_trans)
  qed
qed

lemma emits_assemble_result_pointer:
  assumes "assemble_result_pointer K st r = (res, st')"
    and "\<And>n. P (TypesGuard n)" and "\<And>t. P (Construct t)" and "P ConstructTensor0"
    and "\<And>i. P (RegisterObject i)"
  shows "emits st st' P"
  using assms(1)
proof (induction K st r arbitrary: res st' rule: assemble_result_pointer.induct)
  case (1 K st reg ty var_data var_grad)
  have g: "emits st (log_event (TypesGuard ty) st) P"
    by (rule emits_log_event) (rule assms(2))
  show ?case
  proof (cases "types_guard ty")
    case (Inl e)
    then have "st' = log_event (TypesGuard ty) st" using "1.prems" by simp
    then show ?thesis using g by simp
  next
    case (Inr t)
    show ?thesis
    proof (cases var_data)
      case None
      obtain d st1 where d: "default_data K (log_event (TypesGuard ty) st) t = (d, st1)"
        by (cases "default_data K (log_event (TypesGuard ty) st) t")
      then have c: "construct_and_register K st1 t d reg = (res, st')"
        using "1.prems" Inr None by simp
      from g emits_default_data [where P = P, OF d assms(4,5)] have "emits st st1 P" by (rule emits_trans)
      then show ?thesis
        using emits_construct_and_register [where P = P, OF c assms(3,5)] by (rule emits_trans)
    next
      case (Some r)
      obtain dres st1 where a: "assemble_result_pointer K (log_event (TypesGuard ty) st) r = (dres, st1)"
        by (cases "assemble_result_pointer K (log_event (TypesGuard ty) st) r")
      have ih: "emits (log_event (TypesGuard ty) st) st1 P"
        using "1.IH" [OF Inr Some a] .
      with g have g1: "emits st st1 P" by (rule emits_trans)
      show ?thesis
      proof (cases dres)
        case (Inl e)
        then have "st' = st1" using "1.prems" Inr Some a by simp
        then show ?thesis using g1 by simp
      next
        case (Inr d)
        then have c: "construct_and_register K st1 t (Some d) reg = (res, st')"
          using "1.prems" \<open>types_guard ty = Inr t\<close> Some a by simp
        show ?thesis
          using g1 emits_construct_and_register [where P = P, OF c assms(3,5)] by (rule emits_trans)
      qed
    qed
  qed
qed

lemma emits_assemble_responses:
  assumes "assemble_responses K st rs = (res, st')"
    and "\<And>n. P (TypesGuard n)" and "\<And>t. P (Construct t)" and "P ConstructTensor0"
    and "\<And>i. P (RegisterObject i)"
  shows "emits st st' P"
  using assms(1)
proof (induction K st rs arbitrary: res st' rule: assemble_responses.induct)
  case (1 K st)
  then show ?case by (simp add: emits_refl)
next
  case (2 K st n rs)
  then show ?case by (auto split: prod.splits sum.splits)
next
  case (3 K st ty var_data var_grad rs)
  then show ?case by (auto split: prod.splits sum.splits)
next
  case (4 K st reg ty var_data var_grad rs)
  obtain pres st1 where a: "assemble_result_pointer K st (Resp (Some reg) ty var_data var_grad) = (pres, st1)"
    by (cases "assemble_result_pointer K st (Resp (Some reg) ty var_data var_grad)")
  have e1: "emits st st1 P" by (rule emits_assemble_result_pointer [where P = P, OF a assms(2-5)])
  show ?case
  proof (cases pres)
    case (Inl e)
    then have "st' = st1" using "4.prems" a by simp
    then show ?thesis using e1 by simp
  next
    case (Inr p)
    obtain rres st2 where b: "assemble_responses K st1 rs = (rres, st2)"
      by (cases "assemble_responses K st1 rs")
    have "emits st1 st2 P" using "4.IH" [OF a [symmetric] _ b] Inr by simp
    moreover have "st' = st2" using "4.prems" a Inr b by (auto split: sum.splits)
    ultimately show ?thesis using e1 by (auto intro: emits_trans)
  qed
qed


lemma send_and_assemble_trace:
  "\<exists>evs. trace (snd (send_and_assemble E st w c)) = trace st @ SendTorchCommand w c # evs \<and>
     (\<forall>e\<in>set evs. \<forall>n. e \<noteq> LocalCall n)"
proof (cases "worker_reply E w c")
  case (Inl e)
  then show ?thesis by (simp add: send_and_assemble_def Let_def log_event_trace)
next
  case (Inr responses)
  obtain res st2 where a:
    "assemble_responses (kernel E) (log_event (SendTorchCommand w c) st) responses = (res, st2)"
    by (cases "assemble_responses (kernel E) (log_event (SendTorchCommand w c) st) responses")
  have "emits (log_event (SendTorchCommand w c) st) st2 (\<lambda>e. \<forall>n. e \<noteq> LocalCall n)"
    by (rule emits_assemble_responses [where P = "\<lambda>e. \<forall>n. e \<noteq> LocalCall n", OF a]) simp_all
  then obtain evs where evs: "trace st2 = trace st @ SendTorchCommand w c # evs"
      "\<forall>e\<in>set evs. \<forall>n. e \<noteq> LocalCall n"
    by (auto simp: emits_def log_event_trace list_all_iff)
  have "snd (send_and_assemble E st w c) = st2"
    using Inr a by (simp add: send_and_assemble_def Let_def split: sum.splits list.splits)
  with evs show ?thesis by auto
qed

lemma function_router_local:
  assumes "compile_command \<lparr>func_name = name, partial_args = args, partial_keywords = kwargs\<rparr> False
             = Inr (c, tvs)"
    and "\<forall>x\<in>set tvs. is_pointer (attrs x) \<noteq> None \<and> owners (attrs x) \<noteq> None"
    and "\<not> (\<exists>x\<in>set tvs. is_pointer (attrs x) = Some True)"
  shows "function_router E st name args kwargs =
         execute_local_call E st \<lparr>func_name = name, partial_args = args, partial_keywords = kwargs\<rparr>"
  by (simp add: function_router_def Let_def execute_remote_call_local [OF assms])

lemma function_router_single:
  assumes "compile_command \<lparr>func_name = name, partial_args = args, partial_keywords = kwargs\<rparr> False
             = Inr (c, tvs)"
    and "\<forall>x\<in>set tvs. is_pointer (attrs x) \<noteq> None \<and> owners (attrs x) \<noteq> None"
    and "\<exists>x\<in>set tvs. is_pointer (attrs x) = Some True"
    and "remdups (concat (map (\<lambda>x. the (owners (attrs x))) tvs)) = [w]"
  shows "function_router E st name args kwargs = send_and_assemble E st w c"
  by (simp add: function_router_def Let_def execute_remote_call_single [OF assms]
      split: prod.splits sum.splits)

lemma function_router_multiple:
  assumes "compile_command \<lparr>func_name = name, partial_args = args, partial_keywords = kwargs\<rparr> False
             = Inr (c, tvs)"
    and "\<forall>x\<in>set tvs. is_pointer (attrs x) \<noteq> None \<and> owners (attrs x) \<noteq> None"
    and "\<exists>x\<in>set tvs. is_pointer (attrs x) = Some True"
    and "length (remdups (concat (map (\<lambda>x. the (owners (attrs x))) tvs))) > 1"
  shows "function_router E st name args kwargs = (Inl MultiPartyError, st)"
  by (simp add: function_router_def Let_def execute_remote_call_multiple [OF assms])

lemma method_router_not_pointer:
  assumes "is_pointer (attrs self) \<noteq> Some True" and "fixed_precision (attrs self) \<noteq> Some True"
  shows "method_router E st name self args kwargs =
         execute_local_call E st
           \<lparr>func_name = name, partial_args = TensorVar self # args, partial_keywords = kwargs\<rparr>"
  using assms by (simp add: method_router_def Let_def)

lemma method_router_pointer_single:
  assumes "compile_command
             \<lparr>func_name = name, partial_args = TensorVar self # args, partial_keywords = kwargs\<rparr> True
             = Inr (c, tvs)"
    and "\<forall>x\<in>set tvs. is_pointer (attrs x) \<noteq> None \<and> owners (attrs x) \<noteq> None"
    and "is_pointer (attrs self) = Some True"
    and "remdups (concat (map (\<lambda>x. the (owners (attrs x))) tvs)) = [w]"
  shows "method_router E st name self args kwargs = send_and_assemble E st w c"
proof -
  have "self \<in> set tvs"
    using assms(1) by (auto simp: compile_command_def)
  then have "\<exists>x\<in>set tvs. is_pointer (attrs x) = Some True"
    using assms(3) by auto
  then show ?thesis
    using assms(3)
    by (simp add: method_router_def Let_def execute_remote_call_single [OF assms(1,2) _ assms(4)]
        split: prod.splits sum.splits)
qed

lemma method_router_pointer_multiple:
  assumes "compile_command
             \<lparr>func_name = name, partial_args = TensorVar self # args, partial_keywords = kwargs\<rparr> True
             = Inr (c, tvs)"
    and "\<forall>x\<in>set tvs. is_pointer (attrs x) \<noteq> None \<and> owners (attrs x) \<noteq> None"
    and "is_pointer (attrs self) = Some True"
    and "length (remdups (concat (map (\<lambda>x. the (owners (attrs x))) tvs))) > 1"
  shows "method_router E st name self args kwargs = (Inl MultiPartyError, st)"
proof -
  have "self \<in> set tvs"
    using assms(1) by (auto simp: compile_command_def)
  then have "\<exists>x\<in>set tvs. is_pointer (attrs x) = Some True"
    using assms(3) by auto
  then show ?thesis
    using assms(3)
    by (simp add: method_router_def Let_def execute_remote_call_multiple [OF assms(1,2) _ assms(4)])
qed


text \<open>The routers on the parts of a partial.\<close>

lemma partial_eta:
  "\<lparr>func_name = func_name m, partial_args = partial_args m,
    partial_keywords = partial_keywords m\<rparr> = m"
  by (cases m) simp

lemma function_router_partial_single:
  assumes "compile_command m False = Inr (c, tvs)"
    and "\<forall>x\<in>set tvs. is_pointer (attrs x) \<noteq> None \<and> owners (attrs x) \<noteq> None"
    and "\<exists>x\<in>set tvs. is_pointer (attrs x) = Some True"
    and "remdups (concat (map (\<lambda>x. the (owners (attrs x))) tvs)) = [w]"
  shows "function_router E st (func_name m) (partial_args m) (partial_keywords m) =
         send_and_assemble E st w c"
proof -
  have "compile_command \<lparr>func_name = func_name m, partial_args = partial_args m,
      partial_keywords = partial_keywords m\<rparr> False = Inr (c, tvs)"
    unfolding partial_eta by (rule assms(1))
  then show ?thesis by (rule function_router_single [OF _ assms(2,3,4)])
qed

lemma function_router_partial_multiple:
  assumes "compile_command m False = Inr (c, tvs)"
    and "\<forall>x\<in>set tvs. is_pointer (attrs x) \<noteq> None \<and> owners (attrs x) \<noteq> None"
    and "\<exists>x\<in>set tvs. is_pointer (attrs x) = Some True"
    and "length (remdups (concat (map (\<lambda>x. the (owners (attrs x))) tvs))) > 1"
  shows "function_router E st (func_name m) (partial_args m) (partial_keywords m) =
         (Inl MultiPartyError, st)"
proof -
  have "compile_command \<lparr>func_name = func_name m, partial_args = partial_args m,
      partial_keywords = partial_keywords m\<rparr> False = Inr (c, tvs)"
    unfolding partial_eta by (rule assms(1))
  then show ?thesis by (rule function_router_multiple [OF _ assms(2,3,4)])
qed

lemma method_router_partial_single:
  assumes "compile_command m True = Inr (c, tvs)"
    and "\<forall>x\<in>set tvs. is_pointer (attrs x) \<noteq> None \<and> owners (attrs x) \<noteq> None"
    and "partial_args m = TensorVar self # args"
    and "is_pointer (attrs self) = Some True"
    and "remdups (concat (map (\<lambda>x. the (owners (attrs x))) tvs)) = [w]"
  shows "method_router E st (func_name m) self args (partial_keywords m) =
         send_and_assemble E st w c"
proof -
  have "compile_command \<lparr>func_name = func_name m, partial_args = TensorVar self # args,
      partial_keywords = partial_keywords m\<rparr> True = Inr (c, tvs)"
    unfolding assms(3) [symmetric] partial_eta by (rule assms(1))
  then show ?thesis by (rule method_router_pointer_single [OF _ assms(2,4,5)])
qed

lemma method_router_partial_multiple:
  assumes "compile_command m True = Inr (c, tvs)"
    and "\<forall>x\<in>set tvs. is_pointer (attrs x) \<noteq> None \<and> owners (attrs x) \<noteq> None"
    and "partial_args m = TensorVar self # args"
    and "is_pointer (attrs self) = Some True"
    and "length (remdups (concat (map (\<lambda>x. the (owners (attrs x))) tvs))) > 1"
  shows "method_router E st (func_name m) self args (partial_keywords m) =
         (Inl MultiPartyError, st)"
proof -
  have "compile_command \<lparr>func_name = func_name m, partial_args = TensorVar self # args,
      partial_keywords = partial_keywords m\<rparr> True = Inr (c, tvs)"
    unfolding assms(3) [symmetric] partial_eta by (rule assms(1))
  then show ?thesis by (rule method_router_pointer_multiple [OF _ assms(2,4,5)])
qed
subsection \<open>The claims on routing\<close>

text \<open>
  Claim C1 fails on the code, by a slip of \<^verbatim>\<open>method_router\<close>. The wrapper of the tensor
  and variable methods is documented, like the wrapper of the functions of the torch module,
  as checking the arguments for tensors and variables and determining the locations of all
  of them; but \<^verbatim>\<open>method_router\<close> chooses the route on \<^verbatim>\<open>self\<close> alone. In the method call
  \<^verbatim>\<open>x.add(p)\<close>, where \<^verbatim>\<open>x\<close> is a local tensor of the local worker \<open>0\<close> and \<^verbatim>\<open>p\<close> is a pointer
  owned by worker \<open>1\<close>, the command compiler finds the pointer \<^verbatim>\<open>p\<close> among the operands, and
  the same operands are recognised as remote, and stopped with the multi-party error, by
  \<^verbatim>\<open>_execute_remote_call\<close> and by the function \<^verbatim>\<open>torch.add(x, p)\<close>; the method call is
  executed locally, on the placeholder of \<^verbatim>\<open>p\<close>, without an error, and nothing is sent.
\<close>

theorem method_router_pointer_argument_runs_locally:
  "is_pointer (attrs (registered_tensor FloatTensor 1 [0] False (Data [1, 2]))) = Some False \<and>
   is_pointer (attrs (registered_tensor FloatTensor 2 [1] True (Data []))) = Some True \<and>
   compile_command
       \<lparr>func_name = ''add'',
        partial_args = [TensorVar (registered_tensor FloatTensor 1 [0] False (Data [1, 2])),
                        TensorVar (registered_tensor FloatTensor 2 [1] True (Data []))],
        partial_keywords = []\<rparr> True =
     Inr (\<lparr>has_self = True, cmd_self = Some (JTensorRef (Some 1) FloatTensor),
           cmd_command = ''add'', cmd_args = [JTensorRef (Some 2) FloatTensor],
           cmd_kwargs = []\<rparr>,
          [registered_tensor FloatTensor 1 [0] False (Data [1, 2]),
           registered_tensor FloatTensor 2 [1] True (Data [])]) \<and>
   method_router test_outside initial_state ''add''
       (registered_tensor FloatTensor 1 [0] False (Data [1, 2]))
       [TensorVar (registered_tensor FloatTensor 2 [1] True (Data []))] [] =
     (Inr (Value PyNone), initial_state\<lparr>trace := [LocalCall ''add'']\<rparr>) \<and>
   execute_remote_call test_outside initial_state
       \<lparr>func_name = ''add'',
        partial_args = [TensorVar (registered_tensor FloatTensor 1 [0] False (Data [1, 2])),
                        TensorVar (registered_tensor FloatTensor 2 [1] True (Data []))],
        partial_keywords = []\<rparr> True =
     (Inl MultiPartyError, initial_state) \<and>
   function_router test_outside initial_state ''add''
       [TensorVar (registered_tensor FloatTensor 1 [0] False (Data [1, 2])),
        TensorVar (registered_tensor FloatTensor 2 [1] True (Data []))] [] =
     (Inl MultiPartyError, initial_state)"
  by (simp add: method_router_def function_router_def execute_remote_call_def
      execute_local_call_def compile_command_def registered_tensor_def kernel_result_def
      test_outside_def initial_state_def log_event_def Let_def)

text \<open>
  What the two routers do on registered operands. A function of the torch module is executed
  locally exactly when no operand is a pointer; when some operand is a pointer, the command
  goes to the single owner of the operands, or the call fails with the multi-party error
  when the operands have more than one owner. A tensor or variable method whose \<^verbatim>\<open>self\<close> is
  a pointer goes the same remote way; one whose \<^verbatim>\<open>self\<close> is neither a pointer nor
  fixed-precision is executed locally, its arguments unread. The local path records the
  local call first and sends nothing; the remote path records the send first and calls
  nothing locally.
\<close>

theorem router_classification:
  assumes "compile_command \<lparr>func_name = name, partial_args = args, partial_keywords = kwargs\<rparr> False
             = Inr (c, tvs)"
    and "\<forall>x\<in>set tvs. is_pointer (attrs x) \<noteq> None \<and> owners (attrs x) \<noteq> None"
    and "compile_command
           \<lparr>func_name = name, partial_args = TensorVar self # args, partial_keywords = kwargs\<rparr> True
           = Inr (c', tvs')"
    and "\<forall>x\<in>set tvs'. is_pointer (attrs x) \<noteq> None \<and> owners (attrs x) \<noteq> None"
  shows
    "(\<not> (\<exists>x\<in>set tvs. is_pointer (attrs x) = Some True) \<longrightarrow>
        function_router E st name args kwargs =
        execute_local_call E st
          \<lparr>func_name = name, partial_args = args, partial_keywords = kwargs\<rparr>) \<and>
     ((\<exists>x\<in>set tvs. is_pointer (attrs x) = Some True) \<longrightarrow>
        (remdups (concat (map (\<lambda>x. the (owners (attrs x))) tvs)) = [w] \<longrightarrow>
           function_router E st name args kwargs = send_and_assemble E st w c) \<and>
        (length (remdups (concat (map (\<lambda>x. the (owners (attrs x))) tvs))) > 1 \<longrightarrow>
           function_router E st name args kwargs = (Inl MultiPartyError, st))) \<and>
     (is_pointer (attrs self) \<noteq> Some True \<and> fixed_precision (attrs self) \<noteq> Some True \<longrightarrow>
        method_router E st name self args kwargs =
        execute_local_call E st
          \<lparr>func_name = name, partial_args = TensorVar self # args, partial_keywords = kwargs\<rparr>) \<and>
     (is_pointer (attrs self) = Some True \<longrightarrow>
        (remdups (concat (map (\<lambda>x. the (owners (attrs x))) tvs')) = [w'] \<longrightarrow>
           method_router E st name self args kwargs = send_and_assemble E st w' c') \<and>
        (length (remdups (concat (map (\<lambda>x. the (owners (attrs x))) tvs'))) > 1 \<longrightarrow>
           method_router E st name self args kwargs = (Inl MultiPartyError, st))) \<and>
     (\<exists>evs. trace (snd (execute_local_call E st m)) = trace st @ LocalCall (func_name m) # evs \<and>
        (\<forall>e\<in>set evs. \<forall>v d. e \<noteq> SendTorchCommand v d)) \<and>
     (\<exists>evs. trace (snd (send_and_assemble E st w c)) = trace st @ SendTorchCommand w c # evs \<and>
        (\<forall>e\<in>set evs. \<forall>n. e \<noteq> LocalCall n))"
proof (intro conjI impI)
  assume "\<not> (\<exists>x\<in>set tvs. is_pointer (attrs x) = Some True)"
  then show "function_router E st name args kwargs =
      execute_local_call E st \<lparr>func_name = name, partial_args = args, partial_keywords = kwargs\<rparr>"
    by (rule function_router_local [OF assms(1,2)])
next
  assume "\<exists>x\<in>set tvs. is_pointer (attrs x) = Some True"
    and "remdups (concat (map (\<lambda>x. the (owners (attrs x))) tvs)) = [w]"
  then show "function_router E st name args kwargs = send_and_assemble E st w c"
    by (rule function_router_single [OF assms(1,2)])
next
  assume "\<exists>x\<in>set tvs. is_pointer (attrs x) = Some True"
    and "length (remdups (concat (map (\<lambda>x. the (owners (attrs x))) tvs))) > 1"
  then show "function_router E st name args kwargs = (Inl MultiPartyError, st)"
    by (rule function_router_multiple [OF assms(1,2)])
next
  assume "is_pointer (attrs self) \<noteq> Some True \<and> fixed_precision (attrs self) \<noteq> Some True"
  then show "method_router E st name self args kwargs =
      execute_local_call E st
        \<lparr>func_name = name, partial_args = TensorVar self # args, partial_keywords = kwargs\<rparr>"
    by (simp add: method_router_not_pointer)
next
  assume "is_pointer (attrs self) = Some True"
    and "remdups (concat (map (\<lambda>x. the (owners (attrs x))) tvs')) = [w']"
  then show "method_router E st name self args kwargs = send_and_assemble E st w' c'"
    by (rule method_router_pointer_single [OF assms(3,4)])
next
  assume "is_pointer (attrs self) = Some True"
    and "length (remdups (concat (map (\<lambda>x. the (owners (attrs x))) tvs'))) > 1"
  then show "method_router E st name self args kwargs = (Inl MultiPartyError, st)"
    by (rule method_router_pointer_multiple [OF assms(3,4)])
next
  show "\<exists>evs. trace (snd (execute_local_call E st m)) = trace st @ LocalCall (func_name m) # evs \<and>
      (\<forall>e\<in>set evs. \<forall>v d. e \<noteq> SendTorchCommand v d)"
    by (rule execute_local_call_trace)
next
  show "\<exists>evs. trace (snd (send_and_assemble E st w c)) = trace st @ SendTorchCommand w c # evs \<and>
      (\<forall>e\<in>set evs. \<forall>n. e \<noteq> LocalCall n)"
    by (rule send_and_assemble_trace)
qed


theorem router_classification_witness:
  "function_router test_outside initial_state ''add''
       [TensorVar (registered_tensor FloatTensor 2 [1] True (Data []))] [] =
     send_and_assemble test_outside initial_state 1
       \<lparr>has_self = False, cmd_self = None, cmd_command = ''add'',
        cmd_args = [JTensorRef (Some 2) FloatTensor], cmd_kwargs = []\<rparr> \<and>
   method_router test_outside initial_state ''add''
       (registered_tensor FloatTensor 1 [0] False (Data [1, 2]))
       [TensorVar (registered_tensor FloatTensor 2 [1] True (Data []))] [] =
     execute_local_call test_outside initial_state
       \<lparr>func_name = ''add'',
        partial_args = [TensorVar (registered_tensor FloatTensor 1 [0] False (Data [1, 2])),
                        TensorVar (registered_tensor FloatTensor 2 [1] True (Data []))],
        partial_keywords = []\<rparr>"
proof -
  let ?x = "registered_tensor FloatTensor 1 [0] False (Data [1, 2])"
  let ?p = "registered_tensor FloatTensor 2 [1] True (Data [])"
  let ?c = "\<lparr>has_self = False, cmd_self = None, cmd_command = ''add'',
             cmd_args = [JTensorRef (Some 2) FloatTensor], cmd_kwargs = []\<rparr>"
  let ?c' = "\<lparr>has_self = True, cmd_self = Some (JTensorRef (Some 1) FloatTensor),
              cmd_command = ''add'',
              cmd_args = [JTensorRef (Some 2) FloatTensor], cmd_kwargs = []\<rparr>"
  have comp: "compile_command
      \<lparr>func_name = ''add'', partial_args = [TensorVar ?p], partial_keywords = []\<rparr> False
      = Inr (?c, [?p])"
    by (simp add: compile_command_def registered_tensor_sel)
  have reg: "\<forall>x\<in>set [?p]. is_pointer (attrs x) \<noteq> None \<and> owners (attrs x) \<noteq> None"
    by (simp add: registered_tensor_sel del: not_None_eq)
  have comp': "compile_command
      \<lparr>func_name = ''add'', partial_args = TensorVar ?x # [TensorVar ?p],
       partial_keywords = []\<rparr> True = Inr (?c', [?x, ?p])"
    by (simp add: compile_command_def registered_tensor_sel)
  have reg': "\<forall>x\<in>set [?x, ?p]. is_pointer (attrs x) \<noteq> None \<and> owners (attrs x) \<noteq> None"
    by (simp add: registered_tensor_sel del: not_None_eq)
  from router_classification [OF comp reg comp' reg', of test_outside initial_state 1 0
      "\<lparr>func_name = ''add'', partial_args = [], partial_keywords = []\<rparr>"]
  show ?thesis by (simp add: registered_tensor_sel)
qed

text \<open>
  Claim C2 fails on the code. The owners are collected from every operand, pointer or not: a
  call on a local tensor owned by the local worker \<open>0\<close> and a pointer owned by worker \<open>1\<close>
  fails with the multi-party error, although the owners of the pointer operands alone are
  the single worker \<open>1\<close>; nothing is sent.
\<close>

theorem local_operand_counts_as_owner:
  "remdups (concat (map (\<lambda>x. the (owners (attrs x)))
      (filter (\<lambda>x. is_pointer (attrs x) = Some True)
         [registered_tensor FloatTensor 1 [0] False (Data [1, 2]),
          registered_tensor FloatTensor 2 [1] True (Data [])]))) = [1] \<and>
   execute_remote_call test_outside initial_state
       \<lparr>func_name = ''add'',
        partial_args = [TensorVar (registered_tensor FloatTensor 1 [0] False (Data [1, 2])),
                        TensorVar (registered_tensor FloatTensor 2 [1] True (Data []))],
        partial_keywords = []\<rparr> False =
     (Inl MultiPartyError, initial_state)"
  by (simp add: execute_remote_call_def compile_command_def registered_tensor_def
      kernel_result_def Let_def)

text \<open>
  Claim C2 as amended. For every call that a router hands to \<^verbatim>\<open>_execute_remote_call\<close> with a
  pointer among its registered operands, which is every function of the torch module one of
  whose operands is a pointer and every method whose \<^verbatim>\<open>self\<close> is a pointer, the owner set
  that decides the route is the union of the owners of all operands, pointers or not. When
  that union is the single worker \<open>w\<close>, the compiled command is sent to \<open>w\<close>, and the send is
  the first effect of the call. When the union holds more than one worker the call fails
  with the multi-party error; in particular a non-pointer operand owned by the local worker
  beside an operand owned by another worker makes the call fail so.
\<close>

theorem execute_remote_call_owner_set:
  assumes "compile_command m with_self = Inr (c, tvs)"
    and "\<forall>x\<in>set tvs. is_pointer (attrs x) \<noteq> None \<and> owners (attrs x) \<noteq> None"
    and "\<exists>x\<in>set tvs. is_pointer (attrs x) = Some True"
  shows
    "(remdups (concat (map (\<lambda>x. the (owners (attrs x))) tvs)) = [w] \<longrightarrow>
        execute_remote_call E st m with_self =
          (case send_and_assemble E st w c of
             (Inl e, st') \<Rightarrow> (Inl e, st')
           | (Inr p, st') \<Rightarrow> (Inr (Some p, True, False), st')) \<and>
        (\<exists>evs. trace (snd (execute_remote_call E st m with_self)) =
                 trace st @ SendTorchCommand w c # evs)) \<and>
     (length (remdups (concat (map (\<lambda>x. the (owners (attrs x))) tvs))) > 1 \<longrightarrow>
        execute_remote_call E st m with_self = (Inl MultiPartyError, st)) \<and>
     ((\<exists>x\<in>set tvs. is_pointer (attrs x) = Some False \<and>
                    local_worker_id st \<in> set (the (owners (attrs x)))) \<and>
      (\<exists>y\<in>set tvs. \<exists>v\<in>set (the (owners (attrs y))). v \<noteq> local_worker_id st) \<longrightarrow>
        execute_remote_call E st m with_self = (Inl MultiPartyError, st)) \<and>
     (\<not> with_self \<longrightarrow>
        (remdups (concat (map (\<lambda>x. the (owners (attrs x))) tvs)) = [w] \<longrightarrow>
           function_router E st (func_name m) (partial_args m) (partial_keywords m) =
             send_and_assemble E st w c) \<and>
        (length (remdups (concat (map (\<lambda>x. the (owners (attrs x))) tvs))) > 1 \<longrightarrow>
           function_router E st (func_name m) (partial_args m) (partial_keywords m) =
             (Inl MultiPartyError, st))) \<and>
     (with_self \<and> partial_args m = TensorVar self # args \<and>
      is_pointer (attrs self) = Some True \<longrightarrow>
        (remdups (concat (map (\<lambda>x. the (owners (attrs x))) tvs)) = [w] \<longrightarrow>
           method_router E st (func_name m) self args (partial_keywords m) =
             send_and_assemble E st w c) \<and>
        (length (remdups (concat (map (\<lambda>x. the (owners (attrs x))) tvs))) > 1 \<longrightarrow>
           method_router E st (func_name m) self args (partial_keywords m) =
             (Inl MultiPartyError, st)))"
proof (intro conjI impI)
  assume single: "remdups (concat (map (\<lambda>x. the (owners (attrs x))) tvs)) = [w]"
  show eq: "execute_remote_call E st m with_self =
      (case send_and_assemble E st w c of
         (Inl e, st') \<Rightarrow> (Inl e, st')
       | (Inr p, st') \<Rightarrow> (Inr (Some p, True, False), st'))"
    by (rule execute_remote_call_single [OF assms single])
  have "snd (execute_remote_call E st m with_self) = snd (send_and_assemble E st w c)"
    unfolding eq by (simp split: prod.splits sum.splits)
  then show "\<exists>evs. trace (snd (execute_remote_call E st m with_self)) =
      trace st @ SendTorchCommand w c # evs"
    using send_and_assemble_trace [of E st w c] by auto
next
  assume "length (remdups (concat (map (\<lambda>x. the (owners (attrs x))) tvs))) > 1"
  then show "execute_remote_call E st m with_self = (Inl MultiPartyError, st)"
    by (rule execute_remote_call_multiple [OF assms])
next
  assume "(\<exists>x\<in>set tvs. is_pointer (attrs x) = Some False \<and>
                    local_worker_id st \<in> set (the (owners (attrs x)))) \<and>
      (\<exists>y\<in>set tvs. \<exists>v\<in>set (the (owners (attrs y))). v \<noteq> local_worker_id st)"
  then obtain x y v where "x \<in> set tvs" "local_worker_id st \<in> set (the (owners (attrs x)))"
      "y \<in> set tvs" "v \<in> set (the (owners (attrs y)))" "v \<noteq> local_worker_id st"
    by blast
  then have "local_worker_id st \<in> set (concat (map (\<lambda>x. the (owners (attrs x))) tvs))"
      "v \<in> set (concat (map (\<lambda>x. the (owners (attrs x))) tvs))" "local_worker_id st \<noteq> v"
    by auto
  then have "length (remdups (concat (map (\<lambda>x. the (owners (attrs x))) tvs))) > 1"
    by (rule two_owners_multiple)
  then show "execute_remote_call E st m with_self = (Inl MultiPartyError, st)"
    by (rule execute_remote_call_multiple [OF assms])
next
  assume "\<not> with_self"
    and single: "remdups (concat (map (\<lambda>x. the (owners (attrs x))) tvs)) = [w]"
  then have "compile_command m False = Inr (c, tvs)" using assms(1) by simp
  then show "function_router E st (func_name m) (partial_args m) (partial_keywords m) =
      send_and_assemble E st w c"
    by (rule function_router_partial_single [OF _ assms(2,3) single])
next
  assume "\<not> with_self"
    and multi: "length (remdups (concat (map (\<lambda>x. the (owners (attrs x))) tvs))) > 1"
  then have "compile_command m False = Inr (c, tvs)" using assms(1) by simp
  then show "function_router E st (func_name m) (partial_args m) (partial_keywords m) =
      (Inl MultiPartyError, st)"
    by (rule function_router_partial_multiple [OF _ assms(2,3) multi])
next
  assume self: "with_self \<and> partial_args m = TensorVar self # args \<and>
      is_pointer (attrs self) = Some True"
    and single: "remdups (concat (map (\<lambda>x. the (owners (attrs x))) tvs)) = [w]"
  then have "compile_command m True = Inr (c, tvs)" using assms(1) by simp
  then show "method_router E st (func_name m) self args (partial_keywords m) =
      send_and_assemble E st w c"
    using self by (intro method_router_partial_single [OF _ assms(2) _ _ single]) simp_all
next
  assume self: "with_self \<and> partial_args m = TensorVar self # args \<and>
      is_pointer (attrs self) = Some True"
    and multi: "length (remdups (concat (map (\<lambda>x. the (owners (attrs x))) tvs))) > 1"
  then have "compile_command m True = Inr (c, tvs)" using assms(1) by simp
  then show "method_router E st (func_name m) self args (partial_keywords m) =
      (Inl MultiPartyError, st)"
    using self by (intro method_router_partial_multiple [OF _ assms(2) _ _ multi]) simp_all
qed

theorem execute_remote_call_owner_set_witness:
  "execute_remote_call test_outside initial_state
       \<lparr>func_name = ''mul'',
        partial_args = [TensorVar (registered_tensor FloatTensor 1 [1] True (Data [])),
                        TensorVar (registered_tensor FloatTensor 2 [1] True (Data []))],
        partial_keywords = []\<rparr> False =
     (case send_and_assemble test_outside initial_state 1
             \<lparr>has_self = False, cmd_self = None, cmd_command = ''mul'',
              cmd_args = [JTensorRef (Some 1) FloatTensor, JTensorRef (Some 2) FloatTensor],
              cmd_kwargs = []\<rparr> of
        (Inl e, st') \<Rightarrow> (Inl e, st')
      | (Inr p, st') \<Rightarrow> (Inr (Some p, True, False), st')) \<and>
   function_router test_outside initial_state ''mul''
       [TensorVar (registered_tensor FloatTensor 1 [1] True (Data [])),
        TensorVar (registered_tensor FloatTensor 2 [1] True (Data []))] [] =
     send_and_assemble test_outside initial_state 1
       \<lparr>has_self = False, cmd_self = None, cmd_command = ''mul'',
        cmd_args = [JTensorRef (Some 1) FloatTensor, JTensorRef (Some 2) FloatTensor],
        cmd_kwargs = []\<rparr> \<and>
   method_router test_outside initial_state ''mul''
       (registered_tensor FloatTensor 1 [1] True (Data []))
       [TensorVar (registered_tensor FloatTensor 2 [1] True (Data []))] [] =
     send_and_assemble test_outside initial_state 1
       \<lparr>has_self = True, cmd_self = Some (JTensorRef (Some 1) FloatTensor),
        cmd_command = ''mul'', cmd_args = [JTensorRef (Some 2) FloatTensor],
        cmd_kwargs = []\<rparr>"
proof -
  let ?p = "registered_tensor FloatTensor 1 [1] True (Data [])"
  let ?q = "registered_tensor FloatTensor 2 [1] True (Data [])"
  let ?m = "\<lparr>func_name = ''mul'', partial_args = [TensorVar ?p, TensorVar ?q],
             partial_keywords = []\<rparr>"
  let ?c = "\<lparr>has_self = False, cmd_self = None, cmd_command = ''mul'',
             cmd_args = [JTensorRef (Some 1) FloatTensor, JTensorRef (Some 2) FloatTensor],
             cmd_kwargs = []\<rparr>"
  let ?c' = "\<lparr>has_self = True, cmd_self = Some (JTensorRef (Some 1) FloatTensor),
              cmd_command = ''mul'', cmd_args = [JTensorRef (Some 2) FloatTensor],
              cmd_kwargs = []\<rparr>"
  have comp: "compile_command ?m False = Inr (?c, [?p, ?q])"
    by (simp add: compile_command_def registered_tensor_sel)
  have comp': "compile_command ?m True = Inr (?c', [?p, ?q])"
    by (simp add: compile_command_def registered_tensor_sel)
  have reg: "\<forall>x\<in>set [?p, ?q]. is_pointer (attrs x) \<noteq> None \<and> owners (attrs x) \<noteq> None"
    by (simp add: registered_tensor_sel del: not_None_eq)
  have ptr: "\<exists>x\<in>set [?p, ?q]. is_pointer (attrs x) = Some True"
    by (simp add: registered_tensor_sel)
  from execute_remote_call_owner_set [OF comp reg ptr, of 1 test_outside initial_state]
  have f: "execute_remote_call test_outside initial_state ?m False =
      (case send_and_assemble test_outside initial_state 1 ?c of
         (Inl e, st') \<Rightarrow> (Inl e, st')
       | (Inr p, st') \<Rightarrow> (Inr (Some p, True, False), st'))"
    "function_router test_outside initial_state ''mul'' [TensorVar ?p, TensorVar ?q] [] =
      send_and_assemble test_outside initial_state 1 ?c"
    by (simp_all add: registered_tensor_sel)
  from execute_remote_call_owner_set [OF comp' reg ptr, of 1 test_outside initial_state
      ?p "[TensorVar ?q]"]
  have g: "method_router test_outside initial_state ''mul'' ?p [TensorVar ?q] [] =
      send_and_assemble test_outside initial_state 1 ?c'"
    by (simp add: registered_tensor_sel)
  from f g show ?thesis by simp
qed

text \<open>
  Claim C3 fails on the code for a method whose \<^verbatim>\<open>self\<close> is no pointer, by the slip of
  \<^verbatim>\<open>method_router\<close>, which never reads the arguments of such a call. In the method call
  \<^verbatim>\<open>x.addcmul(p, q)\<close>, where \<^verbatim>\<open>x\<close> is a local tensor of the local worker \<open>0\<close>, \<^verbatim>\<open>p\<close> a pointer
  owned by worker \<open>1\<close> and \<^verbatim>\<open>q\<close> a pointer owned by worker \<open>2\<close>, the operands have three
  owners and two of them are pointers; the call is executed locally and returns without an
  error. The function \<^verbatim>\<open>torch.addcmul(x, p, q)\<close> on the same operands fails with the
  multi-party error, and nothing is sent or computed.
\<close>

theorem method_router_multi_owner_runs_locally:
  "map (\<lambda>x. is_pointer (attrs x))
      [registered_tensor FloatTensor 1 [0] False (Data [1, 2]),
       registered_tensor FloatTensor 2 [1] True (Data []),
       registered_tensor FloatTensor 3 [2] True (Data [])] =
     [Some False, Some True, Some True] \<and>
   remdups (concat (map (\<lambda>x. the (owners (attrs x)))
      [registered_tensor FloatTensor 1 [0] False (Data [1, 2]),
       registered_tensor FloatTensor 2 [1] True (Data []),
       registered_tensor FloatTensor 3 [2] True (Data [])])) = [0, 1, 2] \<and>
   method_router test_outside initial_state ''addcmul''
       (registered_tensor FloatTensor 1 [0] False (Data [1, 2]))
       [TensorVar (registered_tensor FloatTensor 2 [1] True (Data [])),
        TensorVar (registered_tensor FloatTensor 3 [2] True (Data []))] [] =
     (Inr (Value PyNone), initial_state\<lparr>trace := [LocalCall ''addcmul'']\<rparr>) \<and>
   function_router test_outside initial_state ''addcmul''
       [TensorVar (registered_tensor FloatTensor 1 [0] False (Data [1, 2])),
        TensorVar (registered_tensor FloatTensor 2 [1] True (Data [])),
        TensorVar (registered_tensor FloatTensor 3 [2] True (Data []))] [] =
     (Inl MultiPartyError, initial_state)"
  by (simp add: method_router_def function_router_def execute_remote_call_def
      execute_local_call_def compile_command_def registered_tensor_def kernel_result_def
      test_outside_def initial_state_def log_event_def Let_def)

text \<open>
  Where the operands are read, which is in \<^verbatim>\<open>_execute_remote_call\<close> and so in every function
  of the torch module and in every method whose \<^verbatim>\<open>self\<close> is a pointer, a call on registered
  operands of which one is a pointer and whose owners are more than one worker fails with
  the multi-party error and leaves the state as it was: nothing is sent and nothing is
  computed.
\<close>

theorem multi_party_error_without_send:
  assumes "compile_command m with_self = Inr (c, tvs)"
    and "\<forall>x\<in>set tvs. is_pointer (attrs x) \<noteq> None \<and> owners (attrs x) \<noteq> None"
    and "\<exists>x\<in>set tvs. is_pointer (attrs x) = Some True"
    and "length (remdups (concat (map (\<lambda>x. the (owners (attrs x))) tvs))) > 1"
  shows "execute_remote_call E st m with_self = (Inl MultiPartyError, st) \<and>
         trace (snd (execute_remote_call E st m with_self)) = trace st \<and>
         (\<not> with_self \<longrightarrow>
            function_router E st (func_name m) (partial_args m) (partial_keywords m) =
              (Inl MultiPartyError, st)) \<and>
         (with_self \<and> partial_args m = TensorVar self # args \<and>
          is_pointer (attrs self) = Some True \<longrightarrow>
            method_router E st (func_name m) self args (partial_keywords m) =
              (Inl MultiPartyError, st))"
proof -
  have a: "execute_remote_call E st m with_self = (Inl MultiPartyError, st)"
    by (rule execute_remote_call_multiple [OF assms])
  have b: "function_router E st (func_name m) (partial_args m) (partial_keywords m) =
      (Inl MultiPartyError, st)" if "\<not> with_self"
  proof -
    have "compile_command m False = Inr (c, tvs)" using assms(1) that by simp
    then show ?thesis by (rule function_router_partial_multiple [OF _ assms(2,3,4)])
  qed
  have c: "method_router E st (func_name m) self args (partial_keywords m) =
      (Inl MultiPartyError, st)"
    if "with_self \<and> partial_args m = TensorVar self # args \<and>
      is_pointer (attrs self) = Some True"
  proof -
    have "compile_command m True = Inr (c, tvs)" using assms(1) that by simp
    then show ?thesis
      using that by (intro method_router_partial_multiple [OF _ assms(2) _ _ assms(4)]) simp_all
  qed
  from a b c show ?thesis by simp
qed

theorem multi_party_error_without_send_witness:
  "function_router test_outside initial_state ''add''
       [TensorVar (registered_tensor FloatTensor 1 [1] True (Data [])),
        TensorVar (registered_tensor FloatTensor 2 [2] True (Data []))] [] =
     (Inl MultiPartyError, initial_state)"
proof -
  let ?p = "registered_tensor FloatTensor 1 [1] True (Data [])"
  let ?q = "registered_tensor FloatTensor 2 [2] True (Data [])"
  let ?m = "\<lparr>func_name = ''add'', partial_args = [TensorVar ?p, TensorVar ?q],
             partial_keywords = []\<rparr>"
  let ?c = "\<lparr>has_self = False, cmd_self = None, cmd_command = ''add'',
             cmd_args = [JTensorRef (Some 1) FloatTensor, JTensorRef (Some 2) FloatTensor],
             cmd_kwargs = []\<rparr>"
  have comp: "compile_command ?m False = Inr (?c, [?p, ?q])"
    by (simp add: compile_command_def registered_tensor_sel)
  have reg: "\<forall>x\<in>set [?p, ?q]. is_pointer (attrs x) \<noteq> None \<and> owners (attrs x) \<noteq> None"
    by (simp add: registered_tensor_sel del: not_None_eq)
  have ptr: "\<exists>x\<in>set [?p, ?q]. is_pointer (attrs x) = Some True"
    by (simp add: registered_tensor_sel)
  have multi: "length (remdups (concat (map (\<lambda>x. the (owners (attrs x))) [?p, ?q]))) > 1"
    by (simp add: registered_tensor_sel)
  from multi_party_error_without_send [OF comp reg ptr multi, of test_outside initial_state]
  show ?thesis by simp
qed

section \<open>Properties of the type guard\<close>

lemma types_guard_Inl: "types_guard n = Inl e \<Longrightarrow> e = UntrustedTypeError"
  by (auto simp: types_guard_def split: option.splits)

lemma types_guard_type_name: "types_guard (type_name t) = Inr t"
  by (cases t) (simp_all add: types_guard_def map_torch_type_def)

lemma guard_respected_mono:
  "guard_respected ok evs \<Longrightarrow> set ok \<subseteq> set ok' \<Longrightarrow> guard_respected ok' evs"
proof (induction ok evs arbitrary: ok' rule: guard_respected.induct)
  case (2 ok n es)
  show ?case
  proof (cases "types_guard n")
    case (Inl e)
    then show ?thesis using "2.prems" by simp
  next
    case (Inr t)
    have "guard_respected (t # ok') es"
      using "2.IH" [OF Inr, of "t # ok'"] "2.prems" Inr by auto
    then show ?thesis using Inr by simp
  qed
qed auto

lemma guard_respected_append:
  "guard_respected ok evs1 \<Longrightarrow> \<not> rejected evs1 \<Longrightarrow> guard_respected ok evs2 \<Longrightarrow>
   guard_respected ok (evs1 @ evs2)"
proof (induction ok evs1 rule: guard_respected.induct)
  case (2 ok n es)
  show ?case
  proof (cases "types_guard n")
    case (Inl e)
    then show ?thesis using 2 by simp
  next
    case (Inr t)
    have "guard_respected (t # ok) evs2"
      using "2.prems"(3) by (rule guard_respected_mono) auto
    then show ?thesis using 2 Inr by simp
  qed
qed auto

lemma rejected_append: "\<not> rejected evs1 \<Longrightarrow> rejected (evs1 @ evs2) = rejected evs2"
  by (induction evs1 rule: rejected.induct) (auto split: sum.splits)

lemma guarded_run_refl: "guarded_run st ok res st"
  by (simp add: guarded_run_def)

lemma guarded_run_error:
  "guarded_run st ok (Inl e :: error + 'a) st' \<Longrightarrow> guarded_run st ok (Inl e :: error + 'b) st'"
  by (simp add: guarded_run_def)

lemma guarded_run_mono:
  "guarded_run st ok res st' \<Longrightarrow> set ok \<subseteq> set ok' \<Longrightarrow> guarded_run st ok' res st'"
  by (auto simp: guarded_run_def intro: guard_respected_mono)

lemma guarded_run_trans:
  assumes "guarded_run st ok (Inr a) st1" and "guarded_run st1 ok res st2"
  shows "guarded_run st ok res st2"
proof -
  from assms(1) obtain evs1 where 1: "trace st1 = trace st @ evs1" "guard_respected ok evs1"
      "\<not> rejected evs1"
    by (auto simp: guarded_run_def)
  from assms(2) obtain evs2 where 2: "trace st2 = trace st1 @ evs2" "guard_respected ok evs2"
      "rejected evs2 \<longrightarrow> res = Inl UntrustedTypeError"
    by (auto simp: guarded_run_def)
  have "trace st2 = trace st @ (evs1 @ evs2)" using 1 2 by simp
  moreover have "guard_respected ok (evs1 @ evs2)"
    using 1 2 by (intro guard_respected_append)
  moreover have "rejected (evs1 @ evs2) \<longrightarrow> res = Inl UntrustedTypeError"
    using 1 2 by (simp add: rejected_append)
  ultimately show ?thesis unfolding guarded_run_def by blast
qed

lemma guarded_run_accept:
  assumes "types_guard n = Inr t" and "guarded_run (log_event (TypesGuard n) st) (t # ok) res st'"
  shows "guarded_run st ok res st'"
proof -
  from assms(2) obtain evs where e: "trace st' = trace st @ TypesGuard n # evs"
      "guard_respected (t # ok) evs" "rejected evs \<longrightarrow> res = Inl UntrustedTypeError"
    by (auto simp: guarded_run_def log_event_trace)
  show ?thesis
    unfolding guarded_run_def
    by (rule exI [of _ "TypesGuard n # evs"]) (use e assms(1) in simp)
qed

lemma guarded_run_reject:
  assumes "types_guard n = Inl e"
  shows "guarded_run st ok (Inl e) (log_event (TypesGuard n) st)"
  unfolding guarded_run_def
  by (rule exI [of _ "[TypesGuard n]"])
     (use assms types_guard_Inl [OF assms] in \<open>simp add: log_event_trace\<close>)

lemma guarded_run_register_object:
  "register_object st x r = (y, st') \<Longrightarrow> guarded_run st ok res st'"
  unfolding guarded_run_def
  by (auto dest!: register_object_trace)

lemma guarded_run_new_object:
  assumes "new_object (log_event (Construct t) st) t d dat grd = (y, st')" and "t \<in> set ok"
  shows "guarded_run st ok res st'"
  unfolding guarded_run_def
  using new_object_trace [OF assms(1)] assms(2)
  by (auto simp: log_event_trace)

lemma guarded_run_handle_register:
  "handle_register st x m = (r, st') \<Longrightarrow> guarded_run st ok res st'"
  by (auto simp: handle_register_def guarded_run_refl split: option.splits prod.splits
      intro: guarded_run_register_object)


lemma guarded_run_harmless:
  assumes "emits st st' (\<lambda>e. (\<forall>n. e \<noteq> TypesGuard n) \<and> (\<forall>t. e \<noteq> Construct t))"
  shows "guarded_run st ok res st'"
proof -
  from assms obtain evs where e: "trace st' = trace st @ evs"
      "\<forall>e\<in>set evs. (\<forall>n. e \<noteq> TypesGuard n) \<and> (\<forall>t. e \<noteq> Construct t)"
    by (auto simp: emits_def list_all_iff)
  have "guard_respected ok evs \<and> \<not> rejected evs"
    using e(2) by (induction ok evs rule: guard_respected.induct) auto
  then show ?thesis using e(1) by (auto simp: guarded_run_def)
qed

lemma guarded_run_default_data:
  "default_data K st t = (d, st') \<Longrightarrow> guarded_run st ok res st'"
  by (rule guarded_run_harmless) (erule emits_default_data, simp_all)

lemma guarded_run_construct_and_register:
  assumes "construct_and_register K st t d reg = (res, st')" and "t \<in> set ok"
  shows "guarded_run st ok res st'"
proof -
  obtain result st1 where n: "new_object (log_event (Construct t) st) t (zero_dim K)
      (if t \<in> set var_types then d else None) None = (result, st1)"
    by (cases "new_object (log_event (Construct t) st) t (zero_dim K)
      (if t \<in> set var_types then d else None) None")
  have a: "guarded_run st ok (Inr result) st1"
    using n assms(2) by (rule guarded_run_new_object)
  show ?thesis
  proof (cases reg)
    case None
    then have "st' = st1" using assms(1) n by (simp add: construct_and_register_def)
    then show ?thesis using guarded_run_new_object [OF n assms(2)] by simp
  next
    case (Some r)
    then obtain p where "register_object st1 result r = (p, st')"
      using assms(1) n by (auto simp: construct_and_register_def split: prod.splits)
    then have "guarded_run st1 ok res st'" by (rule guarded_run_register_object)
    with a show ?thesis by (rule guarded_run_trans)
  qed
qed

lemma guarded_run_assemble_result_pointer:
  "assemble_result_pointer K st r = (res, st') \<Longrightarrow> guarded_run st ok res st'"
proof (induction K st r arbitrary: res st' ok rule: assemble_result_pointer.induct)
  case (1 K st reg ty var_data var_grad)
  show ?case
  proof (cases "types_guard ty")
    case (Inl e)
    then have "e = UntrustedTypeError" by (rule types_guard_Inl)
    then have "res = Inl e" "st' = log_event (TypesGuard ty) st"
      using "1.prems" Inl by simp_all
    then show ?thesis using guarded_run_reject [OF Inl] by simp
  next
    case (Inr t)
    have "guarded_run (log_event (TypesGuard ty) st) (t # ok) res st'"
    proof (cases var_data)
      case None
      obtain d st1 where d: "default_data K (log_event (TypesGuard ty) st) t = (d, st1)"
        by (cases "default_data K (log_event (TypesGuard ty) st) t")
      then have c: "construct_and_register K st1 t d reg = (res, st')"
        using "1.prems" Inr None by simp
      have "guarded_run (log_event (TypesGuard ty) st) (t # ok) (Inr d) st1"
        using d by (rule guarded_run_default_data)
      moreover have "guarded_run st1 (t # ok) res st'"
        using c by (rule guarded_run_construct_and_register) simp
      ultimately show ?thesis by (rule guarded_run_trans)
    next
      case (Some r)
      obtain dres st1 where a:
        "assemble_result_pointer K (log_event (TypesGuard ty) st) r = (dres, st1)"
        by (cases "assemble_result_pointer K (log_event (TypesGuard ty) st) r")
      have ih: "guarded_run (log_event (TypesGuard ty) st) (t # ok) dres st1"
        using "1.IH" [OF Inr Some a] .
      show ?thesis
      proof (cases dres)
        case (Inl e)
        then have "res = Inl e" "st' = st1" using "1.prems" Inr Some a by simp_all
        then show ?thesis using ih Inl by simp
      next
        case (Inr d)
        then have c: "construct_and_register K st1 t (Some d) reg = (res, st')"
          using "1.prems" \<open>types_guard ty = Inr t\<close> Some a by simp
        have "guarded_run st1 (t # ok) res st'"
          using c by (rule guarded_run_construct_and_register) simp
        with ih show ?thesis unfolding Inr by (rule guarded_run_trans)
      qed
    qed
    with Inr show ?thesis by (rule guarded_run_accept)
  qed
qed

text \<open>When the guard rejects a name during the assembly of a pointer, nothing was built.\<close>

lemma assemble_result_pointer_rejected:
  assumes "assemble_result_pointer K st r = (res, st')" and "trace st' = trace st @ evs"
    and "rejected evs"
  shows "\<forall>e\<in>set evs. \<exists>n. e = TypesGuard n"
  using assms
proof (induction K st r arbitrary: res st' evs rule: assemble_result_pointer.induct)
  case (1 K st reg ty var_data var_grad)
  show ?case
  proof (cases "types_guard ty")
    case (Inl e)
    then have "st' = log_event (TypesGuard ty) st" using "1.prems" by simp
    then have "evs = [TypesGuard ty]" using "1.prems"(2) by (simp add: log_event_trace)
    then show ?thesis by simp
  next
    case (Inr t)
    show ?thesis
    proof (cases var_data)
      case None
      obtain d st1 where d: "default_data K (log_event (TypesGuard ty) st) t = (d, st1)"
        by (cases "default_data K (log_event (TypesGuard ty) st) t")
      then have c: "construct_and_register K st1 t d reg = (res, st')"
        using "1.prems" Inr None by simp
      have "emits (log_event (TypesGuard ty) st) st1 (\<lambda>e. \<forall>n. e \<noteq> TypesGuard n)"
        by (rule emits_default_data [OF d]) simp_all
      moreover have "emits st1 st' (\<lambda>e. \<forall>n. e \<noteq> TypesGuard n)"
        by (rule emits_construct_and_register [OF c]) simp_all
      ultimately have "emits (log_event (TypesGuard ty) st) st' (\<lambda>e. \<forall>n. e \<noteq> TypesGuard n)"
        by (rule emits_trans)
      then obtain es where "evs = TypesGuard ty # es" "\<forall>e\<in>set es. \<forall>n. e \<noteq> TypesGuard n"
        using "1.prems"(2) by (auto simp: emits_def log_event_trace list_all_iff)
      moreover have "\<not> rejected es" if "\<forall>e\<in>set es. \<forall>n. e \<noteq> TypesGuard n" for es
        using that by (induction es rule: rejected.induct) auto
      ultimately have "\<not> rejected evs" using Inr by simp
      then show ?thesis using "1.prems"(3) by simp
    next
      case (Some r)
      obtain dres st1 where a:
        "assemble_result_pointer K (log_event (TypesGuard ty) st) r = (dres, st1)"
        by (cases "assemble_result_pointer K (log_event (TypesGuard ty) st) r")
      have g: "guarded_run (log_event (TypesGuard ty) st) [] dres st1"
        using a by (rule guarded_run_assemble_result_pointer)
      then obtain es1 where es1: "trace st1 = trace st @ TypesGuard ty # es1"
          "rejected es1 \<longrightarrow> dres = Inl UntrustedTypeError"
        by (auto simp: guarded_run_def log_event_trace)
      show ?thesis
      proof (cases dres)
        case (Inl e)
        then have "st' = st1" using "1.prems" Inr Some a by simp
        then have evs: "evs = TypesGuard ty # es1" using es1 "1.prems"(2) by simp
        then have "rejected es1" using "1.prems"(3) Inr by simp
        then have "\<forall>e\<in>set es1. \<exists>n. e = TypesGuard n"
          using "1.IH" [OF Inr Some a, of es1] es1(1) by (simp add: log_event_trace)
        then show ?thesis using evs by simp
      next
        case (Inr d)
        then have c: "construct_and_register K st1 t (Some d) reg = (res, st')"
          using "1.prems" \<open>types_guard ty = Inr t\<close> Some a by simp
        have "emits st1 st' (\<lambda>e. \<forall>n. e \<noteq> TypesGuard n)"
          by (rule emits_construct_and_register [OF c]) simp_all
        then obtain es2 where es2: "trace st' = trace st1 @ es2"
            "\<forall>e\<in>set es2. \<forall>n. e \<noteq> TypesGuard n"
          by (auto simp: emits_def list_all_iff)
        have nr2: "\<not> rejected es2"
          using es2(2) by (induction es2 rule: rejected.induct) auto
        have nr1: "\<not> rejected es1" using es1(2) Inr by auto
        have "evs = TypesGuard ty # es1 @ es2" using es1 es2 "1.prems"(2) by simp
        then have "\<not> rejected evs"
          using nr1 nr2 \<open>types_guard ty = Inr t\<close> by (simp add: rejected_append)
        then show ?thesis using "1.prems"(3) by simp
      qed
    qed
  qed
qed

lemma new_variable_trace:
  "new_variable K st t d vol rg = (v, st') \<Longrightarrow>
   trace st' = trace st @ [Construct t, RegisterObject (next_id st)] \<and>
   obj_id (attrs v) = Some (next_id st) \<and> data_of v = Some d \<and> grad_of v = None \<and>
   next_id st' = Suc (next_id st)"
  by (auto simp: new_variable_def new_object_def register_object_def no_keywords_def
      log_event_def Let_def split: prod.splits)

lemma set_grad_trace:
  "set_grad st v g = (v', st') \<Longrightarrow>
   trace st' = trace st @ [SetGrad (obj_id (attrs v))] \<and> attrs v' = attrs v \<and>
   data_of v' = data_of v \<and> grad_of v' = g \<and> next_id st' = next_id st"
  by (auto simp: set_grad_def log_event_def)


lemma guarded_run_construct_variable:
  assumes "construct_variable K st t data grad vol rg = (res, st')" and "t \<in> set ok"
  shows "guarded_run st ok res st'"
proof -
  have "\<exists>evs. trace st' = trace st @ evs \<and>
      (evs = [] \<or> (\<exists>i. evs = [Construct t, RegisterObject i]) \<or>
       (\<exists>i j. evs = [Construct t, RegisterObject i, SetGrad j]))"
    using assms(1)
    by (auto simp: construct_variable_def split: option.splits prod.splits
        dest!: new_variable_trace set_grad_trace)
  then show ?thesis
    using assms(2) by (auto simp: guarded_run_def)
qed

lemma guarded_run_deser_family:
  shows "deser E st t m = (res1, st1) \<Longrightarrow> t \<in> set ok \<Longrightarrow> guarded_run st ok res1 st1"
    and "build_var E st m' t' = (res2, st2) \<Longrightarrow> t' \<in> set ok \<Longrightarrow> guarded_run st ok res2 st2"
    and "rebuild_data E st dat = (res3, st3) \<Longrightarrow> guarded_run st ok res3 st3"
    and "rebuild_grad E st grd = (res4, st4) \<Longrightarrow> guarded_run st ok res4 st4"
proof (induction E st t m and E st m' t' and E st dat and E st grd
    arbitrary: res1 st1 ok and res2 st2 ok and res3 st3 ok and res4 st4 ok
    rule: deser_build_var_rebuild_data_rebuild_grad.induct)
  case (1 E st t ty dat grd i ws ip rg vol)
  show ?case
  proof (cases "t \<in> set var_types")
    case False
    have "\<exists>evs. trace st1 = trace st @ evs \<and> (evs = [] \<or> (\<exists>i. evs = [Construct t, RegisterObject i]))"
      using "1.prems"(1) False
      by (auto simp: log_event_trace split: option.splits sum.splits prod.splits
          dest!: new_object_trace)
    then show ?thesis using "1.prems"(2) by (auto simp: guarded_run_def)
  next
    case True
    obtain dres sa where d: "rebuild_data E st dat = (dres, sa)"
      by (cases "rebuild_data E st dat")
    have gd: "guarded_run st ok dres sa" using "1.IH"(1) [OF _ d] True by simp
    show ?thesis
    proof (cases dres)
      case (Inl e)
      then have "res1 = Inl e" "st1 = sa" using "1.prems"(1) True d by simp_all
      then show ?thesis using gd Inl by (simp add: guarded_run_def)
    next
      case (Inr data)
      obtain gres sb where g: "rebuild_grad E sa grd = (gres, sb)"
        by (cases "rebuild_grad E sa grd")
      have gg: "guarded_run sa ok gres sb"
        using "1.IH"(2) [OF _ d [symmetric] _ g] True Inr by simp
      show ?thesis
      proof (cases gres)
        case (Inl e)
        then have "res1 = Inl e" "st1 = sb" using "1.prems"(1) True d g Inr by simp_all
        moreover have "guarded_run st ok gres sb" using gd gg unfolding Inr by (rule guarded_run_trans)
        ultimately show ?thesis using Inl by (simp add: guarded_run_def)
      next
        case (Inr grad)
        have c: "construct_variable (kernel E) sb t data grad
            (if t = Parameter then Some False else vol) rg = (res1, st1)"
          using "1.prems"(1) True d g Inr \<open>dres = Inr data\<close> by simp
        have "guarded_run sb ok res1 st1"
          using c "1.prems"(2) by (rule guarded_run_construct_variable)
        moreover have "guarded_run st ok (Inr grad :: error + 'a tensorvar option option) sb"
          using gd gg unfolding Inr \<open>dres = Inr data\<close> by (rule guarded_run_trans)
        ultimately show ?thesis by (rule guarded_run_trans [rotated])
      qed
    qed
  qed
next
  case (2 E st ty dat grd i ws ip rg vol t)
  obtain dres sa where d: "rebuild_data E st dat = (dres, sa)"
    by (cases "rebuild_data E st dat")
  have gd: "guarded_run st ok dres sa" using "2.IH"(1) [OF d] .
  show ?case
  proof (cases dres)
    case (Inl e)
    then have "res2 = Inl e" "st2 = sa" using "2.prems"(1) d by simp_all
    then show ?thesis using gd Inl by (simp add: guarded_run_def)
  next
    case (Inr data)
    obtain gres sb where g: "rebuild_grad E sa grd = (gres, sb)"
      by (cases "rebuild_grad E sa grd")
    have gg: "guarded_run sa ok gres sb"
      using "2.IH"(2) [OF d [symmetric] _ g] Inr by simp
    show ?thesis
    proof (cases gres)
      case (Inl e)
      then have "res2 = Inl e" "st2 = sb" using "2.prems"(1) d g Inr by simp_all
      moreover have "guarded_run st ok gres sb" using gd gg unfolding Inr by (rule guarded_run_trans)
      ultimately show ?thesis using Inl by (simp add: guarded_run_def)
    next
      case (Inr grad)
      have c: "st2 = sb \<or> construct_variable (kernel E) sb t data grad vol rg = (res2, st2)"
        using "2.prems"(1) d g Inr \<open>dres = Inr data\<close> by (simp split: if_splits)
      have "guarded_run sb ok res2 st2"
        using c "2.prems"(2) guarded_run_refl [of sb ok res2]
        by (auto intro: guarded_run_construct_variable)
      moreover have "guarded_run st ok (Inr grad :: error + 'a tensorvar option option) sb"
        using gd gg unfolding Inr \<open>dres = Inr data\<close> by (rule guarded_run_trans)
      ultimately show ?thesis by (rule guarded_run_trans [rotated])
    qed
  qed
next
  case (3 E st)
  then show ?case by (simp add: guarded_run_refl)
next
  case (4 E st d)
  then show ?case by (simp add: guarded_run_refl)
next
  case (5 E st data_msg)
  show ?case
  proof (cases "msg_torch_type data_msg")
    case None
    then show ?thesis using "5.prems" by (simp add: guarded_run_refl)
  next
    case (Some n)
    show ?thesis
    proof (cases "types_guard n")
      case (Inl e)
      then have "res3 = Inl e" "st3 = log_event (TypesGuard n) st"
        using "5.prems" Some by simp_all
      then show ?thesis using guarded_run_reject [OF Inl, of st ok] by (simp add: guarded_run_def)
    next
      case (Inr tt)
      obtain r sa where a: "deser E (log_event (TypesGuard n) st) tt data_msg = (r, sa)"
        by (cases "deser E (log_event (TypesGuard n) st) tt data_msg")
      have ih: "guarded_run (log_event (TypesGuard n) st) (tt # ok) r sa"
        using "5.IH" [OF Some Inr a] by simp
      have "guarded_run (log_event (TypesGuard n) st) (tt # ok) res3 st3"
      proof (cases r)
        case (Inl e)
        then have "res3 = Inl e" "st3 = sa" using "5.prems" Some \<open>types_guard n = Inr tt\<close> a by simp_all
        then show ?thesis using ih Inl by (simp add: guarded_run_def)
      next
        case (Inr x)
        obtain h sb where h: "handle_register sa x data_msg = (h, sb)"
          by (cases "handle_register sa x data_msg")
        have "st3 = sb" using "5.prems" Some \<open>types_guard n = Inr tt\<close> a Inr h
          by (auto split: sum.splits)
        moreover have "guarded_run sa (tt # ok) res3 sb"
          using h by (rule guarded_run_handle_register)
        ultimately show ?thesis using ih unfolding Inr by (auto intro: guarded_run_trans)
      qed
      with Inr show ?thesis by (rule guarded_run_accept)
    qed
  qed
next
  case (6 E st)
  then show ?case by (simp add: guarded_run_refl)
next
  case (7 E st)
  then show ?case by (simp add: guarded_run_refl)
next
  case (8 E st grad_msg)
  show ?case
  proof (cases "msg_torch_type grad_msg")
    case None
    then show ?thesis using "8.prems" by (simp add: guarded_run_refl)
  next
    case (Some n)
    show ?thesis
    proof (cases "types_guard n")
      case (Inl e)
      then have "res4 = Inl e" "st4 = log_event (TypesGuard n) st"
        using "8.prems" Some by simp_all
      then show ?thesis using guarded_run_reject [OF Inl, of st ok] by (simp add: guarded_run_def)
    next
      case (Inr tt)
      obtain r sa where a: "build_var E (log_event (TypesGuard n) st) grad_msg tt = (r, sa)"
        by (cases "build_var E (log_event (TypesGuard n) st) grad_msg tt")
      have ih: "guarded_run (log_event (TypesGuard n) st) (tt # ok) r sa"
        using "8.IH" [OF Some Inr a] by simp
      have "guarded_run (log_event (TypesGuard n) st) (tt # ok) res4 st4"
      proof (cases r)
        case (Inl e)
        then have "res4 = Inl e" "st4 = sa" using "8.prems" Some \<open>types_guard n = Inr tt\<close> a by simp_all
        then show ?thesis using ih Inl by (simp add: guarded_run_def)
      next
        case (Inr x)
        obtain h sb where h: "handle_register sa x grad_msg = (h, sb)"
          by (cases "handle_register sa x grad_msg")
        have "st4 = sb" using "8.prems" Some \<open>types_guard n = Inr tt\<close> a Inr h
          by (auto split: sum.splits)
        moreover have "guarded_run sa (tt # ok) res4 sb"
          using h by (rule guarded_run_handle_register)
        ultimately show ?thesis using ih unfolding Inr by (auto intro: guarded_run_trans)
      qed
      with Inr show ?thesis by (rule guarded_run_accept)
    qed
  qed
qed

lemma types_guard_eval:
  "types_guard ''torch.FloatTensor'' = Inr FloatTensor"
  "types_guard ''torch.autograd.variable.Variable'' = Inr Variable"
  "types_guard ''os.system'' = Inl UntrustedTypeError"
  by (simp_all add: types_guard_def map_torch_type_def)

text \<open>
  Claim C4 fails on the code where it says that no object is constructed. \<^verbatim>\<open>deser\<close> of a
  variable class rebuilds and registers the data before it reads the type name of the
  gradient: on a message whose data is a float tensor and whose gradient names the type
  \<^verbatim>\<open>os.system\<close>, the call fails with UntrustedTypeError after the data tensor was
  constructed and registered, once by its constructor and once under the id \<open>5\<close> of its
  message.
\<close>

theorem deser_constructs_before_rejection:
  "fst (deser test_outside initial_state Variable untrusted_grad_message) =
     Inl UntrustedTypeError \<and>
   trace (snd (deser test_outside initial_state Variable untrusted_grad_message)) =
     [TypesGuard ''torch.FloatTensor'', Construct FloatTensor, RegisterObject 100,
      RegisterObject 5, TypesGuard ''os.system'']"
  by (simp add: untrusted_grad_message_def example_data_message_def types_guard_eval
      var_types_def test_outside_def initial_state_def log_event_def new_object_def
      register_object_def handle_register_def no_keywords_def kernel_result_def Let_def)

text \<open>
  Claim C4 as amended. In the assembly of a result pointer and in the deserialization of a
  variable whose own class \<open>t\<close> the caller has validated, every constructor that is called
  belongs to a class that the type guard returned before the call of the constructor; when
  the guard rejects a name, the call fails with UntrustedTypeError and does nothing after
  the rejection. The assembly of a pointer has then constructed and registered nothing at
  all; the deserialization of a variable may have constructed and registered objects of
  the classes validated before the rejection.
\<close>

theorem type_guard_before_construction:
  "(assemble_result_pointer K st r = (res, st') \<longrightarrow>
      (\<exists>evs. trace st' = trace st @ evs \<and> guard_respected [] evs \<and>
         (rejected evs \<longrightarrow>
            res = Inl UntrustedTypeError \<and> (\<forall>e\<in>set evs. \<exists>n. e = TypesGuard n)))) \<and>
   (deser E st t m = (res', st'') \<longrightarrow>
      (\<exists>evs. trace st'' = trace st @ evs \<and> guard_respected [t] evs \<and>
         (rejected evs \<longrightarrow> res' = Inl UntrustedTypeError)))"
proof (intro conjI impI)
  assume a: "assemble_result_pointer K st r = (res, st')"
  from guarded_run_assemble_result_pointer [OF a, of "[]"]
  obtain evs where evs: "trace st' = trace st @ evs" "guard_respected [] evs"
      "rejected evs \<longrightarrow> res = Inl UntrustedTypeError"
    by (auto simp: guarded_run_def)
  have "rejected evs \<longrightarrow> (\<forall>e\<in>set evs. \<exists>n. e = TypesGuard n)"
    using assemble_result_pointer_rejected [OF a evs(1)] by blast
  with evs show "\<exists>evs. trace st' = trace st @ evs \<and> guard_respected [] evs \<and>
      (rejected evs \<longrightarrow> res = Inl UntrustedTypeError \<and> (\<forall>e\<in>set evs. \<exists>n. e = TypesGuard n))"
    by blast
next
  assume d: "deser E st t m = (res', st'')"
  have "guarded_run st [t] res' st''"
    using d by (rule guarded_run_deser_family(1)) simp
  then show "\<exists>evs. trace st'' = trace st @ evs \<and> guard_respected [t] evs \<and>
      (rejected evs \<longrightarrow> res' = Inl UntrustedTypeError)"
    by (simp add: guarded_run_def)
qed

theorem type_guard_before_construction_witness:
  "(\<exists>evs. trace (snd (assemble_result_pointer free_kernel initial_state untrusted_response)) =
            trace (initial_state :: kexpr hook_state) @ evs \<and>
      guard_respected [] evs \<and> rejected evs \<and>
      fst (assemble_result_pointer free_kernel initial_state untrusted_response) =
        Inl UntrustedTypeError \<and>
      (\<forall>e\<in>set evs. \<exists>n. e = TypesGuard n)) \<and>
   (\<exists>evs. trace (snd (deser test_outside initial_state Variable untrusted_grad_message)) =
            trace (initial_state :: kexpr hook_state) @ evs \<and>
      guard_respected [Variable] evs \<and> rejected evs \<and>
      fst (deser test_outside initial_state Variable untrusted_grad_message) =
        Inl UntrustedTypeError)"
proof -
  let ?A = "assemble_result_pointer free_kernel (initial_state :: kexpr hook_state)
              untrusted_response"
  let ?D = "deser test_outside initial_state Variable untrusted_grad_message"
  have ta: "trace (snd ?A) =
      [TypesGuard ''torch.autograd.variable.Variable'', TypesGuard ''os.system'']"
    by (simp add: untrusted_response_def types_guard_eval initial_state_def log_event_def)
  have td: "trace (snd ?D) =
      [TypesGuard ''torch.FloatTensor'', Construct FloatTensor, RegisterObject 100,
       RegisterObject 5, TypesGuard ''os.system'']"
    by (simp add: untrusted_grad_message_def example_data_message_def types_guard_eval
        var_types_def test_outside_def initial_state_def log_event_def new_object_def
        register_object_def handle_register_def no_keywords_def kernel_result_def Let_def)
  have t0: "trace (initial_state :: kexpr hook_state) = []"
    by (simp add: initial_state_def)
  from type_guard_before_construction
         [of free_kernel initial_state untrusted_response "fst ?A" "snd ?A"
             test_outside Variable untrusted_grad_message "fst ?D" "snd ?D"]
  show ?thesis
    unfolding ta td t0 by (simp add: types_guard_eval)
qed

section \<open>Properties of serialization\<close>




















section \<open>Properties of sending and getting\<close>

lemma register_object_result:
  "register_object st x r =
     (TV ((attrs x)\<lparr>
            obj_id := Some (case reg_id r of Some i \<Rightarrow> i | None \<Rightarrow> next_id st),
            owners := Some (case reg_owners r of Some ws \<Rightarrow> ws | None \<Rightarrow> [local_worker_id st]),
            is_pointer := Some (case reg_is_pointer r of Some b \<Rightarrow> b | None \<Rightarrow> False)\<rparr>)
         (data_of x) (grad_of x),
      snd (register_object st x r))"
  by (simp add: register_object_def Let_def)

lemma register_object_world:
  "remote_objects (snd (register_object st x r)) = remote_objects st"
  "local_worker_id (snd (register_object st x r)) = local_worker_id st"
  by (simp_all add: register_object_def Let_def)

lemma well_formed_variable_iff:
  "well_formed_variable x \<longleftrightarrow>
     data_of x \<noteq> None \<and> owners (attrs x) \<noteq> None \<and> is_pointer (attrs x) \<noteq> None \<and>
     (\<forall>g. grad_of x = Some g \<longrightarrow> well_formed_variable g)"
  by (cases x) (auto split: option.splits)

lemma get_grad_well_formed:
  assumes "well_formed_variable x"
  shows "\<exists>x1. get_grad st x = (Inr (grad_of x, x1), st) \<and> data_of x1 = data_of x \<and>
     grad_of x1 = grad_of x \<and> obj_id (attrs x1) = obj_id (attrs x) \<and>
     owners (attrs x1) = owners (attrs x) \<and> is_pointer (attrs x1) = is_pointer (attrs x) \<and>
     class_of (attrs x1) = class_of (attrs x) \<and>
     data_registered (attrs x1) = data_registered (attrs x)"
proof (cases "grad_of x")
  case None
  then show ?thesis by (simp add: get_grad_def)
next
  case (Some g)
  then have "well_formed_variable g" using assms well_formed_variable_iff [of x] by simp
  then obtain ws where "owners (attrs g) = Some ws"
    using well_formed_variable_iff [of g] by auto
  then show ?thesis using Some by (simp add: get_grad_def get_owners_def)
qed

lemma get_data_ok:
  assumes "data_of x = Some d" and "owners (attrs x) = Some ws" and "is_pointer (attrs x) = Some b"
  shows "\<exists>d' x1 st1. get_data st x = (Inr (d', x1), st1) \<and>
     contents (attrs d') = contents (attrs d) \<and> class_of (attrs d') = class_of (attrs d) \<and>
     data_of x1 = Some d' \<and> grad_of x1 = grad_of x \<and>
     obj_id (attrs x1) = obj_id (attrs x) \<and> owners (attrs x1) = owners (attrs x) \<and>
     is_pointer (attrs x1) = is_pointer (attrs x) \<and> class_of (attrs x1) = class_of (attrs x) \<and>
     remote_objects st1 = remote_objects st \<and> local_worker_id st1 = local_worker_id st"
  using assms
  by (cases "data_registered (attrs x)")
     (simp_all add: get_data_def get_owners_def register_object_def Let_def)

lemma zero_out_result:
  "\<exists>st'. zero_out K st x = (set_contents x (zero_dim K), st') \<and>
     remote_objects st' = remote_objects st \<and> local_worker_id st' = local_worker_id st"
  by (simp add: zero_out_def new_object_def register_object_def log_event_def kernel_result_def
      no_keywords_def Let_def)


lemma zero_out_world:
  "remote_objects (snd (zero_out K st x)) = remote_objects st"
  "local_worker_id (snd (zero_out K st x)) = local_worker_id st"
  "fst (zero_out K st x) = set_contents x (zero_dim K)"
  using zero_out_result [of K st x] by auto

lemma var_to_pointer_ok:
  "well_formed_variable var \<Longrightarrow>
   \<exists>p st'. var_to_pointer K st var = (Inr p, st') \<and>
     obj_id (attrs p) = obj_id (attrs var) \<and> owners (attrs p) = owners (attrs var) \<and>
     class_of (attrs p) = class_of (attrs var) \<and> is_pointer (attrs p) = Some True \<and>
     data_of p \<noteq> None \<and>
     remote_objects st' = remote_objects st \<and> local_worker_id st' = local_worker_id st"
proof (induction K st var rule: var_to_pointer.induct)
  case (1 K st var)
  from get_grad_well_formed [OF "1.prems", of st]
  obtain var1 where gg: "get_grad st var = (Inr (grad_of var, var1), st)"
    and d1: "data_of var1 = data_of var"
    and i1: "obj_id (attrs var1) = obj_id (attrs var)"
    and o1: "owners (attrs var1) = owners (attrs var)"
    and p1: "is_pointer (attrs var1) = is_pointer (attrs var)"
    and c1: "class_of (attrs var1) = class_of (attrs var)"
    by blast
  from "1.prems" obtain d ws b where dv: "data_of var = Some d"
    and ov: "owners (attrs var) = Some ws" and pv: "is_pointer (attrs var) = Some b"
    using well_formed_variable_iff [of var] by auto
  have "\<exists>grad st2. (case grad_of var of
                   None \<Rightarrow> (Inr None, st)
                 | Some g' \<Rightarrow>
                     (case var_to_pointer K st g' of
                        (Inl e, st2) \<Rightarrow> (Inl e, st2)
                      | (Inr g'', st2) \<Rightarrow> (Inr (Some g''), st2))) = (Inr grad, st2) \<and>
          remote_objects st2 = remote_objects st \<and> local_worker_id st2 = local_worker_id st"
  proof (cases "grad_of var")
    case None
    then show ?thesis by simp
  next
    case (Some g)
    then have "well_formed_variable g"
      using "1.prems" well_formed_variable_iff [of var] by simp
    from "1.IH" [OF gg [symmetric] refl refl Some this] Some
    show ?thesis by auto
  qed
  then obtain grad st2 where rec: "(case grad_of var of
                   None \<Rightarrow> (Inr None, st)
                 | Some g' \<Rightarrow>
                     (case var_to_pointer K st g' of
                        (Inl e, st2) \<Rightarrow> (Inl e, st2)
                      | (Inr g'', st2) \<Rightarrow> (Inr (Some g''), st2))) = (Inr grad, st2)"
    and w2: "remote_objects st2 = remote_objects st" "local_worker_id st2 = local_worker_id st"
    by blast
  have "data_of (TV (attrs var1) (data_of var1) grad) = Some d"
    "owners (attrs (TV (attrs var1) (data_of var1) grad)) = Some ws"
    "is_pointer (attrs (TV (attrs var1) (data_of var1) grad)) = Some b"
    using d1 o1 p1 dv ov pv by simp_all
  from get_data_ok [OF this, of st2]
  obtain d' var2 st3 where
    gd: "get_data st2 (TV (attrs var1) (data_of var1) grad) = (Inr (d', var2), st3)"
    and i2: "obj_id (attrs var2) = obj_id (attrs var1)"
    and o2: "owners (attrs var2) = owners (attrs var1)"
    and c2: "class_of (attrs var2) = class_of (attrs var1)"
    and w3: "remote_objects st3 = remote_objects st2" "local_worker_id st3 = local_worker_id st2"
    by auto
  obtain d'' st4 where zo: "zero_out K st3 d' = (d'', st4)" by (cases "zero_out K st3 d'")
  have w4: "remote_objects st4 = remote_objects st3" "local_worker_id st4 = local_worker_id st3"
    using zero_out_world(1,2) [of K st3 d'] zo by simp_all
  have "var_to_pointer K st var =
      (Inr (TV ((attrs var2)\<lparr>is_pointer := Some True\<rparr>) (Some d'') (grad_of var2)), st4)"
    by (subst var_to_pointer.simps) (simp add: gg rec gd zo)
  then show ?case using i1 i2 o1 o2 c1 c2 w2 w3 w4 by simp
qed


lemma send_variable:
  assumes cls: "class_of (attrs v) \<in> set var_types"
    and idv: "obj_id (attrs v) = Some i"
    and wf: "well_formed_variable v"
  shows "\<exists>p st1. send K st v [w] False = (Inr p, st1) \<and> obj_id (attrs p) = Some i \<and>
     owners (attrs p) = Some [w] \<and> is_pointer (attrs p) = Some True \<and>
     class_of (attrs p) = class_of (attrs v) \<and> data_of p \<noteq> None \<and>
     remote_objects st1 w i = Some v \<and> local_worker_id st1 = local_worker_id st"
proof -
  define sa where "sa = st\<lparr>remote_objects := (remote_objects st)(w := (remote_objects st w)(i := Some v)),
              trace := trace st @ [SendObj w i]\<rparr>"
  define r where "r = \<lparr>reg_id = Some i, reg_owners = Some [w], reg_is_pointer = Some True\<rparr>"
  define v' where "v' = fst (register_object sa v r)"
  define sb where "sb = snd (register_object sa v r)"
  have sent: "send_to_workers st v [w] = (Inr (), sa)"
    by (simp add: send_obj_def idv sa_def)
  have reg: "register_object sa v r = (v', sb)" by (simp add: v'_def sb_def)
  have v': "obj_id (attrs v') = Some i" "owners (attrs v') = Some [w]"
    "class_of (attrs v') = class_of (attrs v)" "data_of v' = data_of v" "grad_of v' = grad_of v"
    "is_pointer (attrs v') = Some True"
    unfolding v'_def r_def by (simp_all add: register_object_def Let_def)
  have wb: "remote_objects sb = remote_objects sa" "local_worker_id sb = local_worker_id sa"
    unfolding sb_def by (rule register_object_world)+
  have "well_formed_variable v'"
    using wf well_formed_variable_iff [of v] well_formed_variable_iff [of v'] v' by simp
  from var_to_pointer_ok [OF this, of K sb]
  obtain p st1 where vp: "var_to_pointer K sb v' = (Inr p, st1)"
    and p: "obj_id (attrs p) = obj_id (attrs v')" "owners (attrs p) = owners (attrs v')"
      "class_of (attrs p) = class_of (attrs v')" "is_pointer (attrs p) = Some True"
      "data_of p \<noteq> None"
    and w1: "remote_objects st1 = remote_objects sb" "local_worker_id st1 = local_worker_id sb"
    by blast
  have "send K st v [w] False = (Inr p, st1)"
    unfolding send_def sent using cls idv reg [unfolded r_def] vp by simp
  moreover have "remote_objects st1 w i = Some v" "local_worker_id st1 = local_worker_id st"
    using w1 wb by (simp_all add: sa_def)
  ultimately show ?thesis using p v' by simp
qed

lemma get_variable:
  assumes cls: "class_of (attrs p) \<in> set var_types"
    and idp: "obj_id (attrs p) = Some i"
    and own: "owners (attrs p) = Some [w]"
    and ptr: "is_pointer (attrs p) = Some b"
    and dat: "data_of p = Some dp"
    and far: "w \<noteq> local_worker_id st"
    and held: "remote_objects st w i = Some v"
    and idv: "obj_id (attrs v) = Some i"
    and wf: "well_formed_variable v"
  shows "\<exists>r st2 xd dv. get K st p = (Inr r, st2) \<and> owners (attrs r) = Some [local_worker_id st] \<and>
     obj_id (attrs r) = Some i \<and> is_pointer (attrs r) = Some False \<and>
     data_of r = Some xd \<and> data_of v = Some dv \<and>
     contents (attrs xd) = contents (attrs dv) \<and> class_of (attrs xd) = class_of (attrs dv) \<and>
     grad_of r = (if grad_of v = None then grad_of p else grad_of v)"
proof -
  define s2 where "s2 = log_event (RequestObj w i) st"
  define x where "x = fst (register_object s2 v (no_keywords\<lparr>reg_id := Some i\<rparr>))"
  define s3 where "s3 = snd (register_object s2 v (no_keywords\<lparr>reg_id := Some i\<rparr>))"
  have go: "get_owners st p = (Inr ([w], p), st)" by (simp add: get_owners_def own)
  have rq: "request_obj st i w = (Inr v, s2)" by (simp add: request_obj_def held s2_def)
  have rg: "register_object s2 v (no_keywords\<lparr>reg_id := Some i\<rparr>) = (x, s3)"
    by (simp add: x_def s3_def)
  have w2: "local_worker_id s2 = local_worker_id st" by (simp add: s2_def log_event_def)
  have w3: "local_worker_id s3 = local_worker_id s2"
    unfolding s3_def by (rule register_object_world)
  from wf obtain dv where dv: "data_of v = Some dv" using well_formed_variable_iff [of v] by auto
  have x: "data_of x = Some dv" "grad_of x = grad_of v" "owners (attrs x) = Some [local_worker_id s2]"
    "is_pointer (attrs x) = Some False"
    unfolding x_def by (simp_all add: register_object_def no_keywords_def Let_def dv)
  from get_data_ok [OF dat own ptr, of s3]
  obtain d self1 s4 where gd1: "get_data s3 p = (Inr (d, self1), s4)"
    and s1: "obj_id (attrs self1) = obj_id (attrs p)" "grad_of self1 = grad_of p"
    and w4: "local_worker_id s4 = local_worker_id s3"
    by auto
  from get_data_ok [OF x(1) x(3) x(4), of s4]
  obtain xd x1 s5 where gd2: "get_data s4 x = (Inr (xd, x1), s5)"
    and xd: "contents (attrs xd) = contents (attrs dv)" "class_of (attrs xd) = class_of (attrs dv)"
    and x1: "data_of x1 = Some xd" "grad_of x1 = grad_of x" "owners (attrs x1) = owners (attrs x)"
      "is_pointer (attrs x1) = is_pointer (attrs x)"
    and w5: "local_worker_id s5 = local_worker_id s4"
    by auto
  have "well_formed_variable x1"
    using wf well_formed_variable_iff [of v] well_formed_variable_iff [of x1] x x1 by simp
  from get_grad_well_formed [OF this, of s5]
  obtain x2 where gg: "get_grad s5 x1 = (Inr (grad_of x1, x2), s5)" by blast
  define self2 where "self2 = TV (attrs self1) (Some xd)
      (if grad_of v = None then grad_of self1 else grad_of v)"
  define s7 where "s7 = (if grad_of v = None then s5
      else log_event (SetGrad (obj_id (attrs self1))) s5)"
  have gx: "grad_of x1 = grad_of v" using x1 x by simp
  have inner: "(case grad_of x1 of
        None \<Rightarrow> (TV (attrs self1) (Some xd) (grad_of self1), s5)
      | Some g \<Rightarrow> set_grad s5 (TV (attrs self1) (Some xd) (grad_of self1)) (Some g)) =
      (self2, s7)"
    unfolding gx self2_def s7_def by (cases "grad_of v") (simp_all add: set_grad_def)
  have w7: "local_worker_id s7 = local_worker_id st"
    using w2 w3 w4 w5 by (simp add: s7_def log_event_def)
  define fin where "fin = register_object s7
      (set_contents self2 (as_type K x (class_of (attrs d))))
      \<lparr>reg_id = Some i, reg_owners = Some [local_worker_id s7], reg_is_pointer = None\<rparr>"
  have "get K st p = (case fin of (self', s8) \<Rightarrow> (Inr self', s8))"
    unfolding get_def go fin_def using far cls idp idv rq rg gd1 gd2 gg inner
    by simp
  then have "get K st p = (Inr (fst fin), snd fin)"
    by (simp add: case_prod_beta)
  moreover have "owners (attrs (fst fin)) = Some [local_worker_id st]"
    "obj_id (attrs (fst fin)) = Some i" "is_pointer (attrs (fst fin)) = Some False"
    "data_of (fst fin) = Some xd"
    "grad_of (fst fin) = (if grad_of v = None then grad_of p else grad_of v)"
    unfolding fin_def
    by (simp_all add: register_object_def set_contents_def Let_def w7 self2_def s1)
  ultimately show ?thesis using dv xd by blast
qed


lemma send_get_tensor:
  assumes "class_of (attrs v) \<notin> set var_types"
    and "obj_id (attrs v) = Some i"
    and "w \<noteq> local_worker_id st"
  shows "\<exists>p st1 r st2. send K st v [w] False = (Inr p, st1) \<and>
     owners (attrs p) = Some [w] \<and> is_pointer (attrs p) = Some True \<and>
     get K st1 p = (Inr r, st2) \<and> owners (attrs r) = Some [local_worker_id st] \<and>
     obj_id (attrs r) = Some i \<and> is_pointer (attrs r) = Some False \<and>
     contents (attrs r) = contents (attrs v)"
  using assms
  by (simp add: send_def get_def send_obj_def request_obj_def zero_out_def new_object_def
      register_object_def log_event_def kernel_result_def no_keywords_def set_contents_def
      as_type_def get_owners_def Let_def)

lemma send_get_variable:
  assumes cls: "class_of (attrs v) \<in> set var_types"
    and idv: "obj_id (attrs v) = Some i"
    and far: "w \<noteq> local_worker_id st"
    and wf: "well_formed_variable v"
  shows "\<exists>p st1 r st2. send K st v [w] False = (Inr p, st1) \<and>
     owners (attrs p) = Some [w] \<and> is_pointer (attrs p) = Some True \<and>
     get K st1 p = (Inr r, st2) \<and> owners (attrs r) = Some [local_worker_id st] \<and>
     obj_id (attrs r) = Some i \<and> is_pointer (attrs r) = Some False \<and>
     (\<exists>d d'. data_of v = Some d \<and> data_of r = Some d' \<and>
        contents (attrs d') = contents (attrs d) \<and> class_of (attrs d') = class_of (attrs d))"
proof -
  from send_variable [OF cls idv wf, of K st w]
  obtain p st1 where s: "send K st v [w] False = (Inr p, st1)"
    and p: "obj_id (attrs p) = Some i" "owners (attrs p) = Some [w]"
      "is_pointer (attrs p) = Some True" "class_of (attrs p) = class_of (attrs v)"
    and dp: "data_of p \<noteq> None"
    and held: "remote_objects st1 w i = Some v"
    and w1: "local_worker_id st1 = local_worker_id st"
    by blast
  from dp obtain d0 where d0: "data_of p = Some d0" by auto
  have cp: "class_of (attrs p) \<in> set var_types" using cls p by simp
  have far1: "w \<noteq> local_worker_id st1" using far w1 by simp
  from get_variable [OF cp p(1) p(2) p(3) d0 far1 held idv wf, of K]
  obtain r st2 xd dv where "get K st1 p = (Inr r, st2)"
    "owners (attrs r) = Some [local_worker_id st1]" "obj_id (attrs r) = Some i"
    "is_pointer (attrs r) = Some False" "data_of r = Some xd" "data_of v = Some dv"
    "contents (attrs xd) = contents (attrs dv)" "class_of (attrs xd) = class_of (attrs dv)"
    by blast
  then show ?thesis using s p w1 by simp
qed

text \<open>
  Claim C8 fails on the code when the destination is the local worker itself. \<^verbatim>\<open>send_\<close>
  empties the tensor and registers it as a pointer owned by the local worker, and \<^verbatim>\<open>get_\<close>
  returns an object whose owners hold the local worker as it is, without a request: the
  tensor \<open>[1, 2]\<close> of the local worker \<open>0\<close>, sent to worker \<open>0\<close> and got back, is empty.
\<close>

theorem send_get_loses_data_at_local_worker:
  "\<exists>p st1 r st2.
     send free_kernel (initial_state :: kexpr hook_state)
       (registered_tensor FloatTensor 1 [local_worker_id (initial_state :: kexpr hook_state)]
          False (Data [1, 2]))
       [local_worker_id (initial_state :: kexpr hook_state)] False = (Inr p, st1) \<and>
     get free_kernel st1 p = (Inr r, st2) \<and>
     contents (attrs r) = Data [] \<and>
     contents (attrs r) \<noteq>
       contents (attrs (registered_tensor FloatTensor 1 [0] False (Data [1, 2])))"
  by (simp add: send_def get_def send_obj_def zero_out_def new_object_def
      register_object_def log_event_def kernel_result_def no_keywords_def set_contents_def
      get_owners_def registered_tensor_def initial_state_def free_kernel_def var_types_def
      Let_def)

text \<open>
  Claim C8 as amended. For every tracked value \<open>v\<close>, which has an id and, when it is a
  variable, a data tensor, owners and a pointer flag, as has every gradient under it, and for
  every single destination worker \<open>w\<close> other than the local worker, \<^verbatim>\<open>send_\<close> returns a
  pointer owned by \<open>w\<close>, and \<^verbatim>\<open>get_\<close> on that pointer returns a value under the id of \<open>v\<close>
  which is no pointer, whose owners are the local worker alone, and whose data is the data
  of \<open>v\<close> before the send: the contents of a tensor, the contents of the data tensor of a
  variable.
\<close>

theorem send_get_round_trip:
  assumes "obj_id (attrs v) = Some i"
    and "w \<noteq> local_worker_id st"
    and "class_of (attrs v) \<in> set var_types \<longrightarrow> well_formed_variable v"
  shows "\<exists>p st1 r st2.
     send K st v [w] False = (Inr p, st1) \<and>
     owners (attrs p) = Some [w] \<and> is_pointer (attrs p) = Some True \<and>
     get K st1 p = (Inr r, st2) \<and>
     owners (attrs r) = Some [local_worker_id st] \<and>
     obj_id (attrs r) = Some i \<and> is_pointer (attrs r) = Some False \<and>
     (if class_of (attrs v) \<in> set var_types
      then \<exists>d d'. data_of v = Some d \<and> data_of r = Some d' \<and>
             contents (attrs d') = contents (attrs d) \<and>
             class_of (attrs d') = class_of (attrs d)
      else contents (attrs r) = contents (attrs v))"
proof (cases "class_of (attrs v) \<in> set var_types")
  case True
  then have "well_formed_variable v" using assms(3) by simp
  from send_get_variable [OF True assms(1) assms(2) this, of K] True
  show ?thesis by simp
next
  case False
  from send_get_tensor [OF False assms(1) assms(2), of K] False
  show ?thesis by simp
qed

theorem send_get_round_trip_witness:
  "(\<exists>p st1 r st2.
      send free_kernel (initial_state :: kexpr hook_state)
        (registered_tensor FloatTensor 1 [0] False (Data [1, 2])) [1] False = (Inr p, st1) \<and>
      get free_kernel st1 p = (Inr r, st2) \<and>
      owners (attrs r) = Some [0] \<and> contents (attrs r) = Data [1, 2]) \<and>
   (\<exists>p st1 r st2 d.
      send free_kernel (initial_state :: kexpr hook_state) example_variable [1] False
        = (Inr p, st1) \<and>
      get free_kernel st1 p = (Inr r, st2) \<and>
      owners (attrs r) = Some [0] \<and> data_of r = Some d \<and> contents (attrs d) = Data [1, 2])"
proof
  have id1: "obj_id (attrs (registered_tensor FloatTensor 1 [0] False (Data [1, 2]))) = Some 1"
    by (simp add: registered_tensor_def)
  have far: "(1::nat) \<noteq> local_worker_id (initial_state :: kexpr hook_state)"
    by (simp add: initial_state_def)
  have t: "class_of (attrs (registered_tensor FloatTensor 1 [0] False (Data [1, 2])))
      \<in> set var_types \<longrightarrow>
      well_formed_variable (registered_tensor FloatTensor 1 [0] False (Data [1, 2]))"
    by (simp add: registered_tensor_def var_types_def)
  from send_get_round_trip [OF id1 far t, of free_kernel]
  show "\<exists>p st1 r st2.
      send free_kernel (initial_state :: kexpr hook_state)
        (registered_tensor FloatTensor 1 [0] False (Data [1, 2])) [1] False = (Inr p, st1) \<and>
      get free_kernel st1 p = (Inr r, st2) \<and>
      owners (attrs r) = Some [0] \<and> contents (attrs r) = Data [1, 2]"
    by (simp add: registered_tensor_def var_types_def kernel_result_def initial_state_def)
      blast
next
  have id7: "obj_id (attrs example_variable) = Some 7"
    by (simp add: example_variable_def registered_variable_def)
  have far: "(1::nat) \<noteq> local_worker_id (initial_state :: kexpr hook_state)"
    by (simp add: initial_state_def)
  have wf: "class_of (attrs example_variable) \<in> set var_types \<longrightarrow>
      well_formed_variable example_variable"
    by (simp add: example_variable_def registered_variable_def registered_tensor_def)
  have cls: "class_of (attrs example_variable) \<in> set var_types"
    by (simp add: example_variable_def registered_variable_def var_types_def)
  have dat: "data_of example_variable =
      Some (registered_tensor FloatTensor 5 [0] False (Data [1, 2]))"
    by (simp add: example_variable_def registered_variable_def)
  from send_get_round_trip [OF id7 far wf, of free_kernel]
  show "\<exists>p st1 r st2 d.
      send free_kernel (initial_state :: kexpr hook_state) example_variable [1] False
        = (Inr p, st1) \<and>
      get free_kernel st1 p = (Inr r, st2) \<and>
      owners (attrs r) = Some [0] \<and> data_of r = Some d \<and> contents (attrs d) = Data [1, 2]"
    using cls dat
    by (simp add: registered_tensor_def kernel_result_def initial_state_def) blast
qed

end
